theory Spec2Isabelle
  imports Complex_Main "HOL-Library.Sublist"
begin

section \<open>Numeric values and arrays\<close>

text \<open>
  The program computes with numpy arrays of IEEE doubles.  A value is modelled as
  \<open>real option\<close>: \<open>None\<close> is NaN (a missing value), \<open>Some x\<close> a finite number
  with exact real arithmetic.  Rounding and the IEEE infinities are not represented.
  Orders (exponents) are natural numbers.
\<close>

type_synonym npfloat = "real option"

fun lift2 :: "(real \<Rightarrow> real \<Rightarrow> real) \<Rightarrow> npfloat \<Rightarrow> npfloat \<Rightarrow> npfloat" where
  "lift2 f (Some x) (Some y) = Some (f x y)"
| "lift2 f _ _ = None"

definition fadd :: "npfloat \<Rightarrow> npfloat \<Rightarrow> npfloat" where
  "fadd = lift2 (+)"

definition fsub :: "npfloat \<Rightarrow> npfloat \<Rightarrow> npfloat" where
  "fsub = lift2 (-)"

definition fmul :: "npfloat \<Rightarrow> npfloat \<Rightarrow> npfloat" where
  "fmul = lift2 (*)"

text \<open>Division; a zero divisor (numpy: an infinity or NaN) is mapped to NaN.\<close>

fun fdiv :: "npfloat \<Rightarrow> npfloat \<Rightarrow> npfloat" where
  "fdiv (Some x) (Some y) = (if y = 0 then None else Some (x / y))"
| "fdiv _ _ = None"

text \<open>\<open>np.maximum\<close> propagates NaN.\<close>

definition fmaximum :: "npfloat \<Rightarrow> npfloat \<Rightarrow> npfloat" where
  "fmaximum = lift2 max"

fun fsqrt :: "npfloat \<Rightarrow> npfloat" where
  "fsqrt (Some x) = (if x < 0 then None else Some (sqrt x))"
| "fsqrt None = None"

text \<open>\<open>x ** n\<close>: numpy follows IEEE \<open>pow\<close>, so anything to the power 0 is 1, NaN included.\<close>

fun fpow :: "npfloat \<Rightarrow> nat \<Rightarrow> npfloat" where
  "fpow (Some x) n = Some (x ^ n)"
| "fpow None n = (if n = 0 then Some 1 else None)"

fun fabs :: "npfloat \<Rightarrow> npfloat" where
  "fabs (Some x) = Some \<bar>x\<bar>"
| "fabs None = None"

fun isnan :: "npfloat \<Rightarrow> bool" where
  "isnan None = True"
| "isnan (Some x) = False"

text \<open>The non-NaN entries of a flat array.\<close>

definition finite_vals :: "npfloat list \<Rightarrow> real list" where
  "finite_vals xs = map the (filter (\<lambda>v. \<not> isnan v) xs)"

text \<open>\<open>bn.nanmean\<close>: the mean of the non-NaN entries, NaN when there is none.\<close>

definition nanmean :: "npfloat list \<Rightarrow> npfloat" where
  "nanmean xs =
     (let vs = finite_vals xs
      in if vs = [] then None else Some (sum_list vs / real (length vs)))"

text \<open>A two-dimensional array is the list of its rows.\<close>

type_synonym array2 = "npfloat list list"

definition ew1 :: "(npfloat \<Rightarrow> npfloat) \<Rightarrow> array2 \<Rightarrow> array2" where
  "ew1 f a = map (map f) a"

definition ew2 :: "(npfloat \<Rightarrow> npfloat \<Rightarrow> npfloat) \<Rightarrow> array2 \<Rightarrow> array2 \<Rightarrow> array2" where
  "ew2 f a b = map2 (map2 f) a b"

definition nanmean2 :: "array2 \<Rightarrow> npfloat" where
  "nanmean2 a = nanmean (concat a)"

section \<open>Errors, datasets and the helpers of the utility module\<close>

datatype error = ValueError | KeyError | AttributeError | TypeError | IndexError | ZeroDivisionError

definition bind_err :: "error + 'a \<Rightarrow> ('a \<Rightarrow> error + 'b) \<Rightarrow> error + 'b" where
  "bind_err m f = (case m of Inl e \<Rightarrow> Inl e | Inr x \<Rightarrow> f x)"

text \<open>
  A dataset maps names (data variables and coordinates alike) to two-dimensional arrays
  over the two axes of the plane.
\<close>

type_synonym dataset = "(string \<times> array2) list"

definition getvar :: "dataset \<Rightarrow> string \<Rightarrow> error + array2" where
  "getvar subs name = (case map_of subs name of None \<Rightarrow> Inl KeyError | Some a \<Rightarrow> Inr a)"

definition getcoord :: "dataset \<Rightarrow> string \<Rightarrow> error + array2" where
  "getcoord subs name = (case map_of subs name of None \<Rightarrow> Inl AttributeError | Some a \<Rightarrow> Inr a)"

text \<open>
  \<open>fast_shift_2d\<close> and \<open>check_and_reorder_variables_2d\<close> live in the utility module,
  which is not part of the sources at hand; the kernels take them as parameters.
  The reordering helper gets the kernel name (\<open>None\<close> when the call leaves it at its
  default) and may raise.
\<close>

record utils =
  fast_shift_2d :: "array2 \<Rightarrow> nat \<Rightarrow> nat \<Rightarrow> array2"
  check_and_reorder_variables_2d ::
    "string list \<Rightarrow> string list \<Rightarrow> string option \<Rightarrow> error + string list"

text \<open>Modelled from the spec: \<open>fast_shift_2d\<close>, the periodic shift on both axes
  (\<open>cyclic_shift(array, row_offset, col_offset)\<close>).\<close>

definition cyclic_shift :: "array2 \<Rightarrow> nat \<Rightarrow> nat \<Rightarrow> array2" where
  "cyclic_shift a iy ix = rotate iy (map (rotate ix) a)"

text \<open>The order argument: an integer, or a pair for the cross statistics.\<close>

datatype order = Single nat | Pair nat nat

text \<open>One sample batch: the flat arrays (structure function, DX, DY).\<close>

type_synonym batch = "npfloat list \<times> npfloat list \<times> npfloat list"

section \<open>Kernel library\<close>

text \<open>The coordinate arrays of the plane, called \<open>x_coord\<close> and \<open>y_coord\<close>.\<close>

definition plane_coords :: "dataset \<Rightarrow> string list \<Rightarrow> error + (array2 \<times> array2)" where
  "plane_coords subs dims =
     (if dims = [''y'', ''x''] then
        bind_err (getcoord subs ''x'') (\<lambda>x. bind_err (getcoord subs ''y'') (\<lambda>y. Inr (x, y)))
      else if dims = [''z'', ''x''] then
        bind_err (getcoord subs ''x'') (\<lambda>x. bind_err (getcoord subs ''z'') (\<lambda>y. Inr (x, y)))
      else if dims = [''z'', ''y''] then
        bind_err (getcoord subs ''y'') (\<lambda>x. bind_err (getcoord subs ''z'') (\<lambda>y. Inr (x, y)))
      else Inl ValueError)"

text \<open>\<open>fast_shift_2d(a, iy, ix) - a\<close>.\<close>

definition diff_shift :: "utils \<Rightarrow> array2 \<Rightarrow> nat \<Rightarrow> nat \<Rightarrow> array2" where
  "diff_shift u a iy ix = ew2 fsub (fast_shift_2d u a iy ix) a"

text \<open>\<open>np.maximum(np.sqrt(dx**2 + dy**2), 1e-10)\<close>.\<close>

definition sep_norm :: "array2 \<Rightarrow> array2 \<Rightarrow> array2" where
  "sep_norm dx dy =
     ew1 (\<lambda>s. fmaximum s (Some (1 / 10 ^ 10)))
       (ew1 fsqrt (ew2 fadd (ew1 (\<lambda>v. fpow v 2) dx) (ew1 (\<lambda>v. fpow v 2) dy)))"

text \<open>\<open>dcomp1 * (dx/nrm) + dcomp2 * (dy/nrm)\<close>.\<close>

definition delta_parallel :: "array2 \<Rightarrow> array2 \<Rightarrow> array2 \<Rightarrow> array2 \<Rightarrow> array2 \<Rightarrow> array2" where
  "delta_parallel dcomp1 dcomp2 dx dy nrm =
     ew2 fadd (ew2 fmul dcomp1 (ew2 fdiv dx nrm)) (ew2 fmul dcomp2 (ew2 fdiv dy nrm))"

text \<open>\<open>dcomp1 * (dy/nrm) - dcomp2 * (dx/nrm)\<close>.\<close>

definition delta_perp :: "array2 \<Rightarrow> array2 \<Rightarrow> array2 \<Rightarrow> array2 \<Rightarrow> array2 \<Rightarrow> array2" where
  "delta_perp dcomp1 dcomp2 dx dy nrm =
     ew2 fsub (ew2 fmul dcomp1 (ew2 fdiv dy nrm)) (ew2 fmul dcomp2 (ew2 fdiv dx nrm))"

text \<open>
  The double loop \<open>for iy in range(ny): for ix in range(nx)\<close> of every kernel: entry
  \<open>idx = iy * nx + ix\<close> of the three output arrays comes from the loop body at \<open>(iy, ix)\<close>.
\<close>

definition offsets :: "nat \<Rightarrow> nat \<Rightarrow> (nat \<times> nat) list" where
  "offsets ny nx = concat (map (\<lambda>iy. map (\<lambda>ix. (iy, ix)) [0..<nx]) [0..<ny])"

definition kernel_loop :: "(nat \<Rightarrow> nat \<Rightarrow> npfloat \<times> npfloat \<times> npfloat) \<Rightarrow> nat \<Rightarrow> nat \<Rightarrow> batch" where
  "kernel_loop body ny nx =
     (let rows = map (\<lambda>(iy, ix). body iy ix) (offsets ny nx)
      in (map fst rows, map (\<lambda>r. fst (snd r)) rows, map (\<lambda>r. snd (snd r)) rows))"

text \<open>Unpacking \<open>var1, var2 = ...\<close>.\<close>

definition unpack2 :: "'a list \<Rightarrow> error + ('a \<times> 'a)" where
  "unpack2 xs = (case xs of [a, b] \<Rightarrow> Inr (a, b) | _ \<Rightarrow> Inl ValueError)"

text \<open>
  What every kernel does at one offset \<open>(iy, ix)\<close>: the separations \<open>dx\<close>, \<open>dy\<close>, the
  per-point statistic \<open>sf_val\<close> (the kernel's own formula, given \<open>dx\<close> and \<open>dy\<close>), and the
  three domain means stored at \<open>idx\<close>.
\<close>

definition offset_body ::
  "utils \<Rightarrow> array2 \<Rightarrow> array2 \<Rightarrow> (array2 \<Rightarrow> array2 \<Rightarrow> nat \<Rightarrow> nat \<Rightarrow> array2) \<Rightarrow> nat \<Rightarrow> nat
   \<Rightarrow> npfloat \<times> npfloat \<times> npfloat" where
  "offset_body u x_coord y_coord sf iy ix =
     (let dx = diff_shift u x_coord iy ix;
          dy = diff_shift u y_coord iy ix;
          sf_val = sf dx dy iy ix
      in (nanmean2 sf_val, nanmean2 dx, nanmean2 dy))"

definition longitudinal_sf :: "utils \<Rightarrow> array2 \<Rightarrow> array2 \<Rightarrow> nat \<Rightarrow> array2 \<Rightarrow> array2 \<Rightarrow> nat \<Rightarrow> nat \<Rightarrow> array2" where
  "longitudinal_sf u comp1_var comp2_var n dx dy iy ix =
     (let nrm = sep_norm dx dy;
          dcomp1 = diff_shift u comp1_var iy ix;
          dcomp2 = diff_shift u comp2_var iy ix
      in ew1 (\<lambda>v. fpow v n) (delta_parallel dcomp1 dcomp2 dx dy nrm))"

definition calc_longitudinal_2d ::
  "utils \<Rightarrow> dataset \<Rightarrow> string list \<Rightarrow> order \<Rightarrow> string list \<Rightarrow> nat \<Rightarrow> nat \<Rightarrow> error + batch" where
  "calc_longitudinal_2d u subs variables_names ord dims ny nx =
     (if length variables_names \<noteq> 2 then Inl ValueError
      else bind_err (bind_err (check_and_reorder_variables_2d u variables_names dims None) unpack2)
        (\<lambda>(var1, var2).
      bind_err (getvar subs var1) (\<lambda>comp1_var.
      bind_err (getvar subs var2) (\<lambda>comp2_var.
      bind_err (plane_coords subs dims) (\<lambda>(x_coord, y_coord).
        case ord of
          Single n \<Rightarrow> Inr (kernel_loop
            (offset_body u x_coord y_coord (longitudinal_sf u comp1_var comp2_var n)) ny nx)
        | Pair _ _ \<Rightarrow> Inl TypeError)))))"

definition transverse_sf :: "utils \<Rightarrow> array2 \<Rightarrow> array2 \<Rightarrow> nat \<Rightarrow> array2 \<Rightarrow> array2 \<Rightarrow> nat \<Rightarrow> nat \<Rightarrow> array2" where
  "transverse_sf u comp1_var comp2_var n dx dy iy ix =
     (let nrm = sep_norm dx dy;
          dcomp1 = diff_shift u comp1_var iy ix;
          dcomp2 = diff_shift u comp2_var iy ix
      in ew1 (\<lambda>v. fpow v n) (delta_perp dcomp1 dcomp2 dx dy nrm))"

definition calc_transverse_2d ::
  "utils \<Rightarrow> dataset \<Rightarrow> string list \<Rightarrow> order \<Rightarrow> string list \<Rightarrow> nat \<Rightarrow> nat \<Rightarrow> error + batch" where
  "calc_transverse_2d u subs variables_names ord dims ny nx =
     (if length variables_names \<noteq> 2 then Inl ValueError
      else bind_err (bind_err (check_and_reorder_variables_2d u variables_names dims (Some ''transverse'')) unpack2)
        (\<lambda>(var1, var2).
      bind_err (getvar subs var1) (\<lambda>comp1_var.
      bind_err (getvar subs var2) (\<lambda>comp2_var.
      bind_err (plane_coords subs dims) (\<lambda>(x_coord, y_coord).
        case ord of
          Single n \<Rightarrow> Inr (kernel_loop
            (offset_body u x_coord y_coord (transverse_sf u comp1_var comp2_var n)) ny nx)
        | Pair _ _ \<Rightarrow> Inl TypeError)))))"

text \<open>\<open>(dcomp1 ** order) + (dcomp2 ** order)\<close>.\<close>

definition default_vel_sf :: "utils \<Rightarrow> array2 \<Rightarrow> array2 \<Rightarrow> nat \<Rightarrow> array2 \<Rightarrow> array2 \<Rightarrow> nat \<Rightarrow> nat \<Rightarrow> array2" where
  "default_vel_sf u comp1_var comp2_var n dx dy iy ix =
     (let dcomp1 = diff_shift u comp1_var iy ix;
          dcomp2 = diff_shift u comp2_var iy ix
      in ew2 fadd (ew1 (\<lambda>v. fpow v n) dcomp1) (ew1 (\<lambda>v. fpow v n) dcomp2))"

definition calc_default_vel_2d ::
  "utils \<Rightarrow> dataset \<Rightarrow> string list \<Rightarrow> order \<Rightarrow> string list \<Rightarrow> nat \<Rightarrow> nat \<Rightarrow> error + batch" where
  "calc_default_vel_2d u subs variables_names ord dims ny nx =
     (if length variables_names \<noteq> 2 then Inl ValueError
      else bind_err (bind_err (check_and_reorder_variables_2d u variables_names dims (Some ''default_vel'')) unpack2)
        (\<lambda>(var1, var2).
      bind_err (getvar subs var1) (\<lambda>comp1_var.
      bind_err (getvar subs var2) (\<lambda>comp2_var.
      bind_err (plane_coords subs dims) (\<lambda>(x_coord, y_coord).
        case ord of
          Single n \<Rightarrow> Inr (kernel_loop
            (offset_body u x_coord y_coord (default_vel_sf u comp1_var comp2_var n)) ny nx)
        | Pair _ _ \<Rightarrow> Inl TypeError)))))"

text \<open>\<open>dscalar ** order\<close>.\<close>

definition scalar_sf :: "utils \<Rightarrow> array2 \<Rightarrow> nat \<Rightarrow> array2 \<Rightarrow> array2 \<Rightarrow> nat \<Rightarrow> nat \<Rightarrow> array2" where
  "scalar_sf u scalar_var n dx dy iy ix =
     (let dscalar = diff_shift u scalar_var iy ix
      in ew1 (\<lambda>v. fpow v n) dscalar)"

definition calc_scalar_2d ::
  "utils \<Rightarrow> dataset \<Rightarrow> string list \<Rightarrow> order \<Rightarrow> string list \<Rightarrow> nat \<Rightarrow> nat \<Rightarrow> error + batch" where
  "calc_scalar_2d u subs variables_names ord dims ny nx =
     (if length variables_names \<noteq> 1 then Inl ValueError
      else let scalar_name = variables_names ! 0 in
      bind_err (getvar subs scalar_name) (\<lambda>scalar_var.
      bind_err (plane_coords subs dims) (\<lambda>(x_coord, y_coord).
        case ord of
          Single n \<Rightarrow> Inr (kernel_loop
            (offset_body u x_coord y_coord (scalar_sf u scalar_var n)) ny nx)
        | Pair _ _ \<Rightarrow> Inl TypeError)))"

text \<open>\<open>(dscalar1 ** n) * (dscalar2 ** k)\<close>.\<close>

definition scalar_scalar_sf :: "utils \<Rightarrow> array2 \<Rightarrow> array2 \<Rightarrow> nat \<Rightarrow> nat \<Rightarrow> array2 \<Rightarrow> array2 \<Rightarrow> nat \<Rightarrow> nat \<Rightarrow> array2" where
  "scalar_scalar_sf u scalar_var1 scalar_var2 n k dx dy iy ix =
     (let dscalar1 = diff_shift u scalar_var1 iy ix;
          dscalar2 = diff_shift u scalar_var2 iy ix
      in ew2 fmul (ew1 (\<lambda>v. fpow v n) dscalar1) (ew1 (\<lambda>v. fpow v k) dscalar2))"

definition calc_scalar_scalar_2d ::
  "utils \<Rightarrow> dataset \<Rightarrow> string list \<Rightarrow> order \<Rightarrow> string list \<Rightarrow> nat \<Rightarrow> nat \<Rightarrow> error + batch" where
  "calc_scalar_scalar_2d u subs variables_names ord dims ny nx =
     (if length variables_names \<noteq> 2 then Inl ValueError
      else case ord of
        Single _ \<Rightarrow> Inl ValueError
      | Pair n k \<Rightarrow>
          bind_err (unpack2 variables_names) (\<lambda>(var1, var2).
          bind_err (getvar subs var1) (\<lambda>scalar_var1.
          bind_err (getvar subs var2) (\<lambda>scalar_var2.
          bind_err (plane_coords subs dims) (\<lambda>(x_coord, y_coord).
            Inr (kernel_loop
              (offset_body u x_coord y_coord (scalar_scalar_sf u scalar_var1 scalar_var2 n k)) ny nx))))))"

text \<open>\<open>(delta_parallel ** n) * (delta_perp ** k)\<close>.\<close>

definition longitudinal_transverse_sf ::
  "utils \<Rightarrow> array2 \<Rightarrow> array2 \<Rightarrow> nat \<Rightarrow> nat \<Rightarrow> array2 \<Rightarrow> array2 \<Rightarrow> nat \<Rightarrow> nat \<Rightarrow> array2" where
  "longitudinal_transverse_sf u comp1_var comp2_var n k dx dy iy ix =
     (let nrm = sep_norm dx dy;
          dcomp1 = diff_shift u comp1_var iy ix;
          dcomp2 = diff_shift u comp2_var iy ix
      in ew2 fmul (ew1 (\<lambda>v. fpow v n) (delta_parallel dcomp1 dcomp2 dx dy nrm))
                  (ew1 (\<lambda>v. fpow v k) (delta_perp dcomp1 dcomp2 dx dy nrm)))"

definition calc_longitudinal_transverse_2d ::
  "utils \<Rightarrow> dataset \<Rightarrow> string list \<Rightarrow> order \<Rightarrow> string list \<Rightarrow> nat \<Rightarrow> nat \<Rightarrow> error + batch" where
  "calc_longitudinal_transverse_2d u subs variables_names ord dims ny nx =
     (if length variables_names \<noteq> 2 then Inl ValueError
      else case ord of
        Single _ \<Rightarrow> Inl ValueError
      | Pair n k \<Rightarrow>
          bind_err (bind_err (check_and_reorder_variables_2d u variables_names dims
                      (Some ''longitudinal_transverse'')) unpack2) (\<lambda>(var1, var2).
          bind_err (getvar subs var1) (\<lambda>comp1_var.
          bind_err (getvar subs var2) (\<lambda>comp2_var.
          bind_err (plane_coords subs dims) (\<lambda>(x_coord, y_coord).
            Inr (kernel_loop
              (offset_body u x_coord y_coord (longitudinal_transverse_sf u comp1_var comp2_var n k)) ny nx))))))"

text \<open>\<open>vel_vars, scalar_var = tmp[:2], tmp[-1]\<close> followed by \<open>var1, var2 = vel_vars\<close>.\<close>

definition unpack_vel_scalar :: "string list \<Rightarrow> error + (string \<times> string \<times> string)" where
  "unpack_vel_scalar tmp =
     (if tmp = [] then Inl IndexError
      else bind_err (unpack2 (take 2 tmp)) (\<lambda>(var1, var2). Inr (var1, var2, last tmp)))"

text \<open>\<open>(delta_parallel ** n) * (dscalar ** k)\<close>.\<close>

definition longitudinal_scalar_sf ::
  "utils \<Rightarrow> array2 \<Rightarrow> array2 \<Rightarrow> array2 \<Rightarrow> nat \<Rightarrow> nat \<Rightarrow> array2 \<Rightarrow> array2 \<Rightarrow> nat \<Rightarrow> nat \<Rightarrow> array2" where
  "longitudinal_scalar_sf u comp1_var comp2_var scalar_var_values n k dx dy iy ix =
     (let nrm = sep_norm dx dy;
          dcomp1 = diff_shift u comp1_var iy ix;
          dcomp2 = diff_shift u comp2_var iy ix;
          dscalar = diff_shift u scalar_var_values iy ix
      in ew2 fmul (ew1 (\<lambda>v. fpow v n) (delta_parallel dcomp1 dcomp2 dx dy nrm))
                  (ew1 (\<lambda>v. fpow v k) dscalar))"

definition calc_longitudinal_scalar_2d ::
  "utils \<Rightarrow> dataset \<Rightarrow> string list \<Rightarrow> order \<Rightarrow> string list \<Rightarrow> nat \<Rightarrow> nat \<Rightarrow> error + batch" where
  "calc_longitudinal_scalar_2d u subs variables_names ord dims ny nx =
     (if length variables_names \<noteq> 3 then Inl ValueError
      else case ord of
        Single _ \<Rightarrow> Inl ValueError
      | Pair n k \<Rightarrow>
          bind_err (bind_err (check_and_reorder_variables_2d u variables_names dims
                      (Some ''longitudinal_scalar'')) unpack_vel_scalar) (\<lambda>(var1, var2, scalar_var).
          bind_err (getvar subs var1) (\<lambda>comp1_var.
          bind_err (getvar subs var2) (\<lambda>comp2_var.
          bind_err (getvar subs scalar_var) (\<lambda>scalar_var_values.
          bind_err (plane_coords subs dims) (\<lambda>(x_coord, y_coord).
            Inr (kernel_loop
              (offset_body u x_coord y_coord
                 (longitudinal_scalar_sf u comp1_var comp2_var scalar_var_values n k)) ny nx)))))))"

text \<open>\<open>(delta_perp ** n) * (dscalar ** k)\<close>.\<close>

definition transverse_scalar_sf ::
  "utils \<Rightarrow> array2 \<Rightarrow> array2 \<Rightarrow> array2 \<Rightarrow> nat \<Rightarrow> nat \<Rightarrow> array2 \<Rightarrow> array2 \<Rightarrow> nat \<Rightarrow> nat \<Rightarrow> array2" where
  "transverse_scalar_sf u comp1_var comp2_var scalar_var_values n k dx dy iy ix =
     (let nrm = sep_norm dx dy;
          dcomp1 = diff_shift u comp1_var iy ix;
          dcomp2 = diff_shift u comp2_var iy ix;
          dscalar = diff_shift u scalar_var_values iy ix
      in ew2 fmul (ew1 (\<lambda>v. fpow v n) (delta_perp dcomp1 dcomp2 dx dy nrm))
                  (ew1 (\<lambda>v. fpow v k) dscalar))"

definition calc_transverse_scalar_2d ::
  "utils \<Rightarrow> dataset \<Rightarrow> string list \<Rightarrow> order \<Rightarrow> string list \<Rightarrow> nat \<Rightarrow> nat \<Rightarrow> error + batch" where
  "calc_transverse_scalar_2d u subs variables_names ord dims ny nx =
     (if length variables_names \<noteq> 3 then Inl ValueError
      else case ord of
        Single _ \<Rightarrow> Inl ValueError
      | Pair n k \<Rightarrow>
          bind_err (bind_err (check_and_reorder_variables_2d u variables_names dims
                      (Some ''transverse_scalar'')) unpack_vel_scalar) (\<lambda>(var1, var2, scalar_var).
          bind_err (getvar subs var1) (\<lambda>comp1_var.
          bind_err (getvar subs var2) (\<lambda>comp2_var.
          bind_err (getvar subs scalar_var) (\<lambda>scalar_var_values.
          bind_err (plane_coords subs dims) (\<lambda>(x_coord, y_coord).
            Inr (kernel_loop
              (offset_body u x_coord y_coord
                 (transverse_scalar_sf u comp1_var comp2_var scalar_var_values n k)) ny nx)))))))"

text \<open>
  The advective kernel finds the advecting components by their names.  \<open>str.lower\<close> is
  modelled on ASCII letters.
\<close>

definition lower_char :: "char \<Rightarrow> char" where
  "lower_char c = (let k = (of_char c :: nat) in if 65 \<le> k \<and> k \<le> 90 then char_of (k + 32) else c)"

definition lower :: "string \<Rightarrow> string" where
  "lower v = map lower_char v"

definition is_adv :: "string \<Rightarrow> bool" where
  "is_adv v = (prefix ''adv_'' v \<or> sublist ''adv'' (lower v))"

definition expected_components :: "string list \<Rightarrow> error + string list" where
  "expected_components dims =
     (if dims = [''y'', ''x''] then Inr [''u'', ''v'']
      else if dims = [''z'', ''x''] then Inr [''u'', ''w'']
      else if dims = [''z'', ''y''] then Inr [''v'', ''w'']
      else Inl ValueError)"

definition map_to_components :: "string list \<Rightarrow> string list \<Rightarrow> error + string list" where
  "map_to_components vars_list expected =
     (if length vars_list \<noteq> length expected then Inl ValueError
      else let result = map (\<lambda>exp. find (\<lambda>v. sublist exp (lower v)) vars_list) expected
           in if None \<in> set result then Inr vars_list else Inr (map the result))"

text \<open>\<open>(dcomp1 * dadvcomp1 + dcomp2 * dadvcomp2) ** order\<close>.\<close>

definition advective_sf ::
  "utils \<Rightarrow> array2 \<Rightarrow> array2 \<Rightarrow> array2 \<Rightarrow> array2 \<Rightarrow> nat \<Rightarrow> array2 \<Rightarrow> array2 \<Rightarrow> nat \<Rightarrow> nat \<Rightarrow> array2" where
  "advective_sf u comp1_var comp2_var advcomp1_var advcomp2_var n dx dy iy ix =
     (let dcomp1 = diff_shift u comp1_var iy ix;
          dcomp2 = diff_shift u comp2_var iy ix;
          dadvcomp1 = diff_shift u advcomp1_var iy ix;
          dadvcomp2 = diff_shift u advcomp2_var iy ix;
          advective_term = ew2 fadd (ew2 fmul dcomp1 dadvcomp1) (ew2 fmul dcomp2 dadvcomp2)
      in ew1 (\<lambda>v. fpow v n) advective_term)"

definition calc_advective_2d ::
  "utils \<Rightarrow> dataset \<Rightarrow> string list \<Rightarrow> order \<Rightarrow> string list \<Rightarrow> nat \<Rightarrow> nat \<Rightarrow> error + batch" where
  "calc_advective_2d u subs variables_names ord dims ny nx =
     (if length variables_names \<noteq> 4 then Inl ValueError
      else
        let adv_vars0 = filter is_adv variables_names;
            vel_vars0 = filter (\<lambda>v. \<not> is_adv v) variables_names;
            fails = (length vel_vars0 \<noteq> 2 \<or> length adv_vars0 \<noteq> 2);
            vel_vars = (if fails then take 2 variables_names else vel_vars0);
            adv_vars = (if fails then drop 2 variables_names else adv_vars0)
        in
      bind_err (expected_components dims) (\<lambda>expected.
      bind_err (bind_err (map_to_components vel_vars expected) unpack2) (\<lambda>(var1, var2).
      bind_err (bind_err (map_to_components adv_vars expected) unpack2) (\<lambda>(advvar1, advvar2).
      bind_err (getvar subs var1) (\<lambda>comp1_var.
      bind_err (getvar subs var2) (\<lambda>comp2_var.
      bind_err (getvar subs advvar1) (\<lambda>advcomp1_var.
      bind_err (getvar subs advvar2) (\<lambda>advcomp2_var.
      bind_err (plane_coords subs dims) (\<lambda>(x_coord, y_coord).
        case ord of
          Single n \<Rightarrow> Inr (kernel_loop
            (offset_body u x_coord y_coord
               (advective_sf u comp1_var comp2_var advcomp1_var advcomp2_var n)) ny nx)
        | Pair _ _ \<Rightarrow> Inl TypeError)))))))))"

section \<open>Structure-function dispatcher\<close>

text \<open>
  The spacing argument is \<open>None\<close>, an integer or a dictionary from dimension names to
  integers.  The bootstrap index table maps a spacing to a dictionary from dimension names
  to index matrices; a matrix is kept as the list of its columns, so \<open>shape[1]\<close> is the
  length of that list and \<open>m[:, k]\<close> its \<open>k\<close>-th element.  Dictionaries are association
  lists.
\<close>

datatype spacing_arg = SpNone | SpInt int | SpDict "(string \<times> int) list"

type_synonym index_matrix = "nat list list"

type_synonym boot_table = "(int \<times> (string \<times> index_matrix) list) list"

definition item :: "'a list \<Rightarrow> nat \<Rightarrow> error + 'a" where
  "item xs i = (if i < length xs then Inr (xs ! i) else Inl IndexError)"

text \<open>The \<open>for dim in bootstrappable_dims: if dim in spacing ... else: sp_value = 1\<close> loop.\<close>

definition spacing_of_dict :: "string list \<Rightarrow> (string \<times> int) list \<Rightarrow> int" where
  "spacing_of_dict bootstrappable_dims spacing =
     (case find (\<lambda>dm. map_of spacing dm \<noteq> None) bootstrappable_dims of
        Some dm \<Rightarrow> the (map_of spacing dm)
      | None \<Rightarrow> 1)"

text \<open>\<open>ds.isel(subset_dict)\<close>: positional selection along the named axes of every array.\<close>

definition take_idx :: "'a list \<Rightarrow> nat list \<Rightarrow> error + 'a list" where
  "take_idx xs idx = (if \<forall>k \<in> set idx. k < length xs then Inr (map (\<lambda>k. xs ! k) idx) else Inl IndexError)"

fun sequence_err :: "(error + 'a) list \<Rightarrow> error + 'a list" where
  "sequence_err [] = Inr []"
| "sequence_err (m # ms) = bind_err m (\<lambda>x. bind_err (sequence_err ms) (\<lambda>xs. Inr (x # xs)))"

definition isel_array :: "nat list option \<Rightarrow> nat list option \<Rightarrow> array2 \<Rightarrow> error + array2" where
  "isel_array rows cols a =
     bind_err (case rows of None \<Rightarrow> Inr a | Some idx \<Rightarrow> take_idx a idx) (\<lambda>a'.
       case cols of None \<Rightarrow> Inr a' | Some idx \<Rightarrow> sequence_err (map (\<lambda>r. take_idx r idx) a'))"

definition isel :: "string list \<Rightarrow> (string \<times> nat list) list \<Rightarrow> dataset \<Rightarrow> error + dataset" where
  "isel dims subset_dict ds =
     bind_err (item dims 0) (\<lambda>d0. bind_err (item dims 1) (\<lambda>d1.
       sequence_err (map (\<lambda>(name, a).
         bind_err (isel_array (map_of subset_dict d0) (map_of subset_dict d1) a) (\<lambda>a'. Inr (name, a'))) ds)))"

text \<open>The selection dictionary built from the index table and the draw indices.\<close>

definition subset_entry :: "(string \<times> index_matrix) list \<Rightarrow> string \<Rightarrow> nat \<Rightarrow> (string \<times> nat list) list" where
  "subset_entry indexes dm nb_index =
     (case map_of indexes dm of
        Some m \<Rightarrow> (if indexes \<noteq> [] \<and> length m > nb_index then [(dm, m ! nb_index)] else [])
      | None \<Rightarrow> [])"

definition select_subset ::
  "dataset \<Rightarrow> string list \<Rightarrow> nat \<Rightarrow> nat \<Rightarrow> spacing_arg \<Rightarrow> nat \<Rightarrow> string list option \<Rightarrow> boot_table option
   \<Rightarrow> error + dataset" where
  "select_subset ds dims nbx nby spacing num_bootstrappable bootstrappable_dims boot_indexes =
     (case bootstrappable_dims of
        None \<Rightarrow> Inr ds
      | Some bdims \<Rightarrow>
          if \<not> (num_bootstrappable > 0 \<and> bdims \<noteq> []) then Inr ds
          else
            let indexes =
              (case boot_indexes of
                 None \<Rightarrow> []
               | Some table \<Rightarrow>
                   if table \<noteq> [] \<and> spacing \<noteq> SpNone then
                     (let sp_value = (case spacing of SpInt k \<Rightarrow> k
                                      | SpDict d \<Rightarrow> spacing_of_dict bdims d
                                      | SpNone \<Rightarrow> 1)
                      in case map_of table sp_value of Some ix \<Rightarrow> ix | None \<Rightarrow> [])
                   else [])
            in
            bind_err
              (if num_bootstrappable = 1 then
                 bind_err (item bdims 0) (\<lambda>bootstrap_dim.
                 bind_err (item dims 1) (\<lambda>d1.
                   let nb_index = (if bootstrap_dim = d1 then nbx else nby)
                   in Inr (subset_entry indexes bootstrap_dim nb_index)))
               else
                 Inr (concat (map (\<lambda>(i, dm). subset_entry indexes dm (if i = 0 then nby else nbx))
                                (enumerate 0 dims))))
              (\<lambda>subset_dict. if subset_dict \<noteq> [] then isel dims subset_dict ds else Inr ds))"

text \<open>The \<open>if fun == ... elif ...\<close> chain.\<close>

definition kernel_dispatch ::
  "utils \<Rightarrow> string \<Rightarrow> dataset \<Rightarrow> string list \<Rightarrow> order \<Rightarrow> string list \<Rightarrow> nat \<Rightarrow> nat \<Rightarrow> error + batch" where
  "kernel_dispatch u fn subs variables_names ord dims ny nx =
     (if fn = ''longitudinal'' then calc_longitudinal_2d u subs variables_names ord dims ny nx
      else if fn = ''transverse'' then calc_transverse_2d u subs variables_names ord dims ny nx
      else if fn = ''default_vel'' then calc_default_vel_2d u subs variables_names ord dims ny nx
      else if fn = ''scalar'' then calc_scalar_2d u subs variables_names ord dims ny nx
      else if fn = ''scalar_scalar'' then calc_scalar_scalar_2d u subs variables_names ord dims ny nx
      else if fn = ''longitudinal_transverse'' then
        calc_longitudinal_transverse_2d u subs variables_names ord dims ny nx
      else if fn = ''longitudinal_scalar'' then
        calc_longitudinal_scalar_2d u subs variables_names ord dims ny nx
      else if fn = ''transverse_scalar'' then
        calc_transverse_scalar_2d u subs variables_names ord dims ny nx
      else if fn = ''advective'' then calc_advective_2d u subs variables_names ord dims ny nx
      else Inl ValueError)"

definition shape :: "array2 \<Rightarrow> nat \<times> nat" where
  "shape a = (length a, case a of [] \<Rightarrow> 0 | r # _ \<Rightarrow> length r)"

definition calculate_structure_function_2d ::
  "utils \<Rightarrow> dataset \<Rightarrow> string list \<Rightarrow> string list \<Rightarrow> order \<Rightarrow> string \<Rightarrow> nat \<Rightarrow> nat \<Rightarrow> spacing_arg
   \<Rightarrow> nat \<Rightarrow> string list option \<Rightarrow> boot_table option \<Rightarrow> error + batch" where
  "calculate_structure_function_2d u ds dims variables_names ord fn nbx nby spacing
       num_bootstrappable bootstrappable_dims boot_indexes =
     bind_err (select_subset ds dims nbx nby spacing num_bootstrappable bootstrappable_dims boot_indexes)
       (\<lambda>subs.
          if \<exists>var_name \<in> set variables_names. map_of subs var_name = None then Inl ValueError
          else bind_err (item variables_names 0) (\<lambda>v0.
               bind_err (getvar subs v0) (\<lambda>a0.
                 let (ny, nx) = shape a0
                 in kernel_dispatch u fn subs variables_names ord dims ny nx)))"

section \<open>Monte Carlo sampler\<close>

text \<open>
  numpy's global random generator is a state of some type \<open>'g\<close>, with the two library
  calls the sampler makes: \<open>np.random.seed(s)\<close> replaces the state, and
  \<open>np.random.choice(k, size=n)\<close> draws \<open>n\<close> indices below \<open>k\<close> and advances it.
\<close>

record 'g numpy_random =
  seed :: "int \<Rightarrow> 'g"
  choice :: "nat \<Rightarrow> nat \<Rightarrow> 'g \<Rightarrow> nat list \<times> 'g"

text \<open>
  \<open>get_boot_indexes_2d\<close> belongs to the core module, which is not part of the sources at
  hand; the sampler takes it as a parameter.  Its arguments are \<open>dims\<close>, \<open>data_shape\<close>,
  \<open>bootsize\<close>, \<open>all_spacings\<close>, \<open>boot_indexes\<close>, \<open>bootstrappable_dims\<close>,
  \<open>num_bootstrappable\<close> and \<open>sp_value\<close>.
\<close>

type_synonym get_boot_indexes =
  "string list \<Rightarrow> (string \<times> nat) list \<Rightarrow> (string \<times> nat) list \<Rightarrow> int list \<Rightarrow> boot_table
   \<Rightarrow> string list \<Rightarrow> nat \<Rightarrow> int \<Rightarrow> (string \<times> index_matrix) list"

text \<open>What the sampler prints.\<close>

datatype message =
    NoBootstrappableDimensions
  | NoValidIndices string int
  | NotEnoughValidIndices

text \<open>\<open>dict(ds.sizes)\<close>: the length of each of the two axes.\<close>

definition sizes :: "string list \<Rightarrow> dataset \<Rightarrow> (string \<times> nat) list" where
  "sizes dims ds =
     (case ds of
        [] \<Rightarrow> map (\<lambda>d. (d, 0)) dims
      | (_, a) # _ \<Rightarrow> zip dims [fst (shape a), snd (shape a)])"

text \<open>The spacing value the sampler works with.\<close>

definition sampler_spacing :: "string list \<Rightarrow> spacing_arg \<Rightarrow> int" where
  "sampler_spacing bootstrappable_dims spacing =
     (case spacing of
        SpNone \<Rightarrow> 1
      | SpDict d \<Rightarrow> spacing_of_dict bootstrappable_dims d
      | SpInt k \<Rightarrow> k)"

text \<open>The index dictionary of that spacing: from the table, or computed on the fly.\<close>

definition sampler_indexes ::
  "get_boot_indexes \<Rightarrow> dataset \<Rightarrow> string list \<Rightarrow> (string \<times> nat) list \<Rightarrow> int list \<Rightarrow> boot_table
   \<Rightarrow> string list \<Rightarrow> nat \<Rightarrow> int \<Rightarrow> (string \<times> index_matrix) list" where
  "sampler_indexes get_boot_indexes_2d ds dims bootsize all_spacings boot_indexes
       bootstrappable_dims num_bootstrappable sp_value =
     (case map_of boot_indexes sp_value of
        Some ix \<Rightarrow> ix
      | None \<Rightarrow> get_boot_indexes_2d dims (sizes dims ds) bootsize all_spacings boot_indexes
                  bootstrappable_dims num_bootstrappable sp_value)"

text \<open>The number of columns of a dimension's index matrix, if the dimension has one.\<close>

definition ncols :: "(string \<times> index_matrix) list \<Rightarrow> string \<Rightarrow> nat option" where
  "ncols indexes dm = map_option length (map_of indexes dm)"

text \<open>The single evaluation on the full dataset that the three early returns make: the
  dispatcher is called without draw indices, spacing, bootstrappable dimensions or table.\<close>

definition full_dataset_batch ::
  "utils \<Rightarrow> dataset \<Rightarrow> string list \<Rightarrow> string list \<Rightarrow> order \<Rightarrow> string \<Rightarrow> nat \<Rightarrow> error + batch" where
  "full_dataset_batch u ds dims variables_names ord fn num_bootstrappable =
     calculate_structure_function_2d u ds dims variables_names ord fn 0 0 SpNone
       num_bootstrappable None None"

text \<open>\<open>simulate_bootstrap(j)\<close> when one dimension is bootstrappable.\<close>

definition simulate_bootstrap_1 ::
  "utils \<Rightarrow> dataset \<Rightarrow> string list \<Rightarrow> string list \<Rightarrow> order \<Rightarrow> string \<Rightarrow> int \<Rightarrow> nat \<Rightarrow> string list
   \<Rightarrow> boot_table \<Rightarrow> string \<Rightarrow> nat list \<Rightarrow> nat \<Rightarrow> error + batch" where
  "simulate_bootstrap_1 u ds dims variables_names ord fn sp_value num_bootstrappable
       bootstrappable_dims boot_indexes bootstrap_dim random_indices j =
     bind_err (item dims 1) (\<lambda>d1.
     bind_err (item random_indices j) (\<lambda>r.
       if bootstrap_dim = d1 then
         calculate_structure_function_2d u ds dims variables_names ord fn r 0 (SpInt sp_value)
           num_bootstrappable (Some bootstrappable_dims) (Some boot_indexes)
       else
         calculate_structure_function_2d u ds dims variables_names ord fn 0 r (SpInt sp_value)
           num_bootstrappable (Some bootstrappable_dims) (Some boot_indexes)))"

text \<open>\<open>simulate_bootstrap(j)\<close> when both dimensions are bootstrappable.\<close>

definition simulate_bootstrap_2 ::
  "utils \<Rightarrow> dataset \<Rightarrow> string list \<Rightarrow> string list \<Rightarrow> order \<Rightarrow> string \<Rightarrow> int \<Rightarrow> nat \<Rightarrow> string list
   \<Rightarrow> boot_table \<Rightarrow> nat list \<Rightarrow> nat list \<Rightarrow> nat \<Rightarrow> error + batch" where
  "simulate_bootstrap_2 u ds dims variables_names ord fn sp_value num_bootstrappable
       bootstrappable_dims boot_indexes nbx nby j =
     bind_err (item nbx j) (\<lambda>jx.
     bind_err (item nby j) (\<lambda>jy.
       calculate_structure_function_2d u ds dims variables_names ord fn jx jy (SpInt sp_value)
         num_bootstrappable (Some bootstrappable_dims) (Some boot_indexes)))"

text \<open>
  The sampler returns what the source returns or raises, what it printed, and the state of
  the random generator afterwards.  The source returns three parallel lists
  (\<open>sf_results\<close>, \<open>dx_vals\<close>, \<open>dy_vals\<close>); they are kept together as one list of batches.
  The worker pool returns the draws in order, so it is a \<open>map\<close> over \<open>range(nbootstrap)\<close>.
\<close>

definition monte_carlo_simulation_2d ::
  "utils \<Rightarrow> 'g numpy_random \<Rightarrow> get_boot_indexes \<Rightarrow> dataset \<Rightarrow> string list \<Rightarrow> string list \<Rightarrow> order
   \<Rightarrow> nat \<Rightarrow> (string \<times> nat) list \<Rightarrow> nat \<Rightarrow> int list \<Rightarrow> boot_table \<Rightarrow> string list \<Rightarrow> string
   \<Rightarrow> spacing_arg \<Rightarrow> 'g \<Rightarrow> (error + batch list) \<times> message list \<times> 'g" where
  "monte_carlo_simulation_2d u R get_boot_indexes_2d ds dims variables_names ord nbootstrap bootsize
       num_bootstrappable all_spacings boot_indexes bootstrappable_dims fn spacing g =
     (if num_bootstrappable = 0 then
        (bind_err (full_dataset_batch u ds dims variables_names ord fn num_bootstrappable)
           (\<lambda>b. Inr [b]),
         [NoBootstrappableDimensions], g)
      else
        let sp_value = sampler_spacing bootstrappable_dims spacing;
            g1 = seed R 10000000;
            indexes = sampler_indexes get_boot_indexes_2d ds dims bootsize all_spacings boot_indexes
                        bootstrappable_dims num_bootstrappable sp_value
        in
        if num_bootstrappable = 1 then
          (case bootstrappable_dims of
             [] \<Rightarrow> (Inl IndexError, [], g1)
           | bootstrap_dim # _ \<Rightarrow>
               if indexes = [] \<or> ncols indexes bootstrap_dim = None
                  \<or> ncols indexes bootstrap_dim = Some 0 then
                 (bind_err (full_dataset_batch u ds dims variables_names ord fn num_bootstrappable)
                    (\<lambda>b. Inr [b]),
                  [NoValidIndices bootstrap_dim sp_value], g1)
               else
                 let (random_indices, g2) = choice R (the (ncols indexes bootstrap_dim)) nbootstrap g1
                 in (sequence_err (map (simulate_bootstrap_1 u ds dims variables_names ord fn
                                          sp_value num_bootstrappable bootstrappable_dims boot_indexes
                                          bootstrap_dim random_indices) [0..<nbootstrap]),
                     [], g2))
        else
          (case (item dims 0, item dims 1) of
             (Inr d0, Inr d1) \<Rightarrow>
               let valid_y_indices = (case ncols indexes d0 of Some c \<Rightarrow> c > 0 | None \<Rightarrow> False);
                   valid_x_indices = (case ncols indexes d1 of Some c \<Rightarrow> c > 0 | None \<Rightarrow> False)
               in
               if \<not> valid_y_indices \<or> \<not> valid_x_indices then
                 (bind_err (full_dataset_batch u ds dims variables_names ord fn num_bootstrappable)
                    (\<lambda>b. Inr [b]),
                  [NotEnoughValidIndices], g1)
               else
                 let (nby, g2) = choice R (the (ncols indexes d0)) nbootstrap g1;
                     (nbx, g3) = choice R (the (ncols indexes d1)) nbootstrap g2
                 in (sequence_err (map (simulate_bootstrap_2 u ds dims variables_names ord fn
                                          sp_value num_bootstrappable bootstrappable_dims boot_indexes
                                          nbx nby) [0..<nbootstrap]),
                     [], g3)
           | _ \<Rightarrow> (Inl IndexError, [], g1)))"

text \<open>
  The two situations the specification distinguishes, in its words.  Degenerate: no
  bootstrappable dimension, or no usable column in the index table of the requested spacing
  (for the one bootstrappable dimension, or for either axis when both are).  Regular: there
  are bootstrappable dimensions and usable columns.
\<close>

definition has_columns :: "(string \<times> index_matrix) list \<Rightarrow> string \<Rightarrow> bool" where
  "has_columns indexes dm = (case ncols indexes dm of Some c \<Rightarrow> c > 0 | None \<Rightarrow> False)"

definition degenerate_case :: "nat \<Rightarrow> string list \<Rightarrow> string list \<Rightarrow> (string \<times> index_matrix) list \<Rightarrow> bool" where
  "degenerate_case num_bootstrappable dims bootstrappable_dims indexes =
     (num_bootstrappable = 0
      \<or> (num_bootstrappable = 1 \<and> bootstrappable_dims \<noteq> []
           \<and> \<not> has_columns indexes (hd bootstrappable_dims))
      \<or> (num_bootstrappable > 1 \<and> length dims \<ge> 2
           \<and> (\<not> has_columns indexes (dims ! 0) \<or> \<not> has_columns indexes (dims ! 1))))"

definition regular_case :: "nat \<Rightarrow> string list \<Rightarrow> string list \<Rightarrow> (string \<times> index_matrix) list \<Rightarrow> bool" where
  "regular_case num_bootstrappable dims bootstrappable_dims indexes =
     ((num_bootstrappable = 1 \<and> bootstrappable_dims \<noteq> []
           \<and> has_columns indexes (hd bootstrappable_dims))
      \<or> (num_bootstrappable > 1 \<and> length dims \<ge> 2
           \<and> has_columns indexes (dims ! 0) \<and> has_columns indexes (dims ! 1)))"

section \<open>Adaptive binning: what the two engines share\<close>

text \<open>
  \<open>bin_sf_2d\<close> and \<open>get_isotropic_sf_2d\<close> keep the same accumulators and run the same
  initial phase, density computation and refinement loop; they differ in how a batch is
  binned and in their outputs.  The shared part is written once, over any type \<open>'b\<close> of bin
  indices (a pair \<open>(y_idx, x_idx)\<close> for the grid, a radial index for the isotropic engine)
  and with the binning of one batch as a parameter.  An array over the bins is a function
  on bin indices, a dictionary keyed by spacing a function on spacings.  The counters are
  Python and numpy integers, modelled as unbounded \<open>int\<close>; \<open>float32\<close> densities and
  effectiveness scores are exact reals.  The field \<open>rng\<close> is the state of numpy's global
  random generator.
\<close>

record ('b, 'g) acc =
  sf_totals :: "'b \<Rightarrow> real"
  sf_sq_totals :: "'b \<Rightarrow> real"
  weight_totals :: "'b \<Rightarrow> int"
  point_counts :: "'b \<Rightarrow> int"
  bin_density :: "'b \<Rightarrow> real"
  bin_status :: "'b \<Rightarrow> bool"
  bin_bootstraps :: "'b \<Rightarrow> int"
  bootstrap_steps :: "'b \<Rightarrow> int"
  bin_spacing_effectiveness :: "int \<Rightarrow> 'b \<Rightarrow> real"
  bin_spacing_bootstraps :: "int \<Rightarrow> 'b \<Rightarrow> int"
  bin_spacing_counts :: "int \<Rightarrow> 'b \<Rightarrow> int"
  rng :: 'g

text \<open>The arguments of an engine that the shared part reads; \<open>all_bins\<close> lists the bin
  indices in the order of \<open>np.where\<close> (row-major).\<close>

record 'b engine_params =
  all_bins :: "'b list"
  spacing_values :: "int list"
  initial_nbootstrap :: int
  max_nbootstrap :: int
  step_nbootstrap :: int
  convergence_eps :: real

text \<open>The sampler as the engines call it: spacing, number of bootstraps, generator state.\<close>

type_synonym 'g sampler = "int \<Rightarrow> nat \<Rightarrow> 'g \<Rightarrow> (error + batch list) \<times> 'g"

text \<open>The points of a batch that pass \<open>~np.isnan(sf) & ~np.isnan(dx) & ~np.isnan(dy)\<close>.\<close>

definition valid_points :: "batch \<Rightarrow> (real \<times> real \<times> real) list" where
  "valid_points b =
     (case b of (sf, dx, dy) \<Rightarrow>
        map (\<lambda>(s, x, y). (the s, the x, the y))
          (filter (\<lambda>(s, x, y). \<not> isnan s \<and> \<not> isnan x \<and> \<not> isnan y) (zip sf (zip dx dy))))"

text \<open>\<open>np.digitize(x, bins)\<close> for increasing bin edges: the number of edges not above \<open>x\<close>.\<close>

definition digitize :: "real \<Rightarrow> real list \<Rightarrow> int" where
  "digitize x bins = int (length (filter (\<lambda>e. e \<le> x) bins))"

definition clip :: "int \<Rightarrow> int \<Rightarrow> int \<Rightarrow> int" where
  "clip v lo hi = min (max v lo) hi"

text \<open>The bin index along one axis: \<open>np.clip(np.digitize(v, bins) - 1, 0, n_bins - 1)\<close>.\<close>

definition bin_index :: "real list \<Rightarrow> real \<Rightarrow> int" where
  "bin_index bins v = clip (digitize v bins - 1) 0 (int (length bins) - 1 - 1)"

text \<open>\<open>np.unique\<close>: the distinct values in increasing order.\<close>

definition unique :: "int list \<Rightarrow> int list" where
  "unique ids = sort (remdups ids)"

text \<open>
  The body of the loop over the unique bins of one batch, for the bin \<open>b\<close> whose members have
  the values \<open>bin_sf\<close> and the weights \<open>bin_weights\<close>: the counts (when \<open>add_to_counts\<close>) and
  the three accumulators.  \<open>bin_points_added\<close> is local to one call of
  \<open>process_spacing_data\<close>.
\<close>

definition accumulate_bin ::
  "bool \<Rightarrow> int \<Rightarrow> 'b \<Rightarrow> (real \<times> real) list \<Rightarrow> ('b, 'g, 'm) acc_scheme \<times> ('b \<Rightarrow> int)
   \<Rightarrow> ('b, 'g, 'm) acc_scheme \<times> ('b \<Rightarrow> int)" where
  "accumulate_bin add_to_counts sp_value b members st =
     (case st of (s, bin_points_added) \<Rightarrow>
      let bin_sf = map fst members;
          bin_weights = map snd members;
          bin_count = int (length members);
          s1 = (if add_to_counts then
                  s\<lparr>point_counts := (point_counts s)(b := point_counts s b + bin_count),
                    bin_spacing_counts := (bin_spacing_counts s)
                      (sp_value := (bin_spacing_counts s sp_value)
                         (b := bin_spacing_counts s sp_value b + bin_count))\<rparr>
                else s);
          added1 = (if add_to_counts then bin_points_added(b := bin_points_added b + bin_count)
                    else bin_points_added);
          weight_sum = sum_list bin_weights;
          s2 = (if weight_sum > 0 then
                  let norm_weights = map (\<lambda>w. w / weight_sum) bin_weights
                  in s1\<lparr>sf_totals := (sf_totals s1)
                          (b := sf_totals s1 b + sum_list (map2 (*) bin_sf norm_weights)),
                        sf_sq_totals := (sf_sq_totals s1)
                          (b := sf_sq_totals s1 b + sum_list (map2 (\<lambda>v w. v\<^sup>2 * w) bin_sf norm_weights)),
                        weight_totals := (weight_totals s1)(b := weight_totals s1 b + 1)\<rparr>
                else s1)
      in (s2, added1))"

text \<open>The effectiveness update that ends \<open>process_spacing_data\<close>.\<close>

definition update_effectiveness ::
  "int \<Rightarrow> int \<Rightarrow> ('b \<Rightarrow> int) \<Rightarrow> ('b, 'g, 'm) acc_scheme \<Rightarrow> ('b, 'g, 'm) acc_scheme" where
  "update_effectiveness sp_value bootstraps bin_points_added s =
     s\<lparr>bin_spacing_effectiveness := (bin_spacing_effectiveness s)
          (sp_value := (\<lambda>b. if bin_points_added b > 0
                             then real_of_int (bin_points_added b) / real_of_int bootstraps
                             else bin_spacing_effectiveness s sp_value b)),
        bin_spacing_bootstraps := (bin_spacing_bootstraps s)
          (sp_value := (\<lambda>b. if bin_points_added b > 0
                             then bin_spacing_bootstraps s sp_value b + bootstraps
                             else bin_spacing_bootstraps s sp_value b))\<rparr>"

text \<open>
  \<open>process_spacing_data(sp_value, bootstraps, add_to_counts)\<close>, with the sampler and the
  binning of one batch (\<open>process_batch\<close>, the body of the loop over the bootstrap samples)
  as parameters.  An exception of the sampler ends the run.
\<close>

definition process_spacing_data ::
  "'g sampler
   \<Rightarrow> (bool \<Rightarrow> int \<Rightarrow> batch \<Rightarrow> ('b, 'g, 'm) acc_scheme \<times> ('b \<Rightarrow> int) \<Rightarrow> ('b, 'g, 'm) acc_scheme \<times> ('b \<Rightarrow> int))
   \<Rightarrow> int \<Rightarrow> int \<Rightarrow> bool \<Rightarrow> ('b, 'g, 'm) acc_scheme \<Rightarrow> error + ('b, 'g, 'm) acc_scheme" where
  "process_spacing_data smp process_batch sp_value bootstraps add_to_counts s =
     (if bootstraps \<le> 0 then Inr s
      else case smp sp_value (nat bootstraps) (rng s) of
        (Inl e, g') \<Rightarrow> Inl e
      | (Inr batches, g') \<Rightarrow>
          (case fold (process_batch add_to_counts sp_value) batches (s\<lparr>rng := g'\<rparr>, \<lambda>_. 0) of
             (s1, bin_points_added) \<Rightarrow>
               Inr (if add_to_counts \<and> bootstraps > 0
                    then update_effectiveness sp_value bootstraps bin_points_added s1
                    else s1)))"

text \<open>\<open>int(x)\<close> and \<open>astype(int)\<close> round towards zero.\<close>

definition trunc :: "real \<Rightarrow> int" where
  "trunc r = (if 0 \<le> r then \<lfloor>r\<rfloor> else \<lceil>r\<rceil>)"

fun fold_err :: "('a \<Rightarrow> 's \<Rightarrow> error + 's) \<Rightarrow> 'a list \<Rightarrow> 's \<Rightarrow> error + 's" where
  "fold_err f [] s = Inr s"
| "fold_err f (x # xs) s = (case f x s of Inl e \<Rightarrow> Inl e | Inr s' \<Rightarrow> fold_err f xs s')"

text \<open>The initial bootstrap phase.\<close>

definition initial_phase ::
  "(int \<Rightarrow> int \<Rightarrow> bool \<Rightarrow> ('b, 'g, 'm) acc_scheme \<Rightarrow> error + ('b, 'g, 'm) acc_scheme)
   \<Rightarrow> 'b engine_params \<Rightarrow> ('b, 'g, 'm) acc_scheme \<Rightarrow> error + ('b, 'g, 'm) acc_scheme" where
  "initial_phase process P s =
     (if spacing_values P = [] then Inl ZeroDivisionError
      else let init_samples_per_spacing =
                 max 5 (initial_nbootstrap P div int (length (spacing_values P)))
           in fold_err (\<lambda>sp_value. process sp_value init_samples_per_spacing True)
                (spacing_values P) s)"

fun list_max :: "real list \<Rightarrow> real" where
  "list_max [] = 0"
| "list_max (x # xs) = fold max xs x"

text \<open>The bin densities, normalised to a maximum of 1.\<close>

definition compute_density ::
  "'b list \<Rightarrow> ('b \<Rightarrow> real) \<Rightarrow> ('b, 'g, 'm) acc_scheme \<Rightarrow> ('b, 'g, 'm) acc_scheme" where
  "compute_density bins bin_areas s =
     (let total_points = sum_list (map (point_counts s) bins);
          d0 = (if total_points > 0
                then (\<lambda>b. if bin_areas b > 0
                           then real_of_int (point_counts s b) / (bin_areas b * real_of_int total_points)
                           else 0)
                else bin_density s);
          max_density = (if \<exists>b \<in> set bins. d0 b > 0 then list_max (map d0 bins) else 1)
      in s\<lparr>bin_density := (if max_density > 0 then (\<lambda>b. d0 b / max_density) else d0)\<rparr>)"

text \<open>\<open>np.maximum(step_nbootstrap, (step_nbootstrap * (1 + 2 * bin_density)).astype(int))\<close>.\<close>

definition compute_steps :: "'b engine_params \<Rightarrow> ('b, 'g, 'm) acc_scheme \<Rightarrow> ('b, 'g, 'm) acc_scheme" where
  "compute_steps P s =
     s\<lparr>bootstrap_steps :=
         (\<lambda>b. max (step_nbootstrap P)
                 (trunc (real_of_int (step_nbootstrap P) * (1 + 2 * bin_density s b))))\<rparr>"

text \<open>\<open>calculate_bin_statistics()\<close>: the means and the standard deviations.\<close>

definition calculate_bin_statistics ::
  "('b, 'g, 'm) acc_scheme \<Rightarrow> ('b \<Rightarrow> npfloat) \<times> ('b \<Rightarrow> npfloat)" where
  "calculate_bin_statistics s =
     (let means = (\<lambda>b. if weight_totals s b > 0
                        then Some (sf_totals s b / real_of_int (weight_totals s b)) else None);
          stds = (\<lambda>b. if weight_totals s b > 1
                       then Some (sqrt (max 0 (sf_sq_totals s b / real_of_int (weight_totals s b)
                                               - (the (means b))\<^sup>2)))
                       else None)
      in (means, stds))"

text \<open>\<open>std <= convergence_eps\<close>; a comparison with NaN is false.\<close>

definition std_le :: "npfloat \<Rightarrow> real \<Rightarrow> bool" where
  "std_le v eps = (case v of Some x \<Rightarrow> x \<le> eps | None \<Rightarrow> False)"

text \<open>The three masks applied after the initial statistics.\<close>

definition mark_initial :: "'b engine_params \<Rightarrow> ('b, 'g, 'm) acc_scheme \<Rightarrow> ('b, 'g, 'm) acc_scheme" where
  "mark_initial P s =
     (let sf_stds = snd (calculate_bin_statistics s);
          status1 = (\<lambda>b. bin_status s b \<or> (point_counts s b \<le> 10 \<and> \<not> bin_status s b));
          status2 = (\<lambda>b. status1 b \<or> (sf_stds b = None \<and> \<not> status1 b));
          status3 = (\<lambda>b. status2 b \<or> (std_le (sf_stds b) (convergence_eps P) \<and> \<not> status2 b
                                          \<and> point_counts s b > 10))
      in s\<lparr>bin_status := status3\<rparr>)"

text \<open>The mask \<open>unconverged\<close> at the head of the loop.\<close>

definition unconverged :: "'b engine_params \<Rightarrow> ('b, 'g, 'm) acc_scheme \<Rightarrow> 'b \<Rightarrow> bool" where
  "unconverged P s b =
     (\<not> bin_status s b \<and> point_counts s b > 10 \<and> bin_bootstraps s b < max_nbootstrap P)"

text \<open>
  The share of one spacing before the cap: \<open>int(step * proportion)\<close> with
  \<open>proportion = effectiveness / total_effectiveness\<close>, and 0 when the total is not positive.
\<close>

definition share :: "int \<Rightarrow> real \<Rightarrow> real \<Rightarrow> int" where
  "share step total_effectiveness effectiveness =
     (if total_effectiveness > 0
      then trunc (real_of_int step * (effectiveness / total_effectiveness))
      else 0)"

text \<open>
  The loop over \<open>sorted_spacings\<close> that distributes \<open>step\<close> over the spacings: it returns
  \<open>total_additional\<close> and the state after the calls of \<open>process_spacing_data\<close>.
\<close>

fun distribute ::
  "(int \<Rightarrow> int \<Rightarrow> bool \<Rightarrow> 's \<Rightarrow> error + 's) \<Rightarrow> int \<Rightarrow> real \<Rightarrow> (int \<times> real) list \<Rightarrow> int \<Rightarrow> int \<Rightarrow> 's
   \<Rightarrow> error + (int \<times> 's)" where
  "distribute process step total_effectiveness [] remaining_step total_additional s =
     Inr (total_additional, s)"
| "distribute process step total_effectiveness ((sp_value, effectiveness) # rest)
       remaining_step total_additional s =
     (if effectiveness \<le> 0 then
        distribute process step total_effectiveness rest remaining_step total_additional s
      else
        let sp_additional = min (share step total_effectiveness effectiveness) remaining_step
        in case process sp_value sp_additional False s of
             Inl e \<Rightarrow> Inl e
           | Inr s' \<Rightarrow>
               if remaining_step - sp_additional \<le> 0
               then Inr (total_additional + sp_additional, s')
               else distribute process step total_effectiveness rest
                      (remaining_step - sp_additional) (total_additional + sp_additional) s')"

text \<open>\<open>sorted(..., key=..., reverse=True)\<close>: decreasing keys, equal keys in their old order.\<close>

definition sort_desc :: "('a \<Rightarrow> real) \<Rightarrow> 'a list \<Rightarrow> 'a list" where
  "sort_desc key xs = sort_key (\<lambda>x. - key x) xs"

text \<open>The body of the loop over \<open>bin_list\<close> for one bin.\<close>

definition visit_bin ::
  "(int \<Rightarrow> int \<Rightarrow> bool \<Rightarrow> ('b, 'g, 'm) acc_scheme \<Rightarrow> error + ('b, 'g, 'm) acc_scheme)
   \<Rightarrow> 'b engine_params \<Rightarrow> 'b \<Rightarrow> ('b, 'g, 'm) acc_scheme \<Rightarrow> error + ('b, 'g, 'm) acc_scheme" where
  "visit_bin process P b s =
     (if bin_status s b then Inr s
      else
        let step = bootstrap_steps s b;
            spacing_effectiveness = map (\<lambda>sp. (sp, bin_spacing_effectiveness s sp b)) (spacing_values P);
            sorted_spacings = sort_desc snd spacing_effectiveness;
            total_effectiveness = sum_list (map snd (filter (\<lambda>(_, eff). eff > 0) sorted_spacings))
        in case distribute process step total_effectiveness sorted_spacings step 0 s of
             Inl e \<Rightarrow> Inl e
           | Inr (total_additional, s1) \<Rightarrow>
               let s2 = s1\<lparr>bin_bootstraps := (bin_bootstraps s1)(b := bin_bootstraps s1 b + total_additional)\<rparr>;
                   sf_stds = snd (calculate_bin_statistics s2)
               in if std_le (sf_stds b) (convergence_eps P) then
                    Inr (s2\<lparr>bin_status := (bin_status s2)(b := True)\<rparr>)
                  else if bin_bootstraps s2 b \<ge> max_nbootstrap P then
                    Inr (s2\<lparr>bin_status := (bin_status s2)(b := True)\<rparr>)
                  else Inr s2)"

text \<open>The bins of one round, densest first.\<close>

definition bin_list :: "'b engine_params \<Rightarrow> ('b, 'g, 'm) acc_scheme \<Rightarrow> 'b list" where
  "bin_list P s = sort_desc (bin_density s) (filter (unconverged P s) (all_bins P))"

text \<open>One pass of the \<open>while True\<close> loop that does not break.\<close>

definition refinement_round ::
  "(int \<Rightarrow> int \<Rightarrow> bool \<Rightarrow> ('b, 'g, 'm) acc_scheme \<Rightarrow> error + ('b, 'g, 'm) acc_scheme)
   \<Rightarrow> 'b engine_params \<Rightarrow> ('b, 'g, 'm) acc_scheme \<Rightarrow> error + ('b, 'g, 'm) acc_scheme" where
  "refinement_round process P s = fold_err (visit_bin process P) (bin_list P s) s"

text \<open>
  The \<open>while True\<close> loop.  Nothing in the source bounds the number of rounds, so the model
  takes a number of rounds it may run: \<open>None\<close> means the loop has not ended within them,
  \<open>Some (Inl e)\<close> that the sampler raised, \<open>Some (Inr s)\<close> that the loop ended in state \<open>s\<close>.
\<close>

fun refinement_loop ::
  "(int \<Rightarrow> int \<Rightarrow> bool \<Rightarrow> ('b, 'g, 'm) acc_scheme \<Rightarrow> error + ('b, 'g, 'm) acc_scheme)
   \<Rightarrow> 'b engine_params \<Rightarrow> nat \<Rightarrow> ('b, 'g, 'm) acc_scheme \<Rightarrow> (error + ('b, 'g, 'm) acc_scheme) option" where
  "refinement_loop process P 0 s =
     (if filter (unconverged P s) (all_bins P) = [] then Some (Inr s) else None)"
| "refinement_loop process P (Suc n) s =
     (if filter (unconverged P s) (all_bins P) = [] then Some (Inr s)
      else case refinement_round process P s of
             Inl e \<Rightarrow> Some (Inl e)
           | Inr s' \<Rightarrow> refinement_loop process P n s')"

text \<open>Everything between the creation of the accumulators and the loop.\<close>

definition prepare ::
  "(int \<Rightarrow> int \<Rightarrow> bool \<Rightarrow> ('b, 'g, 'm) acc_scheme \<Rightarrow> error + ('b, 'g, 'm) acc_scheme)
   \<Rightarrow> 'b engine_params \<Rightarrow> ('b \<Rightarrow> real) \<Rightarrow> ('b, 'g, 'm) acc_scheme \<Rightarrow> error + ('b, 'g, 'm) acc_scheme" where
  "prepare process P bin_areas s =
     (case initial_phase process P s of
        Inl e \<Rightarrow> Inl e
      | Inr s1 \<Rightarrow> Inr (mark_initial P (compute_steps P (compute_density (all_bins P) bin_areas s1))))"

section \<open>Grid binning engine\<close>

text \<open>The weight of a point, \<open>np.abs(dx * dy)\<close>.\<close>

definition grid_weight :: "real \<times> real \<times> real \<Rightarrow> real" where
  "grid_weight p = (case p of (s, x, y) \<Rightarrow> \<bar>x * y\<bar>)"

text \<open>The bin id \<open>y_index * n_bins_x + x_index\<close> of a point.\<close>

definition grid_bin_id :: "real list \<Rightarrow> real list \<Rightarrow> real \<times> real \<times> real \<Rightarrow> int" where
  "grid_bin_id bins_x bins_y p =
     (case p of (s, x, y) \<Rightarrow>
        bin_index bins_y y * (int (length bins_x) - 1) + bin_index bins_x x)"

text \<open>
  The unique bins of the valid points of one batch, in increasing order of bin id, each with
  the values and weights of its members; \<open>divmod\<close> recovers \<open>(y_idx, x_idx)\<close>, and a bin
  outside the grid is skipped.
\<close>

definition grid_groups ::
  "real list \<Rightarrow> real list \<Rightarrow> (real \<times> real \<times> real) list \<Rightarrow> ((nat \<times> nat) \<times> (real \<times> real) list) list" where
  "grid_groups bins_x bins_y pts =
     (let n_bins_x = int (length bins_x) - 1;
          n_bins_y = int (length bins_y) - 1;
          bin_ids = map (grid_bin_id bins_x bins_y) pts;
          unique_bins = unique bin_ids
      in map (\<lambda>bin_id.
                ((nat (bin_id div n_bins_x), nat (bin_id mod n_bins_x)),
                 map (\<lambda>p. (fst p, grid_weight p))
                   (filter (\<lambda>p. grid_bin_id bins_x bins_y p = bin_id) pts)))
           (filter (\<lambda>bin_id. \<not> (bin_id div n_bins_x < 0 \<or> bin_id div n_bins_x \<ge> n_bins_y
                                 \<or> bin_id mod n_bins_x < 0 \<or> bin_id mod n_bins_x \<ge> n_bins_x))
              unique_bins))"

text \<open>The body of the loop over the bootstrap samples in the grid engine.\<close>

definition grid_process_batch ::
  "real list \<Rightarrow> real list \<Rightarrow> bool \<Rightarrow> int \<Rightarrow> batch
   \<Rightarrow> (nat \<times> nat, 'g, 'm) acc_scheme \<times> (nat \<times> nat \<Rightarrow> int)
   \<Rightarrow> (nat \<times> nat, 'g, 'm) acc_scheme \<times> (nat \<times> nat \<Rightarrow> int)" where
  "grid_process_batch bins_x bins_y add_to_counts sp_value b st =
     (let pts = valid_points b
      in if pts = [] then st
         else fold (\<lambda>(bn, members). accumulate_bin add_to_counts sp_value bn members)
                (grid_groups bins_x bins_y pts) st)"

definition grid_process ::
  "'g sampler \<Rightarrow> real list \<Rightarrow> real list \<Rightarrow> int \<Rightarrow> int \<Rightarrow> bool
   \<Rightarrow> (nat \<times> nat, 'g) acc \<Rightarrow> error + (nat \<times> nat, 'g) acc" where
  "grid_process smp bins_x bins_y = process_spacing_data smp (grid_process_batch bins_x bins_y)"

text \<open>The accumulators as the engines create them.\<close>

definition initial_acc :: "int \<Rightarrow> 'g \<Rightarrow> ('b, 'g) acc" where
  "initial_acc initial_nb g =
     \<lparr>sf_totals = (\<lambda>_. 0), sf_sq_totals = (\<lambda>_. 0), weight_totals = (\<lambda>_. 0),
      point_counts = (\<lambda>_. 0), bin_density = (\<lambda>_. 0), bin_status = (\<lambda>_. False),
      bin_bootstraps = (\<lambda>_. initial_nb), bootstrap_steps = (\<lambda>_. 0),
      bin_spacing_effectiveness = (\<lambda>_ _. 0), bin_spacing_bootstraps = (\<lambda>_ _. 0),
      bin_spacing_counts = (\<lambda>_ _. 0), rng = g\<rparr>"

text \<open>The bins \<open>(y_idx, x_idx)\<close> of the grid, row by row.\<close>

definition grid_bins :: "real list \<Rightarrow> real list \<Rightarrow> (nat \<times> nat) list" where
  "grid_bins bins_x bins_y =
     concat (map (\<lambda>j. map (\<lambda>i. (j, i)) [0..<length bins_x - 1]) [0..<length bins_y - 1])"

text \<open>\<open>np.outer(y_widths, x_widths)\<close>.\<close>

definition grid_bin_areas :: "real list \<Rightarrow> real list \<Rightarrow> nat \<times> nat \<Rightarrow> real" where
  "grid_bin_areas bins_x bins_y b =
     (case b of (j, i) \<Rightarrow> (bins_y ! (j + 1) - bins_y ! j) * (bins_x ! (i + 1) - bins_x ! i))"

definition grid_params ::
  "real list \<Rightarrow> real list \<Rightarrow> int list \<Rightarrow> int \<Rightarrow> int \<Rightarrow> int \<Rightarrow> real \<Rightarrow> (nat \<times> nat) engine_params" where
  "grid_params bins_x bins_y spacings initial_nb max_nb step_nb eps =
     \<lparr>all_bins = grid_bins bins_x bins_y, spacing_values = spacings,
      initial_nbootstrap = initial_nb, max_nbootstrap = max_nb, step_nbootstrap = step_nb,
      convergence_eps = eps\<rparr>"

text \<open>
  What the core module hands to the engines: the results of \<open>validate_dataset_2d\<close>,
  \<open>setup_bootsize_2d\<close>, \<open>calculate_adaptive_spacings_2d\<close> and \<open>compute_boot_indexes_2d\<close>,
  and \<open>get_boot_indexes_2d\<close> itself.  The core module is not part of the sources at hand.
\<close>

record core_setup =
  core_dims :: "string list"
  core_valid_ds :: dataset
  core_bootsize_dict :: "(string \<times> nat) list"
  core_bootstrappable_dims :: "string list"
  core_num_bootstrappable :: nat
  core_all_spacings :: "int list"
  core_boot_indexes :: boot_table
  core_get_boot_indexes_2d :: get_boot_indexes

text \<open>The call of the sampler inside \<open>process_spacing_data\<close>.\<close>

definition engine_sampler ::
  "utils \<Rightarrow> 'g numpy_random \<Rightarrow> core_setup \<Rightarrow> string list \<Rightarrow> order \<Rightarrow> string \<Rightarrow> 'g sampler" where
  "engine_sampler u R c variables_names ord fn sp_value bootstraps g =
     (case monte_carlo_simulation_2d u R (core_get_boot_indexes_2d c) (core_valid_ds c) (core_dims c)
             variables_names ord bootstraps (core_bootsize_dict c) (core_num_bootstrappable c)
             (core_all_spacings c) (core_boot_indexes c) (core_bootstrappable_dims c) fn
             (SpInt sp_value) g of
        (r, printed, g') \<Rightarrow> (r, g'))"

text \<open>
  The per-bin arrays of the output dataset.  Bin centres and the attributes are not
  modelled.
\<close>

record 'b adaptive_output =
  out_sf :: "'b \<Rightarrow> npfloat"
  out_sf_std :: "'b \<Rightarrow> npfloat"
  out_nbootstraps :: "'b \<Rightarrow> int"
  out_density :: "'b \<Rightarrow> real"
  out_point_counts :: "'b \<Rightarrow> int"
  out_converged :: "'b \<Rightarrow> bool"

definition adaptive_output_of :: "('b, 'g, 'm) acc_scheme \<Rightarrow> 'b adaptive_output" where
  "adaptive_output_of s =
     \<lparr>out_sf = fst (calculate_bin_statistics s), out_sf_std = snd (calculate_bin_statistics s),
      out_nbootstraps = bin_bootstraps s, out_density = bin_density s,
      out_point_counts = point_counts s, out_converged = bin_status s\<rparr>"

text \<open>The bootstrapping part of \<open>bin_sf_2d\<close>, from the accumulators to the end of the loop.\<close>

definition grid_adaptive ::
  "'g sampler \<Rightarrow> real list \<Rightarrow> real list \<Rightarrow> (nat \<times> nat) engine_params \<Rightarrow> nat \<Rightarrow> 'g
   \<Rightarrow> (error + (nat \<times> nat, 'g) acc) option" where
  "grid_adaptive smp bins_x bins_y P fuel g =
     (case prepare (grid_process smp bins_x bins_y) P (grid_bin_areas bins_x bins_y)
             (initial_acc (initial_nbootstrap P) g) of
        Inl e \<Rightarrow> Some (Inl e)
      | Inr s \<Rightarrow> refinement_loop (grid_process smp bins_x bins_y) P fuel s)"

text \<open>The output of the path without bootstrappable dimensions.\<close>

record 'b plain_output =
  plain_sf :: "'b \<Rightarrow> npfloat"
  plain_sf_std :: "'b \<Rightarrow> npfloat"
  plain_point_counts :: "'b \<Rightarrow> int"

definition grid_plain :: "real list \<Rightarrow> real list \<Rightarrow> batch \<Rightarrow> (nat \<times> nat) plain_output" where
  "grid_plain bins_x bins_y b =
     fold (\<lambda>(bn, members) out.
             let bin_sf = map fst members;
                 bin_weights = map snd members;
                 weight_sum = sum_list bin_weights;
                 out1 = out\<lparr>plain_point_counts := (plain_point_counts out)(bn := int (length members))\<rparr>
             in if weight_sum > 0 then
                  let norm_weights = map (\<lambda>w. w / weight_sum) bin_weights;
                      m = sum_list (map2 (*) bin_sf norm_weights)
                  in out1\<lparr>plain_sf := (plain_sf out1)(bn := Some m),
                          plain_sf_std := (plain_sf_std out1)
                            (bn := Some (sum_list (map2 (\<lambda>w v. w * (v - m)\<^sup>2) norm_weights bin_sf)))\<rparr>
                else out1)
       (grid_groups bins_x bins_y (valid_points b))
       \<lparr>plain_sf = (\<lambda>_. None), plain_sf_std = (\<lambda>_. None), plain_point_counts = (\<lambda>_. 0)\<rparr>"

datatype 'b engine_output = Plain "'b plain_output" | Adaptive "'b adaptive_output"

text \<open>
  \<open>bin_sf_2d\<close>: the validation of \<open>bins\<close>, then one of the two paths.  \<open>fuel\<close> is the number
  of rounds the refinement loop may run.
\<close>

definition bin_sf_2d ::
  "utils \<Rightarrow> 'g numpy_random \<Rightarrow> core_setup \<Rightarrow> string list \<Rightarrow> order \<Rightarrow> (string \<times> real list) list \<Rightarrow> string
   \<Rightarrow> int \<Rightarrow> int \<Rightarrow> int \<Rightarrow> real \<Rightarrow> nat \<Rightarrow> 'g \<Rightarrow> (error + (nat \<times> nat) engine_output) option" where
  "bin_sf_2d u R c variables_names ord bins fn initial_nb max_nb step_nb eps fuel g =
     (if \<exists>d \<in> set (core_dims c). map_of bins d = None then Some (Inl ValueError)
      else case (item (core_dims c) 1, item (core_dims c) 0) of
        (Inr d1, Inr d0) \<Rightarrow>
          let bins_x = the (map_of bins d1);
              bins_y = the (map_of bins d0)
          in if \<exists>(d, bin_edges) \<in> set bins. length bin_edges < 2 then Some (Inl ValueError)
             else if core_num_bootstrappable c = 0 then
               (case full_dataset_batch u (core_valid_ds c) (core_dims c) variables_names ord fn
                       (core_num_bootstrappable c) of
                  Inl e \<Rightarrow> Some (Inl e)
                | Inr b \<Rightarrow> Some (Inr (Plain (grid_plain bins_x bins_y b))))
             else
               map_option (map_sum id (\<lambda>s. Adaptive (adaptive_output_of s)))
                 (grid_adaptive (engine_sampler u R c variables_names ord fn) bins_x bins_y
                    (grid_params bins_x bins_y (core_all_spacings c) initial_nb max_nb step_nb eps)
                    fuel g)
      | _ \<Rightarrow> Some (Inl IndexError))"

section \<open>Isotropic binning engine\<close>

text \<open>\<open>np.arctan2(y, x)\<close>.\<close>

definition arctan2 :: "real \<Rightarrow> real \<Rightarrow> real" where
  "arctan2 y x =
     (if x > 0 then arctan (y / x)
      else if x < 0 then (if y \<ge> 0 then arctan (y / x) + pi else arctan (y / x) - pi)
      else if y > 0 then pi / 2
      else if y < 0 then - pi / 2
      else 0)"

text \<open>\<open>np.linspace(-np.pi, np.pi, n_bins_theta + 1)\<close>.\<close>

definition theta_edges :: "nat \<Rightarrow> real list" where
  "theta_edges n_bins_theta =
     map (\<lambda>k. - pi + real k * (2 * pi / real n_bins_theta)) [0..<n_bins_theta + 1]"

text \<open>A valid point in polar form: value, \<open>r\<close>, \<open>theta\<close>.\<close>

definition polar :: "real \<times> real \<times> real \<Rightarrow> real \<times> real \<times> real" where
  "polar p = (case p of (s, x, y) \<Rightarrow> (s, sqrt (x\<^sup>2 + y\<^sup>2), arctan2 y x))"

text \<open>The isotropic engine also keeps the angular-radial matrix and its counts.\<close>

record 'g iso_acc = "(nat, 'g) acc" +
  sfr :: "nat \<times> nat \<Rightarrow> npfloat"
  sfr_counts :: "nat \<times> nat \<Rightarrow> int"

text \<open>The update of \<open>sfr\<close> for one angular bin inside one radial bin.\<close>

definition update_sfr ::
  "nat \<Rightarrow> nat \<Rightarrow> (real \<times> real) list \<Rightarrow> 'g iso_acc \<Rightarrow> 'g iso_acc" where
  "update_sfr theta_bin_id r_bin_id members s =
     (let theta_sf = map fst members;
          theta_weights = map snd members;
          theta_weight_sum = sum_list theta_weights
      in if theta_weight_sum > 0 then
           let theta_norm_weights = map (\<lambda>w. w / theta_weight_sum) theta_weights;
               theta_weighted_sf = sum_list (map2 (*) theta_sf theta_norm_weights);
               c = sfr_counts s (theta_bin_id, r_bin_id);
               new = (case sfr s (theta_bin_id, r_bin_id) of
                        None \<Rightarrow> theta_weighted_sf
                      | Some old \<Rightarrow> (old * real_of_int c + theta_weighted_sf) / real_of_int (c + 1))
           in s\<lparr>sfr := (sfr s)((theta_bin_id, r_bin_id) := Some new),
                sfr_counts := (sfr_counts s)((theta_bin_id, r_bin_id) := c + 1)\<rparr>
         else s)"

text \<open>The unique radial bins of the points of one batch, in increasing order, each with its
  members (the mask \<open>r_indices == r_bin_id\<close>).\<close>

definition iso_groups ::
  "real list \<Rightarrow> (real \<times> real \<times> real) list \<Rightarrow> (int \<times> (real \<times> real \<times> real) list) list" where
  "iso_groups r_bins pol =
     map (\<lambda>r_bin_id. (r_bin_id, filter (\<lambda>(s, r, th). bin_index r_bins r = r_bin_id) pol))
       (unique (map (\<lambda>(s, r, th). bin_index r_bins r) pol))"

text \<open>The body of the loop over the unique radial bins of one batch.\<close>

definition iso_radial_bin ::
  "real list \<Rightarrow> bool \<Rightarrow> int \<Rightarrow> int \<times> (real \<times> real \<times> real) list
   \<Rightarrow> 'g iso_acc \<times> (nat \<Rightarrow> int) \<Rightarrow> 'g iso_acc \<times> (nat \<Rightarrow> int)" where
  "iso_radial_bin theta_bins add_to_counts sp_value grp st =
     (case grp of (r_bin_id, members) \<Rightarrow>
        if members = [] then st
        else
          case accumulate_bin add_to_counts sp_value (nat r_bin_id)
                 (map (\<lambda>(s, r, th). (s, r)) members) st of
            (s1, added1) \<Rightarrow>
              (fold (\<lambda>theta_bin_id.
                       update_sfr (nat theta_bin_id) (nat r_bin_id)
                         (map (\<lambda>(s, r, th). (s, r))
                            (filter (\<lambda>(s, r, th). bin_index theta_bins th = theta_bin_id) members)))
                 (unique (map (\<lambda>(s, r, th). bin_index theta_bins th) members)) s1,
               added1))"

text \<open>The body of the loop over the bootstrap samples in the isotropic engine.\<close>

definition iso_process_batch ::
  "real list \<Rightarrow> real list \<Rightarrow> bool \<Rightarrow> int \<Rightarrow> batch
   \<Rightarrow> 'g iso_acc \<times> (nat \<Rightarrow> int) \<Rightarrow> 'g iso_acc \<times> (nat \<Rightarrow> int)" where
  "iso_process_batch r_bins theta_bins add_to_counts sp_value b st =
     (let pts = valid_points b
      in if pts = [] then st
         else fold (iso_radial_bin theta_bins add_to_counts sp_value)
                (iso_groups r_bins (map polar pts)) st)"

definition iso_process ::
  "'g sampler \<Rightarrow> real list \<Rightarrow> real list \<Rightarrow> int \<Rightarrow> int \<Rightarrow> bool \<Rightarrow> 'g iso_acc \<Rightarrow> error + 'g iso_acc" where
  "iso_process smp r_bins theta_bins = process_spacing_data smp (iso_process_batch r_bins theta_bins)"

definition initial_iso_acc :: "int \<Rightarrow> 'g \<Rightarrow> 'g iso_acc" where
  "initial_iso_acc initial_nb g =
     acc.extend (initial_acc initial_nb g)
       (iso_acc.fields (\<lambda>_. None) (\<lambda>_. 0))"

text \<open>\<open>np.pi * (r_bins[1:]**2 - r_bins[:-1]**2)\<close>.\<close>

definition iso_bin_areas :: "real list \<Rightarrow> nat \<Rightarrow> real" where
  "iso_bin_areas r_bins j = pi * ((r_bins ! (j + 1))\<^sup>2 - (r_bins ! j)\<^sup>2)"

definition iso_params :: "real list \<Rightarrow> int list \<Rightarrow> int \<Rightarrow> int \<Rightarrow> int \<Rightarrow> real \<Rightarrow> nat engine_params" where
  "iso_params r_bins spacings initial_nb max_nb step_nb eps =
     \<lparr>all_bins = [0..<length r_bins - 1], spacing_values = spacings,
      initial_nbootstrap = initial_nb, max_nbootstrap = max_nb, step_nbootstrap = step_nb,
      convergence_eps = eps\<rparr>"

text \<open>The bootstrapping part of \<open>get_isotropic_sf_2d\<close>, from the accumulators to the end of
  the loop.\<close>

definition iso_adaptive ::
  "'g sampler \<Rightarrow> real list \<Rightarrow> real list \<Rightarrow> nat engine_params \<Rightarrow> nat \<Rightarrow> 'g
   \<Rightarrow> (error + 'g iso_acc) option" where
  "iso_adaptive smp r_bins theta_bins P fuel g =
     (case prepare (iso_process smp r_bins theta_bins) P (iso_bin_areas r_bins)
             (initial_iso_acc (initial_nbootstrap P) g) of
        Inl e \<Rightarrow> Some (Inl e)
      | Inr s \<Rightarrow> refinement_loop (iso_process smp r_bins theta_bins) P fuel s)"

text \<open>\<open>stats.norm.ppf((1 + 0.95) / 2)\<close>, the 97.5 percent point of the standard normal
  distribution, to the precision of a double.\<close>

definition z_score :: real where
  "z_score = 1.959963984540054"

text \<open>
  The per-bin arrays of the isotropic output dataset, under the names the dataset gives
  them.  The isotropy and homogeneity errors are computed from \<open>sf_polar\<close> after the loop
  and are not modelled.
\<close>

record iso_output =
  iso_sf_polar :: "nat \<times> nat \<Rightarrow> npfloat"
  iso_sf :: "nat \<Rightarrow> npfloat"
  iso_std :: "nat \<Rightarrow> npfloat"
  iso_ci_upper :: "nat \<Rightarrow> npfloat"
  iso_ci_lower :: "nat \<Rightarrow> npfloat"
  iso_n_bootstrap :: "nat \<Rightarrow> int"
  iso_bin_density :: "nat \<Rightarrow> real"
  iso_point_counts :: "nat \<Rightarrow> int"
  iso_converged :: "nat \<Rightarrow> bool"

text \<open>The confidence intervals and the output dataset after the loop.\<close>

definition iso_output_of :: "'g iso_acc \<Rightarrow> iso_output" where
  "iso_output_of s =
     (let sf_means = fst (calculate_bin_statistics s);
          sf_stds = snd (calculate_bin_statistics s);
          has_data = (\<lambda>j. weight_totals s j > 0);
          ci_upper = (\<lambda>j. if has_data j
                           then fadd (sf_means j)
                                  (fdiv (fmul (Some z_score) (sf_stds j))
                                     (Some (sqrt (real_of_int (weight_totals s j)))))
                           else None);
          ci_lower = (\<lambda>j. if has_data j
                           then fsub (sf_means j)
                                  (fdiv (fmul (Some z_score) (sf_stds j))
                                     (Some (sqrt (real_of_int (weight_totals s j)))))
                           else None)
      in \<lparr>iso_sf_polar = sfr s, iso_sf = sf_means, iso_std = sf_stds,
          iso_ci_upper = ci_upper, iso_ci_lower = ci_lower,
          iso_n_bootstrap = bin_bootstraps s, iso_bin_density = bin_density s,
          iso_point_counts = point_counts s, iso_converged = bin_status s\<rparr>)"

text \<open>
  The path of \<open>get_isotropic_sf_2d\<close> without bootstrappable dimensions: the statistics of
  one radial bin from the points that fall into it.
\<close>

record iso_plain_output =
  pl_sf_polar :: "nat \<times> nat \<Rightarrow> npfloat"
  pl_sf :: "nat \<Rightarrow> npfloat"
  pl_std :: "nat \<Rightarrow> npfloat"
  pl_ci_upper :: "nat \<Rightarrow> npfloat"
  pl_ci_lower :: "nat \<Rightarrow> npfloat"
  pl_point_counts :: "nat \<Rightarrow> int"

definition plain_members :: "real list \<Rightarrow> (real \<times> real \<times> real) list \<Rightarrow> nat \<Rightarrow> (real \<times> real \<times> real) list" where
  "plain_members r_bins pol r_idx = filter (\<lambda>(s, r, th). bin_index r_bins r = int r_idx) pol"

definition plain_point_count :: "real list \<Rightarrow> (real \<times> real \<times> real) list \<Rightarrow> nat \<Rightarrow> int" where
  "plain_point_count r_bins pol r_idx = int (length (plain_members r_bins pol r_idx))"

definition plain_mean :: "real list \<Rightarrow> (real \<times> real \<times> real) list \<Rightarrow> nat \<Rightarrow> npfloat" where
  "plain_mean r_bins pol r_idx =
     (let members = plain_members r_bins pol r_idx;
          bin_sf = map fst members;
          bin_weights = map (\<lambda>(s, r, th). r) members;
          weight_sum = sum_list bin_weights
      in if members \<noteq> [] \<and> weight_sum > 0
         then Some (sum_list (map2 (*) bin_sf (map (\<lambda>w. w / weight_sum) bin_weights)))
         else None)"

definition plain_std :: "real list \<Rightarrow> (real \<times> real \<times> real) list \<Rightarrow> nat \<Rightarrow> npfloat" where
  "plain_std r_bins pol r_idx =
     (let members = plain_members r_bins pol r_idx;
          bin_sf = map fst members;
          bin_weights = map (\<lambda>(s, r, th). r) members;
          weight_sum = sum_list bin_weights
      in if members \<noteq> [] \<and> weight_sum > 0
         then Some (sqrt (sum_list (map2 (\<lambda>w v. w * (v - the (plain_mean r_bins pol r_idx))\<^sup>2)
                                      (map (\<lambda>w. w / weight_sum) bin_weights) bin_sf)))
         else None)"

definition plain_sfr :: "real list \<Rightarrow> real list \<Rightarrow> (real \<times> real \<times> real) list \<Rightarrow> nat \<times> nat \<Rightarrow> npfloat" where
  "plain_sfr r_bins theta_bins pol b =
     (case b of (theta_idx, r_idx) \<Rightarrow>
        let members = filter (\<lambda>(s, r, th). bin_index theta_bins th = int theta_idx)
                        (plain_members r_bins pol r_idx);
            theta_sf = map fst members;
            theta_weights = map (\<lambda>(s, r, th). r) members;
            theta_weight_sum = sum_list theta_weights
        in if r_idx < length r_bins - 1 \<and> theta_idx < length theta_bins - 1
              \<and> members \<noteq> [] \<and> theta_weight_sum > 0
           then Some (sum_list (map2 (*) theta_sf (map (\<lambda>w. w / theta_weight_sum) theta_weights)))
           else None)"

text \<open>
  The local arrays \<open>ci_upper\<close> and \<open>ci_lower\<close> of that path, and the dataset built from
  them: the source stores the array \<open>ci_lower\<close> under the name \<open>'ci_upper'\<close> and the array
  \<open>ci_upper\<close> under the name \<open>'ci_lower'\<close>.
\<close>

definition plain_ci_upper_array :: "real list \<Rightarrow> (real \<times> real \<times> real) list \<Rightarrow> nat \<Rightarrow> npfloat" where
  "plain_ci_upper_array r_bins pol j =
     (let m = plain_mean r_bins pol j; sd = plain_std r_bins pol j; c = plain_point_count r_bins pol j
      in if j < length r_bins - 1 \<and> \<not> isnan m then
           (if c > 1 then fadd m (fdiv (fmul (Some z_score) sd) (Some (sqrt (real_of_int c))))
            else if c = 1 then m
            else None)
         else None)"

definition plain_ci_lower_array :: "real list \<Rightarrow> (real \<times> real \<times> real) list \<Rightarrow> nat \<Rightarrow> npfloat" where
  "plain_ci_lower_array r_bins pol j =
     (let m = plain_mean r_bins pol j; sd = plain_std r_bins pol j; c = plain_point_count r_bins pol j
      in if j < length r_bins - 1 \<and> \<not> isnan m then
           (if c > 1 then fsub m (fdiv (fmul (Some z_score) sd) (Some (sqrt (real_of_int c))))
            else if c = 1 then m
            else None)
         else None)"

definition iso_plain :: "real list \<Rightarrow> real list \<Rightarrow> batch \<Rightarrow> error + iso_plain_output" where
  "iso_plain r_bins theta_bins b =
     (let pts = valid_points b
      in if pts = [] then Inl ValueError
         else
           let pol = map polar pts;
               in_range = (\<lambda>j. j < length r_bins - 1)
           in Inr \<lparr>pl_sf_polar = plain_sfr r_bins theta_bins pol,
                   pl_sf = (\<lambda>j. if in_range j then plain_mean r_bins pol j else None),
                   pl_std = (\<lambda>j. if in_range j then plain_std r_bins pol j else None),
                   pl_ci_upper = plain_ci_lower_array r_bins pol,
                   pl_ci_lower = plain_ci_upper_array r_bins pol,
                   pl_point_counts = (\<lambda>j. if in_range j then plain_point_count r_bins pol j else 0)\<rparr>)"

datatype iso_engine_output = IsoPlain iso_plain_output | IsoAdaptive iso_output

text \<open>\<open>get_isotropic_sf_2d\<close>: the validation of \<open>bins\<close>, then one of the two paths.\<close>

definition get_isotropic_sf_2d ::
  "utils \<Rightarrow> 'g numpy_random \<Rightarrow> core_setup \<Rightarrow> string list \<Rightarrow> order \<Rightarrow> (string \<times> real list) list option
   \<Rightarrow> int \<Rightarrow> int \<Rightarrow> int \<Rightarrow> string \<Rightarrow> nat \<Rightarrow> real \<Rightarrow> nat \<Rightarrow> 'g \<Rightarrow> (error + iso_engine_output) option" where
  "get_isotropic_sf_2d u R c variables_names ord bins initial_nb max_nb step_nb fn n_bins_theta eps
       fuel g =
     (case bins of
        None \<Rightarrow> Some (Inl ValueError)
      | Some bd \<Rightarrow>
          (case map_of bd ''r'' of
             None \<Rightarrow> Some (Inl ValueError)
           | Some r_bins \<Rightarrow>
               if length r_bins < 2 then Some (Inl ValueError)
               else
                 let theta_bins = theta_edges n_bins_theta
                 in if core_num_bootstrappable c = 0 then
                      (case full_dataset_batch u (core_valid_ds c) (core_dims c) variables_names ord fn
                              (core_num_bootstrappable c) of
                         Inl e \<Rightarrow> Some (Inl e)
                       | Inr b \<Rightarrow> Some (map_sum id IsoPlain (iso_plain r_bins theta_bins b)))
                    else
                      map_option (map_sum id (\<lambda>s. IsoAdaptive (iso_output_of s)))
                        (iso_adaptive (engine_sampler u R c variables_names ord fn) r_bins theta_bins
                           (iso_params r_bins (core_all_spacings c) initial_nb max_nb step_nb eps)
                           fuel g)))"

section \<open>Notions for the properties of the refinement loop\<close>

text \<open>
  The states at the head of the \<open>while True\<close> loop, round after round, for as many rounds as
  \<open>fuel\<close> allows: the first is the state the loop starts in; the list ends where the loop
  breaks, where the sampler raises, or where the rounds run out.
\<close>

fun loop_states ::
  "(int \<Rightarrow> int \<Rightarrow> bool \<Rightarrow> ('b, 'g, 'm) acc_scheme \<Rightarrow> error + ('b, 'g, 'm) acc_scheme)
   \<Rightarrow> 'b engine_params \<Rightarrow> nat \<Rightarrow> ('b, 'g, 'm) acc_scheme \<Rightarrow> ('b, 'g, 'm) acc_scheme list" where
  "loop_states process P 0 s = [s]"
| "loop_states process P (Suc n) s =
     s # (if filter (unconverged P s) (all_bins P) = [] then []
          else case refinement_round process P s of
                 Inl e \<Rightarrow> []
               | Inr s' \<Rightarrow> loop_states process P n s')"

text \<open>
  What a call of \<open>process_spacing_data\<close> with \<open>add_to_counts=False\<close> leaves alone: the point
  counts, the densities, the step sizes, the effectiveness scores, the flags and the
  consumed-bootstrap counters.
\<close>

definition same_counters :: "('b, 'g, 'm) acc_scheme \<Rightarrow> ('b, 'g, 'm) acc_scheme \<Rightarrow> bool" where
  "same_counters s s' \<longleftrightarrow>
     point_counts s' = point_counts s \<and> bin_density s' = bin_density s
     \<and> bootstrap_steps s' = bootstrap_steps s
     \<and> bin_spacing_effectiveness s' = bin_spacing_effectiveness s
     \<and> bin_status s' = bin_status s \<and> bin_bootstraps s' = bin_bootstraps s"

text \<open>What a visit of a bin leaves alone in every bin: what the allocation is computed from.\<close>

definition same_plan :: "('b, 'g, 'm) acc_scheme \<Rightarrow> ('b, 'g, 'm) acc_scheme \<Rightarrow> bool" where
  "same_plan s s' \<longleftrightarrow>
     point_counts s' = point_counts s \<and> bin_density s' = bin_density s
     \<and> bootstrap_steps s' = bootstrap_steps s
     \<and> bin_spacing_effectiveness s' = bin_spacing_effectiveness s"

text \<open>What no call of \<open>process_spacing_data\<close> touches: the flags and the consumed-bootstrap
  counters.\<close>

definition same_flags :: "('b, 'g, 'm) acc_scheme \<Rightarrow> ('b, 'g, 'm) acc_scheme \<Rightarrow> bool" where
  "same_flags s s' \<longleftrightarrow> bin_status s' = bin_status s \<and> bin_bootstraps s' = bin_bootstraps s"

definition batch_keeps_flags ::
  "(bool \<Rightarrow> int \<Rightarrow> batch \<Rightarrow> ('b, 'g, 'm) acc_scheme \<times> ('b \<Rightarrow> int) \<Rightarrow> ('b, 'g, 'm) acc_scheme \<times> ('b \<Rightarrow> int))
   \<Rightarrow> bool" where
  "batch_keeps_flags pb \<longleftrightarrow> (\<forall>add sp b st. same_flags (fst st) (fst (pb add sp b st)))"

text \<open>A binning of one batch that, with \<open>add_to_counts=False\<close>, leaves the counters and
  \<open>bin_points_added\<close> alone; a processing function that does.\<close>

definition batch_frame ::
  "(bool \<Rightarrow> int \<Rightarrow> batch \<Rightarrow> ('b, 'g, 'm) acc_scheme \<times> ('b \<Rightarrow> int) \<Rightarrow> ('b, 'g, 'm) acc_scheme \<times> ('b \<Rightarrow> int))
   \<Rightarrow> bool" where
  "batch_frame pb \<longleftrightarrow>
     (\<forall>sp b st. same_counters (fst st) (fst (pb False sp b st)) \<and> snd (pb False sp b st) = snd st)"

definition refines_only ::
  "(int \<Rightarrow> int \<Rightarrow> bool \<Rightarrow> ('b, 'g, 'm) acc_scheme \<Rightarrow> error + ('b, 'g, 'm) acc_scheme) \<Rightarrow> bool" where
  "refines_only process \<longleftrightarrow> (\<forall>sp n s s'. process sp n False s = Inr s' \<longrightarrow> same_counters s s')"

text \<open>
  The number \<open>total_additional\<close> that the loop over \<open>sorted_spacings\<close> arrives at, as a
  function of the step and the effectiveness scores alone.
\<close>

fun allocation :: "int \<Rightarrow> real \<Rightarrow> (int \<times> real) list \<Rightarrow> int \<Rightarrow> int \<Rightarrow> int" where
  "allocation step total_effectiveness [] remaining_step total_additional = total_additional"
| "allocation step total_effectiveness ((sp_value, effectiveness) # rest)
       remaining_step total_additional =
     (if effectiveness \<le> 0 then
        allocation step total_effectiveness rest remaining_step total_additional
      else
        let sp_additional = min (share step total_effectiveness effectiveness) remaining_step
        in if remaining_step - sp_additional \<le> 0 then total_additional + sp_additional
           else allocation step total_effectiveness rest
                  (remaining_step - sp_additional) (total_additional + sp_additional))"

text \<open>The bootstraps a visit adds to the counter of bin \<open>b\<close>.\<close>

definition additional :: "'b engine_params \<Rightarrow> ('b, 'g, 'm) acc_scheme \<Rightarrow> 'b \<Rightarrow> int" where
  "additional P s b =
     (let sorted_spacings =
            sort_desc snd (map (\<lambda>sp. (sp, bin_spacing_effectiveness s sp b)) (spacing_values P));
          total_effectiveness = sum_list (map snd (filter (\<lambda>(_, eff). eff > 0) sorted_spacings))
      in allocation (bootstrap_steps s b) total_effectiveness sorted_spacings (bootstrap_steps s b) 0)"

text \<open>The consumed-bootstrap counter of a bin in the result of an engine's loop, if the loop
  has ended without an exception.\<close>

definition final_nbootstraps :: "(error + ('b, 'g, 'm) acc_scheme) option \<Rightarrow> 'b \<Rightarrow> int option" where
  "final_nbootstraps r b = (case r of Some (Inr s) \<Rightarrow> Some (bin_bootstraps s b) | _ \<Rightarrow> None)"

text \<open>
  A batch \<open>b\<close> that, whatever the state, adds \<open>k j\<close> points (when \<open>add_to_counts\<close>),
  \<open>w j\<close> to \<open>weight_totals\<close>, \<open>m j\<close> to \<open>sf_totals\<close> and \<open>q j\<close> to \<open>sf_sq_totals\<close> of every
  bin \<open>j\<close>, and leaves the effectiveness scores, the flags and the counters alone.
\<close>

definition batch_adds ::
  "(bool \<Rightarrow> int \<Rightarrow> batch \<Rightarrow> ('b, 'g, 'm) acc_scheme \<times> ('b \<Rightarrow> int) \<Rightarrow> ('b, 'g, 'm) acc_scheme \<times> ('b \<Rightarrow> int))
   \<Rightarrow> batch \<Rightarrow> ('b \<Rightarrow> int) \<Rightarrow> ('b \<Rightarrow> int) \<Rightarrow> ('b \<Rightarrow> real) \<Rightarrow> ('b \<Rightarrow> real) \<Rightarrow> bool" where
  "batch_adds pb b k w m q \<longleftrightarrow>
     (\<forall>add sp st.
        point_counts (fst (pb add sp b st)) = (\<lambda>j. point_counts (fst st) j + (if add then k j else 0))
      \<and> snd (pb add sp b st) = (\<lambda>j. snd st j + (if add then k j else 0))
      \<and> weight_totals (fst (pb add sp b st)) = (\<lambda>j. weight_totals (fst st) j + w j)
      \<and> sf_totals (fst (pb add sp b st)) = (\<lambda>j. sf_totals (fst st) j + m j)
      \<and> sf_sq_totals (fst (pb add sp b st)) = (\<lambda>j. sf_sq_totals (fst st) j + q j)
      \<and> bin_spacing_effectiveness (fst (pb add sp b st)) = bin_spacing_effectiveness (fst st)
      \<and> bin_status (fst (pb add sp b st)) = bin_status (fst st)
      \<and> bin_bootstraps (fst (pb add sp b st)) = bin_bootstraps (fst st))"

section \<open>Concrete inputs for the witnesses\<close>

text \<open>The periodic shift of the specification, and a reordering helper that keeps the
  order it is given.\<close>

definition example_utils :: utils where
  "example_utils = \<lparr>fast_shift_2d = cyclic_shift, check_and_reorder_variables_2d = (\<lambda>vs _ _. Inr vs)\<rparr>"

text \<open>A generator whose state is a counter and whose every draw is column 0.\<close>

definition example_random :: "int numpy_random" where
  "example_random = \<lparr>seed = (\<lambda>s. s), choice = (\<lambda>k n g. (replicate n 0, g + 1))\<rparr>"

text \<open>A \<open>1 \<times> 2\<close> dataset on the \<open>(y, x)\<close> plane with one scalar field.\<close>

definition example_dataset :: dataset where
  "example_dataset =
     [(''T'', [[Some 1, Some 3]]), (''x'', [[Some 0, Some 1]]), (''y'', [[Some 0, Some 0]])]"

text \<open>A shift that fills with NaN what it moves in from outside the domain, and a
  \<open>1 \<times> 3\<close> dataset for it.\<close>

definition nan_shift :: "array2 \<Rightarrow> nat \<Rightarrow> nat \<Rightarrow> array2" where
  "nan_shift a iy ix =
     map (\<lambda>r. drop ix r @ replicate (min ix (length r)) None)
       (drop iy a @ replicate (min iy (length a)) (map (\<lambda>_. None) (hd a)))"

definition example_shift_utils :: utils where
  "example_shift_utils =
     \<lparr>fast_shift_2d = nan_shift, check_and_reorder_variables_2d = (\<lambda>vs _ _. Inr vs)\<rparr>"

definition example_line_dataset :: dataset where
  "example_line_dataset =
     [(''T'', [[Some 1, Some 3, Some 7]]), (''x'', [[Some 0, Some 1, Some 2]]),
      (''y'', [[Some 0, Some 0, Some 0]])]"

definition example_line_setup :: core_setup where
  "example_line_setup =
     \<lparr>core_dims = [''y'', ''x''], core_valid_ds = example_line_dataset, core_bootsize_dict = [],
      core_bootstrappable_dims = [], core_num_bootstrappable = 0, core_all_spacings = [1],
      core_boot_indexes = [], core_get_boot_indexes_2d = (\<lambda>_ _ _ _ _ _ _ _. [])\<rparr>"

text \<open>The batch of the scalar kernel of order 2 on that dataset, its points in polar form,
  and the output of the path without bootstrappable dimensions for the radial edges
  \<open>[0, 3]\<close> and two angular bins.\<close>

definition example_line_batch :: batch where
  "example_line_batch =
     ([Some 0, Some 10, Some 36], [Some 0, Some 1, Some 2], [Some 0, Some 0, Some 0])"

definition example_line_polar :: "(real \<times> real \<times> real) list" where
  "example_line_polar = [(0, 0, 0), (10, 1, 0), (36, 2, 0)]"

definition example_line_output :: iso_plain_output where
  "example_line_output =
     \<lparr>pl_sf_polar = plain_sfr [0, 3] (theta_edges 2) example_line_polar,
      pl_sf = (\<lambda>j. if j < 1 then plain_mean [0, 3] example_line_polar j else None),
      pl_std = (\<lambda>j. if j < 1 then plain_std [0, 3] example_line_polar j else None),
      pl_ci_upper = plain_ci_lower_array [0, 3] example_line_polar,
      pl_ci_lower = plain_ci_upper_array [0, 3] example_line_polar,
      pl_point_counts = (\<lambda>j. if j < 1 then plain_point_count [0, 3] example_line_polar j else 0)\<rparr>"

text \<open>
  A \<open>1 \<times> 4\<close> dataset with one bootstrappable dimension, \<open>x\<close>, and what the core module
  hands over for it: two spacings, and for each of them an index matrix with the single
  column \<open>0, 1, 2, 3\<close>, so that every draw of \<open>np.random.choice\<close> is column 0, whatever
  the generator.  Every batch of the sampler is then the batch of the scalar kernel of
  order 2 on the whole line.
\<close>

definition example_ramp_dataset :: dataset where
  "example_ramp_dataset =
     [(''T'', [[Some 0, Some 2, Some 4, Some 8]]), (''x'', [[Some 0, Some 1, Some 2, Some 3]]),
      (''y'', [[Some 0, Some 0, Some 0, Some 0]])]"

definition example_ramp_setup :: core_setup where
  "example_ramp_setup =
     \<lparr>core_dims = [''y'', ''x''], core_valid_ds = example_ramp_dataset,
      core_bootsize_dict = [(''x'', 4)], core_bootstrappable_dims = [''x''],
      core_num_bootstrappable = 1, core_all_spacings = [1, 2],
      core_boot_indexes = [(1, [(''x'', [[0, 1, 2, 3]])]), (2, [(''x'', [[0, 1, 2, 3]])])],
      core_get_boot_indexes_2d = (\<lambda>_ _ _ _ _ _ _ _. [])\<rparr>"

definition example_ramp_batch :: batch where
  "example_ramp_batch =
     ([Some 0, Some 8, Some 26, Some 64], [Some 0, Some 1, Some 2, Some 3],
      [Some 0, Some 0, Some 0, Some 0])"

definition example_ramp_sampler :: "int sampler" where
  "example_ramp_sampler =
     engine_sampler example_shift_utils example_random example_ramp_setup [''T''] (Single 2) ''scalar''"

definition example_ramp_polar :: "(real \<times> real \<times> real) list" where
  "example_ramp_polar = [(0, 0, 0), (8, 1, 0), (26, 2, 0), (64, 3, 0)]"

text \<open>
  What one such batch adds to the radial bins with edges \<open>0, 1, 2, 4\<close>: the number of
  points, the batches with a positive sum of weights, the weighted mean and the weighted
  mean of the squares; and the number of points it adds to the bins of the grid with the
  edges \<open>0, 1, 2, 4\<close> along \<open>x\<close> and \<open>0, 1\<close> along \<open>y\<close>.
\<close>

definition example_ramp_counts :: "nat \<Rightarrow> int" where
  "example_ramp_counts j = (if j = 2 then 2 else if j < 2 then 1 else 0)"

definition example_ramp_weights :: "nat \<Rightarrow> int" where
  "example_ramp_weights j = (if j = 1 \<or> j = 2 then 1 else 0)"

definition example_ramp_sums :: "nat \<Rightarrow> real" where
  "example_ramp_sums j = (if j = 1 then 8 else if j = 2 then 244 / 5 else 0)"

definition example_ramp_squares :: "nat \<Rightarrow> real" where
  "example_ramp_squares j = (if j = 1 then 64 else if j = 2 then 2728 else 0)"

definition example_ramp_grid_counts :: "nat \<times> nat \<Rightarrow> int" where
  "example_ramp_grid_counts b = (case b of (jy, jx) \<Rightarrow> if jy = 0 then example_ramp_counts jx else 0)"

section \<open>Elementwise operations, entry by entry\<close>

lemma ew2_nth:
  "i < length a \<Longrightarrow> i < length b \<Longrightarrow> j < length (a ! i) \<Longrightarrow> j < length (b ! i) \<Longrightarrow>
   ew2 f a b ! i ! j = f (a ! i ! j) (b ! i ! j)"
  by (simp add: ew2_def)

lemma ew2_length: "length (ew2 f a b) = min (length a) (length b)"
  by (simp add: ew2_def)

lemma ew2_row_length:
  "i < length a \<Longrightarrow> i < length b \<Longrightarrow> length (ew2 f a b ! i) = min (length (a ! i)) (length (b ! i))"
  by (simp add: ew2_def)

lemma ew1_nth: "i < length a \<Longrightarrow> j < length (a ! i) \<Longrightarrow> ew1 f a ! i ! j = f (a ! i ! j)"
  by (simp add: ew1_def)

lemma ew1_length: "length (ew1 f a) = length a"
  by (simp add: ew1_def)

lemma ew1_row_length: "i < length a \<Longrightarrow> length (ew1 f a ! i) = length (a ! i)"
  by (simp add: ew1_def)

lemma sep_norm_nth:
  assumes "i < length dx" "i < length dy" "j < length (dx ! i)" "j < length (dy ! i)"
    and "dx ! i ! j = Some a" "dy ! i ! j = Some b"
  shows "sep_norm dx dy ! i ! j = Some (max (sqrt (a\<^sup>2 + b\<^sup>2)) (1 / 10 ^ 10))"
  using assms
  by (simp add: sep_norm_def ew1_nth ew2_nth ew1_length ew2_length ew1_row_length ew2_row_length
      fadd_def fmaximum_def not_less)

lemma sep_norm_length: "length (sep_norm dx dy) = min (length dx) (length dy)"
  by (simp add: sep_norm_def ew1_length ew2_length)

lemma sep_norm_row_length:
  "i < length dx \<Longrightarrow> i < length dy \<Longrightarrow>
   length (sep_norm dx dy ! i) = min (length (dx ! i)) (length (dy ! i))"
  by (simp add: sep_norm_def ew1_length ew2_length ew1_row_length ew2_row_length)

section \<open>The sampler: number of batches\<close>

lemma sequence_err_length:
  "sequence_err ms = Inr xs \<Longrightarrow> length xs = length ms"
proof (induction ms arbitrary: xs)
  case Nil
  then show ?case by simp
next
  case (Cons m ms)
  then show ?case
    by (auto simp: bind_err_def split: sum.splits)
qed

lemma has_columns_iff:
  "has_columns indexes dm \<longleftrightarrow> \<not> (ncols indexes dm = None \<or> ncols indexes dm = Some 0)"
  by (auto simp: has_columns_def split: option.splits)

text \<open>Without bootstrappable dimensions the dispatcher passes the dataset on unchanged, so
  \<open>full_dataset_batch\<close> is the kernel on the full dataset.\<close>

lemma select_subset_full:
  "select_subset ds dims nbx nby spacing num_bootstrappable None boot_indexes = Inr ds"
  by (simp add: select_subset_def)

lemmas example_eval =
  full_dataset_batch_def calculate_structure_function_2d_def select_subset_def
  example_dataset_def example_utils_def example_random_def
  bind_err_def item_def getvar_def shape_def kernel_dispatch_def calc_scalar_2d_def
  plane_coords_def getcoord_def kernel_loop_def offsets_def offset_body_def scalar_sf_def
  diff_shift_def cyclic_shift_def ew2_def ew1_def nanmean2_def nanmean_def finite_vals_def
  fsub_def Let_def upt_rec numeral_nat monte_carlo_simulation_2d_def sampler_spacing_def
  sampler_indexes_def ncols_def simulate_bootstrap_1_def subset_entry_def isel_def
  isel_array_def take_idx_def

lemma example_degenerate_run:
  "monte_carlo_simulation_2d example_utils example_random (\<lambda>_ _ _ _ _ _ _ _. []) example_dataset
     [''y'', ''x''] [''T''] (Single 2) 2 [] 0 [1] [] [] ''scalar'' SpNone 7
   = (Inr [([Some 0, Some 4], [Some 0, Some 0], [Some 0, Some 0])], [NoBootstrappableDimensions], 7)"
  by (simp add: example_eval)

lemma example_regular_run:
  "monte_carlo_simulation_2d example_utils example_random (\<lambda>_ _ _ _ _ _ _ _. []) example_dataset
     [''y'', ''x''] [''T''] (Single 2) 2 [(''x'', 1)] 1 [1] [(1, [(''x'', [[0], [1]])])] [''x'']
     ''scalar'' (SpInt 1) 7
   = (Inr [([Some 0], [Some 0], [Some 0]), ([Some 0], [Some 0], [Some 0])], [], 10000001)"
  by (simp add: example_eval)

text \<open>
  Claim C4.  In each degenerate case (no bootstrappable dimension, or no usable column in the
  index table of the requested spacing) the sampler returns what the evaluation on the full
  dataset returns, as a list of exactly one batch, and prints a diagnostic; the degenerate
  condition itself raises nothing.  In the regular case it prints nothing, and when it
  returns it returns exactly \<open>nbootstrap\<close> batches.
\<close>

theorem sampler_batch_count:
  fixes R :: "'g numpy_random" and gbi ds dims bootsize all_spacings boot_indexes
    bootstrappable_dims num_bootstrappable spacing u variables_names ord nbootstrap fn g
  defines "indexes \<equiv> sampler_indexes gbi ds dims bootsize all_spacings boot_indexes
                        bootstrappable_dims num_bootstrappable
                        (sampler_spacing bootstrappable_dims spacing)"
  defines "mc \<equiv> monte_carlo_simulation_2d u R gbi ds dims variables_names ord nbootstrap bootsize
             num_bootstrappable all_spacings boot_indexes bootstrappable_dims fn spacing g"
  shows "(degenerate_case num_bootstrappable dims bootstrappable_dims indexes \<longrightarrow>
            fst mc = bind_err (full_dataset_batch u ds dims variables_names ord fn num_bootstrappable)
                       (\<lambda>b. Inr [b])
            \<and> fst (snd mc) \<noteq> [])
       \<and> (regular_case num_bootstrappable dims bootstrappable_dims indexes \<longrightarrow>
            fst (snd mc) = [] \<and> (\<forall>bs. fst mc = Inr bs \<longrightarrow> length bs = nbootstrap))"
proof -
  have deg: "fst mc = bind_err (full_dataset_batch u ds dims variables_names ord fn num_bootstrappable)
                       (\<lambda>b. Inr [b]) \<and> fst (snd mc) \<noteq> []"
    if d: "degenerate_case num_bootstrappable dims bootstrappable_dims indexes"
    using d unfolding degenerate_case_def mc_def indexes_def monte_carlo_simulation_2d_def Let_def
    by (cases bootstrappable_dims)
       (auto simp: has_columns_iff item_def ncols_def split: list.splits prod.splits sum.splits)
  have reg: "fst (snd mc) = [] \<and> (\<forall>bs. fst mc = Inr bs \<longrightarrow> length bs = nbootstrap)"
    if r: "regular_case num_bootstrappable dims bootstrappable_dims indexes"
    using r unfolding regular_case_def mc_def indexes_def monte_carlo_simulation_2d_def Let_def
    by (cases bootstrappable_dims)
       (auto simp: has_columns_iff item_def ncols_def dest!: sequence_err_length
             split: list.splits prod.splits sum.splits)
  show ?thesis using deg reg by blast
qed

theorem sampler_batch_count_witness:
  "degenerate_case 0 [''y'', ''x''] [] []
   \<and> fst (monte_carlo_simulation_2d example_utils example_random (\<lambda>_ _ _ _ _ _ _ _. [])
            example_dataset [''y'', ''x''] [''T''] (Single 2) 2 [] 0 [1] [] [] ''scalar'' SpNone 7)
       = Inr [([Some 0, Some 4], [Some 0, Some 0], [Some 0, Some 0])]
   \<and> regular_case 1 [''y'', ''x''] [''x''] [(''x'', [[0], [1]])]
   \<and> (\<exists>bs. fst (monte_carlo_simulation_2d example_utils example_random (\<lambda>_ _ _ _ _ _ _ _. [])
                 example_dataset [''y'', ''x''] [''T''] (Single 2) 2 [(''x'', 1)] 1 [1]
                 [(1, [(''x'', [[0], [1]])])] [''x''] ''scalar'' (SpInt 1) 7) = Inr bs
            \<and> length bs = 2)"
proof -
  have d: "degenerate_case 0 [''y'', ''x''] [] []"
    by (simp add: degenerate_case_def)
  have ix: "sampler_indexes (\<lambda>_ _ _ _ _ _ _ _. []) example_dataset [''y'', ''x''] [(''x'', 1)] [1]
              [(1, [(''x'', [[0], [1]])])] [''x''] 1 (sampler_spacing [''x''] (SpInt 1))
            = [(''x'', [[0], [1]])]"
    by (simp add: sampler_indexes_def sampler_spacing_def)
  have r: "regular_case 1 [''y'', ''x''] [''x''] [(''x'', [[0], [1]])]"
    by (simp add: regular_case_def has_columns_def ncols_def)
  note reg = sampler_batch_count[of 1 "[''y'', ''x'']" "[''x'']" "\<lambda>_ _ _ _ _ _ _ _. []"
      example_dataset "[(''x'', 1)]" "[1]" "[(1, [(''x'', [[0], [1]])])]" "SpInt 1"
      example_utils example_random "[''T'']" "Single 2" 2 "''scalar''" 7, unfolded ix]
  note deg = sampler_batch_count[of 0 "[''y'', ''x'']" "[]" "\<lambda>_ _ _ _ _ _ _ _. []"
      example_dataset "[]" "[1]" "[]" SpNone example_utils example_random "[''T'']" "Single 2" 2
      "''scalar''" 7]
  show ?thesis
    using d r reg deg example_degenerate_run example_regular_run by simp
qed

section \<open>The sampler and the state of the random generator\<close>

text \<open>Whatever the state of the generator when the sampler is called, the batches it returns
  and the messages it prints are the same: every draw follows a call of \<open>seed\<close> with the
  fixed seed.\<close>

lemma sampler_ignores_rng_state:
  "fst (monte_carlo_simulation_2d u R gbi ds dims variables_names ord nbootstrap bootsize
          num_bootstrappable all_spacings boot_indexes bootstrappable_dims fn spacing g)
   = fst (monte_carlo_simulation_2d u R gbi ds dims variables_names ord nbootstrap bootsize
          num_bootstrappable all_spacings boot_indexes bootstrappable_dims fn spacing g')"
  by (simp add: monte_carlo_simulation_2d_def Let_def split: list.splits prod.splits sum.splits)

section \<open>A radial bin that a single batch has reached\<close>

lemma update_sfr_totals:
  "weight_totals (update_sfr t r ms s) = weight_totals s"
  "sf_totals (update_sfr t r ms s) = sf_totals s"
  by (simp_all add: update_sfr_def Let_def)

lemma fold_update_sfr_totals:
  "weight_totals (fold (\<lambda>t. update_sfr (f t) r (g t)) ts s) = weight_totals s"
  "sf_totals (fold (\<lambda>t. update_sfr (f t) r (g t)) ts s) = sf_totals s"
  by (induction ts arbitrary: s) (simp_all add: update_sfr_totals)

text \<open>
  Claim C8, as the code has it.  In the output of the bootstrapping path of
  \<open>get_isotropic_sf_2d\<close>, a radial bin with \<open>weight_totals = 1\<close> has its mean, a NaN
  standard deviation, and NaN for both confidence bounds: \<open>mean + z * NaN / sqrt(1)\<close> is
  NaN.  The bounds are not collapsed to the mean.
\<close>

theorem single_batch_bin_ci_is_nan:
  assumes "weight_totals s j = 1"
  shows "iso_sf (iso_output_of s) j = Some (sf_totals s j)
       \<and> iso_std (iso_output_of s) j = None
       \<and> iso_ci_upper (iso_output_of s) j = None
       \<and> iso_ci_lower (iso_output_of s) j = None"
  using assms
  by (simp add: iso_output_of_def calculate_bin_statistics_def Let_def fadd_def fsub_def fmul_def)

lemma example_single_batch_state:
  "weight_totals (fst (iso_process_batch [0, 3] (theta_edges 2) True 1 example_line_batch
        (initial_iso_acc 100 (7::int), \<lambda>_. 0))) 0 = 1"
  "sf_totals (fst (iso_process_batch [0, 3] (theta_edges 2) True 1 example_line_batch
        (initial_iso_acc 100 (7::int), \<lambda>_. 0))) 0 = 82 / 3"
  by (simp_all add: iso_process_batch_def Let_def example_line_batch_def valid_points_def polar_def
      arctan2_def bin_index_def digitize_def clip_def unique_def iso_groups_def iso_radial_bin_def
      accumulate_bin_def initial_iso_acc_def initial_acc_def acc.extend_def iso_acc.fields_def
      split_def fold_update_sfr_totals update_sfr_totals)

theorem single_batch_bin_ci_is_nan_witness:
  "weight_totals (fst (iso_process_batch [0, 3] (theta_edges 2) True 1 example_line_batch
        (initial_iso_acc 100 (7::int), \<lambda>_. 0))) 0 = 1
   \<and> iso_sf (iso_output_of (fst (iso_process_batch [0, 3] (theta_edges 2) True 1 example_line_batch
        (initial_iso_acc 100 (7::int), \<lambda>_. 0)))) 0 = Some (82 / 3)
   \<and> iso_ci_upper (iso_output_of (fst (iso_process_batch [0, 3] (theta_edges 2) True 1
        example_line_batch (initial_iso_acc 100 (7::int), \<lambda>_. 0)))) 0 = None
   \<and> iso_ci_lower (iso_output_of (fst (iso_process_batch [0, 3] (theta_edges 2) True 1
        example_line_batch (initial_iso_acc 100 (7::int), \<lambda>_. 0)))) 0 = None"
  using single_batch_bin_ci_is_nan[OF example_single_batch_state(1)] example_single_batch_state
  by simp

section \<open>Bin assignment\<close>

lemma bin_index_range:
  "2 \<le> length bins \<Longrightarrow> 0 \<le> bin_index bins v \<and> bin_index bins v \<le> int (length bins) - 2"
  by (simp add: bin_index_def clip_def)

lemma bin_index_lt: "2 \<le> length bins \<Longrightarrow> bin_index bins v < int (length bins) - 1"
  using bin_index_range[of bins v] by linarith
















section \<open>What a call of the processing function leaves alone\<close>

lemma same_counters_refl [simp]: "same_counters s s"
  by (simp add: same_counters_def)

lemma same_counters_trans: "same_counters s t \<Longrightarrow> same_counters t u \<Longrightarrow> same_counters s u"
  by (simp add: same_counters_def)

lemma same_counters_rng [simp]: "same_counters s (s\<lparr>rng := g\<rparr>)"
  by (simp add: same_counters_def)

lemma accumulate_bin_same':
  "accumulate_bin False sp b ms st = (s', a') \<Longrightarrow> same_counters (fst st) s' \<and> a' = snd st"
  by (cases st) (auto simp: accumulate_bin_def Let_def same_counters_def split: if_splits)

lemma fold_accumulate_same:
  "fold (\<lambda>(bn, members). accumulate_bin False sp bn members) gs st = (s', a')
   \<Longrightarrow> same_counters (fst st) s' \<and> a' = snd st"
proof (induction gs arbitrary: st)
  case Nil
  then show ?case by auto
next
  case (Cons g gs)
  obtain bn ms where g: "g = (bn, ms)" by (cases g)
  obtain s1 a1 where st1: "accumulate_bin False sp bn ms st = (s1, a1)" by fastforce
  from Cons.prems g st1 have "fold (\<lambda>(bn, members). accumulate_bin False sp bn members) gs (s1, a1) = (s', a')"
    by simp
  from Cons.IH[OF this] accumulate_bin_same'[OF st1] show ?case
    by (auto intro: same_counters_trans)
qed

lemma grid_process_batch_same:
  "grid_process_batch bx by False sp b st = (s', a') \<Longrightarrow> same_counters (fst st) s' \<and> a' = snd st"
  by (auto simp: grid_process_batch_def Let_def dest: fold_accumulate_same split: if_splits)

lemma update_sfr_same: "same_counters s (update_sfr t r ms s)"
  by (simp add: update_sfr_def Let_def same_counters_def)

lemma fold_same:
  assumes "\<And>t s. same_counters s (h t s)"
  shows "same_counters s (fold h ts s)"
proof (induction ts arbitrary: s)
  case Nil
  then show ?case by simp
next
  case (Cons t ts)
  show ?case
    using same_counters_trans[OF assms[of s t] Cons.IH[of "h t s"]] by simp
qed

lemma iso_radial_bin_same:
  "iso_radial_bin tb False sp grp st = (s', a') \<Longrightarrow> same_counters (fst st) s' \<and> a' = snd st"
proof -
  assume h: "iso_radial_bin tb False sp grp st = (s', a')"
  obtain rid ms where grp: "grp = (rid, ms)" by (cases grp)
  show ?thesis
  proof (cases "ms = []")
    case True
    with h grp show ?thesis by (cases st) (simp add: iso_radial_bin_def)
  next
    case False
    obtain s1 a1 where acc: "accumulate_bin False sp (nat rid) (map (\<lambda>(s, r, th). (s, r)) ms) st = (s1, a1)"
      by fastforce
    from h grp False acc have s': "s' = fold (\<lambda>theta_bin_id.
                       update_sfr (nat theta_bin_id) (nat rid)
                         (map (\<lambda>(s, r, th). (s, r))
                            (filter (\<lambda>(s, r, th). bin_index tb th = theta_bin_id) ms)))
                 (unique (map (\<lambda>(s, r, th). bin_index tb th) ms)) s1" and a': "a' = a1"
      by (simp_all add: iso_radial_bin_def)
    have "same_counters s1 s'"
      unfolding s' by (rule fold_same) (rule update_sfr_same)
    with accumulate_bin_same'[OF acc] a'
    show ?thesis by (auto intro: same_counters_trans)
  qed
qed

lemma fold_iso_radial_same:
  "fold (iso_radial_bin tb False sp) gs st = (s', a') \<Longrightarrow> same_counters (fst st) s' \<and> a' = snd st"
proof (induction gs arbitrary: st)
  case Nil
  then show ?case by auto
next
  case (Cons g gs)
  obtain s1 a1 where st1: "iso_radial_bin tb False sp g st = (s1, a1)" by fastforce
  from Cons.prems st1 have "fold (iso_radial_bin tb False sp) gs (s1, a1) = (s', a')" by simp
  from Cons.IH[OF this] iso_radial_bin_same[OF st1] show ?case
    by (auto intro: same_counters_trans)
qed

lemma iso_process_batch_same:
  "iso_process_batch rb tb False sp b st = (s', a') \<Longrightarrow> same_counters (fst st) s' \<and> a' = snd st"
  by (auto simp: iso_process_batch_def Let_def dest: fold_iso_radial_same split: if_splits)

text \<open>The frame of \<open>process_spacing_data\<close> in refinement mode, for any binning of a batch
  that has it.\<close>

lemma fold_batches_same:
  assumes pb: "batch_frame pb"
  shows "same_counters (fst st) (fst (fold (pb False sp) bs st)) \<and> snd (fold (pb False sp) bs st) = snd st"
proof (induction bs arbitrary: st)
  case Nil
  then show ?case by auto
next
  case (Cons b bs)
  from pb have 1: "same_counters (fst st) (fst (pb False sp b st))" "snd (pb False sp b st) = snd st"
    unfolding batch_frame_def by blast+
  from Cons.IH[of "pb False sp b st"] 1 show ?case
    by (auto intro: same_counters_trans)
qed

lemma process_spacing_data_same:
  assumes pb: "batch_frame pb"
    and run: "process_spacing_data smp pb sp n False s = Inr s'"
  shows "same_counters s s'"
proof (cases "n \<le> 0")
  case True
  with run show ?thesis by (simp add: process_spacing_data_def)
next
  case False
  from run False obtain batches g' where smp: "smp sp (nat n) (rng s) = (Inr batches, g')"
    by (auto simp: process_spacing_data_def split: prod.splits sum.splits)
  from run False smp have "s' = fst (fold (pb False sp) batches (s\<lparr>rng := g'\<rparr>, \<lambda>_. 0))"
    by (simp add: process_spacing_data_def split: prod.splits)
  with fold_batches_same[OF pb, where st = "(s\<lparr>rng := g'\<rparr>, \<lambda>_. 0)" and sp = sp and bs = batches]
  show ?thesis
    by (simp add: same_counters_def)
qed

lemma grid_batch_frame: "batch_frame (grid_process_batch bx by)"
  unfolding batch_frame_def
proof (intro allI)
  fix sp b st
  obtain s' a' where "grid_process_batch bx by False sp b st = (s', a')" by fastforce
  from grid_process_batch_same[OF this] this
  show "same_counters (fst st) (fst (grid_process_batch bx by False sp b st)) \<and>
          snd (grid_process_batch bx by False sp b st) = snd st" by simp
qed

lemma iso_batch_frame: "batch_frame (iso_process_batch rb tb)"
  unfolding batch_frame_def
proof (intro allI)
  fix sp b st
  obtain s' a' where "iso_process_batch rb tb False sp b st = (s', a')" by fastforce
  from iso_process_batch_same[OF this] this
  show "same_counters (fst st) (fst (iso_process_batch rb tb False sp b st)) \<and>
          snd (iso_process_batch rb tb False sp b st) = snd st" by simp
qed

lemma grid_process_same:
  "grid_process smp bx by sp n False s = Inr s' \<Longrightarrow> same_counters s s'"
  unfolding grid_process_def by (rule process_spacing_data_same[OF grid_batch_frame])

lemma iso_process_same:
  "iso_process smp rb tb sp n False s = Inr s' \<Longrightarrow> same_counters s s'"
  unfolding iso_process_def by (rule process_spacing_data_same[OF iso_batch_frame])

section \<open>The allocation of one visit\<close>

lemma grid_refines_only: "refines_only (grid_process smp bx by)"
  unfolding refines_only_def by (blast intro: grid_process_same)

lemma iso_refines_only: "refines_only (iso_process smp rb tb)"
  unfolding refines_only_def by (blast intro: iso_process_same)

lemma distribute_allocation:
  assumes "refines_only process"
  shows "distribute process step te xs rem tot s = Inr (t, s')
         \<Longrightarrow> t = allocation step te xs rem tot \<and> same_counters s s'"
proof (induction xs arbitrary: rem tot s)
  case Nil
  then show ?case by simp
next
  case (Cons x xs)
  obtain sp eff where x: "x = (sp, eff)" by (cases x)
  show ?case
  proof (cases "eff \<le> 0")
    case True
    with Cons x show ?thesis by simp
  next
    case False
    define a where "a = min (share step te eff) rem"
    from Cons.prems x False obtain s1 where p: "process sp a False s = Inr s1"
      by (auto simp: Let_def a_def split: sum.splits)
    from assms p have f1: "same_counters s s1" by (auto simp: refines_only_def)
    show ?thesis
    proof (cases "rem - a \<le> 0")
      case True
      with Cons.prems x False p f1 show ?thesis
        by (simp add: Let_def a_def[symmetric])
    next
      case r: False
      with Cons.prems x False p
      have "distribute process step te xs (rem - a) (tot + a) s1 = Inr (t, s')"
        by (simp add: Let_def a_def[symmetric])
      from Cons.IH[OF this] f1 r x False show ?thesis
        by (auto simp: Let_def a_def[symmetric] intro: same_counters_trans)
    qed
  qed
qed




lemma additional_cong:
  "same_counters s s' \<Longrightarrow> additional P s' b = additional P s b"
  by (simp add: additional_def same_counters_def)


text \<open>What a visit does to the counters.\<close>

lemma visit_bin_skip: "bin_status s b \<Longrightarrow> visit_bin process P b s = Inr s"
  by (simp add: visit_bin_def)

lemma visit_bin_effect:
  assumes ro: "refines_only process" and v: "visit_bin process P b s = Inr s'"
    and nb: "\<not> bin_status s b"
  shows "point_counts s' = point_counts s \<and> bin_density s' = bin_density s
      \<and> bootstrap_steps s' = bootstrap_steps s
      \<and> bin_spacing_effectiveness s' = bin_spacing_effectiveness s
      \<and> bin_bootstraps s' = (bin_bootstraps s)(b := bin_bootstraps s b + additional P s b)
      \<and> (\<forall>b'. b' \<noteq> b \<longrightarrow> bin_status s' b' = bin_status s b')
      \<and> (bin_status s' b \<or> bin_bootstraps s' b < max_nbootstrap P)"
proof -
  define srt where "srt = sort_desc snd (map (\<lambda>sp. (sp, bin_spacing_effectiveness s sp b)) (spacing_values P))"
  define te where "te = sum_list (map snd (filter (\<lambda>(_, eff). eff > 0) srt))"
  from v nb obtain t s1 where
    d: "distribute process (bootstrap_steps s b) te srt (bootstrap_steps s b) 0 s = Inr (t, s1)"
    by (auto simp: visit_bin_def Let_def srt_def te_def split: sum.splits prod.splits)
  from distribute_allocation[OF ro d] have t: "t = additional P s b" and f: "same_counters s s1"
    by (simp_all add: additional_def Let_def srt_def te_def)
  define s2 where "s2 = s1\<lparr>bin_bootstraps := (bin_bootstraps s1)(b := bin_bootstraps s1 b + t)\<rparr>"
  from v nb d have s': "s' = (if std_le (snd (calculate_bin_statistics s2) b) (convergence_eps P)
                               then s2\<lparr>bin_status := (bin_status s2)(b := True)\<rparr>
                             else if bin_bootstraps s2 b \<ge> max_nbootstrap P
                               then s2\<lparr>bin_status := (bin_status s2)(b := True)\<rparr>
                             else s2)"
    by (auto simp: visit_bin_def Let_def srt_def[symmetric] te_def[symmetric] s2_def
        split: if_splits)
  show ?thesis
    using f t unfolding s' s2_def same_counters_def by auto
qed

section \<open>The effect of one round\<close>

lemma same_plan_refl [simp]: "same_plan s s"
  by (simp add: same_plan_def)

lemma same_plan_trans: "same_plan s t \<Longrightarrow> same_plan t u \<Longrightarrow> same_plan s u"
  by (simp add: same_plan_def)

lemma additional_plan: "same_plan s s' \<Longrightarrow> additional P s' b = additional P s b"
  by (simp add: additional_def same_plan_def)

lemma visit_bin_plan:
  assumes "refines_only process" "visit_bin process P b s = Inr s'"
  shows "same_plan s s'"
proof (cases "bin_status s b")
  case True
  with assms(2) show ?thesis by (simp add: visit_bin_skip)
next
  case False
  from visit_bin_effect[OF assms False] show ?thesis by (simp add: same_plan_def)
qed

text \<open>A pass over a list of distinct bins that are not yet flagged.\<close>

lemma fold_visit_effect:
  assumes ro: "refines_only process"
  shows "fold_err (visit_bin process P) L s = Inr s' \<Longrightarrow> distinct L
         \<Longrightarrow> \<forall>b \<in> set L. \<not> bin_status s b
         \<Longrightarrow> same_plan s s'
           \<and> (\<forall>b. b \<notin> set L \<longrightarrow> bin_bootstraps s' b = bin_bootstraps s b
                                   \<and> bin_status s' b = bin_status s b)
           \<and> (\<forall>b \<in> set L. bin_bootstraps s' b = bin_bootstraps s b + additional P s b
                            \<and> (bin_status s' b \<or> bin_bootstraps s' b < max_nbootstrap P))"
proof (induction L arbitrary: s)
  case Nil
  then show ?case by simp
next
  case (Cons a L)
  from Cons.prems(1) obtain s1 where v: "visit_bin process P a s = Inr s1"
    and rest: "fold_err (visit_bin process P) L s1 = Inr s'"
    by (auto split: sum.splits)
  from Cons.prems(3) have na: "\<not> bin_status s a" by simp
  from visit_bin_effect[OF ro v na]
  have plan1: "same_plan s s1"
    and bb1: "bin_bootstraps s1 = (bin_bootstraps s)(a := bin_bootstraps s a + additional P s a)"
    and st1: "\<And>b'. b' \<noteq> a \<Longrightarrow> bin_status s1 b' = bin_status s b'"
    and fin1: "bin_status s1 a \<or> bin_bootstraps s1 a < max_nbootstrap P"
    unfolding same_plan_def by blast+
  from Cons.prems(2) have dl: "distinct L" and anl: "a \<notin> set L" by auto
  have ns1: "\<forall>b \<in> set L. \<not> bin_status s1 b"
  proof
    fix b assume b: "b \<in> set L"
    with anl have "b \<noteq> a" by auto
    with st1 Cons.prems(3) b show "\<not> bin_status s1 b" by simp
  qed
  from Cons.IH[OF rest dl ns1]
  have plan2: "same_plan s1 s'"
    and out2: "\<And>b. b \<notin> set L \<Longrightarrow> bin_bootstraps s' b = bin_bootstraps s1 b \<and> bin_status s' b = bin_status s1 b"
    and in2: "\<And>b. b \<in> set L \<Longrightarrow> bin_bootstraps s' b = bin_bootstraps s1 b + additional P s1 b
                            \<and> (bin_status s' b \<or> bin_bootstraps s' b < max_nbootstrap P)"
    by blast+
  have plan: "same_plan s s'" by (rule same_plan_trans[OF plan1 plan2])
  have out: "bin_bootstraps s' b = bin_bootstraps s b \<and> bin_status s' b = bin_status s b"
    if "b \<notin> set (a # L)" for b
  proof -
    from that have "b \<notin> set L" "b \<noteq> a" by auto
    with out2[of b] bb1 st1[of b] show ?thesis by simp
  qed
  have inn: "bin_bootstraps s' b = bin_bootstraps s b + additional P s b
             \<and> (bin_status s' b \<or> bin_bootstraps s' b < max_nbootstrap P)"
    if "b \<in> set (a # L)" for b
  proof (cases "b = a")
    case True
    with out2[OF anl] bb1 fin1 show ?thesis by simp
  next
    case False
    with that have bl: "b \<in> set L" by simp
    from False bb1 have "bin_bootstraps s1 b = bin_bootstraps s b" by simp
    with in2[OF bl] additional_plan[OF plan1, of P b] show ?thesis by auto
  qed
  show ?case
  proof (intro conjI allI ballI impI)
    show "same_plan s s'" by (rule plan)
  next
    fix b assume "b \<notin> set (a # L)"
    from out[OF this] show "bin_bootstraps s' b = bin_bootstraps s b" "bin_status s' b = bin_status s b"
      by simp_all
  next
    fix b assume "b \<in> set (a # L)"
    from inn[OF this]
    show "bin_bootstraps s' b = bin_bootstraps s b + additional P s b"
      "bin_status s' b \<or> bin_bootstraps s' b < max_nbootstrap P"
      by blast+
  qed
qed

lemma bin_list_set: "set (bin_list P s) = {b \<in> set (all_bins P). unconverged P s b}"
  by (simp add: bin_list_def sort_desc_def)

lemma bin_list_distinct: "distinct (all_bins P) \<Longrightarrow> distinct (bin_list P s)"
  by (simp add: bin_list_def sort_desc_def)

lemma bin_list_empty: "bin_list P s = [] \<longleftrightarrow> filter (unconverged P s) (all_bins P) = []"
  unfolding bin_list_def sort_desc_def
  by (simp only: set_empty[symmetric] set_sort)

lemma round_effect:
  assumes ro: "refines_only process" and d: "distinct (all_bins P)"
    and r: "refinement_round process P s = Inr s'"
  shows "same_plan s s'
       \<and> (\<forall>b. b \<notin> set (bin_list P s) \<longrightarrow> bin_bootstraps s' b = bin_bootstraps s b
                                   \<and> bin_status s' b = bin_status s b)
       \<and> (\<forall>b \<in> set (bin_list P s). bin_bootstraps s' b = bin_bootstraps s b + additional P s b
                            \<and> (bin_status s' b \<or> bin_bootstraps s' b < max_nbootstrap P))"
proof -
  have ns: "\<forall>b \<in> set (bin_list P s). \<not> bin_status s b"
    by (simp add: bin_list_set unconverged_def)
  show ?thesis
    by (rule fold_visit_effect[OF ro r[unfolded refinement_round_def] bin_list_distinct[OF d] ns])
qed

lemma loop_states_invariant:
  assumes q0: "Q s0"
    and step: "\<forall>s s'. Q s \<longrightarrow> refinement_round process P s = Inr s' \<longrightarrow> Q s'"
  shows "\<forall>s \<in> set (loop_states process P fuel s0). Q s"
  using q0
proof (induction fuel arbitrary: s0)
  case 0
  then show ?case by simp
next
  case (Suc n)
  show ?case
  proof (cases "refinement_round process P s0")
    case (Inl e)
    with Suc.prems show ?thesis by simp
  next
    case (Inr s')
    from step Suc.prems Inr have "Q s'" by blast
    from Suc.IH[OF this] Suc.prems Inr show ?thesis by simp
  qed
qed

lemma refinement_loop_in_states:
  "refinement_loop process P fuel s0 = Some (Inr s) \<Longrightarrow> s \<in> set (loop_states process P fuel s0)"
proof (induction fuel arbitrary: s0)
  case 0
  then show ?case by (simp split: if_splits)
next
  case (Suc n)
  show ?case
  proof (cases "filter (unconverged P s0) (all_bins P) = []")
    case True
    with Suc.prems show ?thesis by simp
  next
    case False
    with Suc.prems obtain s' where r: "refinement_round process P s0 = Inr s'"
      and l: "refinement_loop process P n s' = Some (Inr s)"
      by (auto split: sum.splits)
    from Suc.IH[OF l] False r show ?thesis by simp
  qed
qed

section \<open>The consumed-bootstrap counters round after round\<close>


lemma sorted_cons_hd:
  fixes x :: int
  shows "xs = y # ys \<Longrightarrow> x \<le> y \<Longrightarrow> sorted xs \<Longrightarrow> sorted (x # xs)"
  by auto


lemma round_plan:
  assumes "refines_only process" "distinct (all_bins P)" "refinement_round process P s = Inr s'"
  shows "same_plan s s'"
  using round_effect[OF assms] by blast



lemma low_count_never_visited:
  assumes ro: "refines_only process" and d: "distinct (all_bins P)"
    and low: "point_counts s0 b \<le> 10" and flagged: "bin_status s0 b"
  shows "\<forall>s \<in> set (loop_states process P fuel s0). bin_status s b \<and> b \<notin> set (bin_list P s)"
proof -
  define Q where "Q = (\<lambda>s. same_plan s0 s \<and> bin_status s b)"
  have q0: "Q s0" using flagged by (simp add: Q_def)
  have step: "Q s'" if q: "Q s" and r: "refinement_round process P s = Inr s'" for s s'
  proof -
    from q have pl: "same_plan s0 s" and fl: "bin_status s b" by (simp_all add: Q_def)
    from fl have "b \<notin> set (bin_list P s)" by (simp add: bin_list_set unconverged_def)
    with round_effect[OF ro d r] have "bin_status s' b = bin_status s b" by blast
    with fl same_plan_trans[OF pl round_plan[OF ro d r]] show ?thesis by (simp add: Q_def)
  qed
  have "\<forall>s \<in> set (loop_states process P fuel s0). Q s"
  proof (rule loop_states_invariant[where Q = Q])
    show "Q s0" by (rule q0)
    show "\<forall>s s'. Q s \<longrightarrow> refinement_round process P s = Inr s' \<longrightarrow> Q s'"
      using step by blast
  qed
  then show ?thesis
    by (simp add: Q_def bin_list_set unconverged_def)
qed

section \<open>When the loop ends\<close>


section \<open>The flags and the counters before the loop\<close>

lemma same_flags_refl [simp]: "same_flags s s"
  by (simp add: same_flags_def)

lemma same_flags_trans: "same_flags s t \<Longrightarrow> same_flags t u \<Longrightarrow> same_flags s u"
  by (simp add: same_flags_def)

lemma accumulate_bin_flags: "same_flags (fst st) (fst (accumulate_bin add sp b ms st))"
  by (cases st) (simp add: accumulate_bin_def Let_def same_flags_def)

lemma fold_flags:
  assumes "\<forall>x st. same_flags (fst st) (fst (h x st))"
  shows "same_flags (fst st) (fst (fold h xs st))"
proof (induction xs arbitrary: st)
  case Nil
  then show ?case by simp
next
  case (Cons x xs)
  from assms have "same_flags (fst st) (fst (h x st))" by blast
  from same_flags_trans[OF this Cons.IH[of "h x st"]] show ?case by simp
qed

lemma grid_process_batch_flags:
  "same_flags (fst st) (fst (grid_process_batch bx by add sp b st))"
proof -
  have "same_flags (fst st) (fst (fold (\<lambda>(bn, members). accumulate_bin add sp bn members) gs st))" for gs
    by (rule fold_flags) (simp add: split_def accumulate_bin_flags)
  then show ?thesis
    by (simp add: grid_process_batch_def Let_def)
qed

lemma grid_batch_keeps_flags: "batch_keeps_flags (grid_process_batch bx by)"
  unfolding batch_keeps_flags_def by (simp add: grid_process_batch_flags)

lemma update_sfr_flags: "same_flags s (update_sfr t r ms s)"
  by (simp add: update_sfr_def Let_def same_flags_def)

lemma fold_flags_state:
  assumes "\<And>x s. same_flags s (h x s)"
  shows "same_flags s (fold h xs s)"
proof (induction xs arbitrary: s)
  case Nil
  then show ?case by simp
next
  case (Cons x xs)
  show ?case
    using same_flags_trans[OF assms[of s x] Cons.IH[of "h x s"]] by simp
qed

lemma iso_radial_bin_flags: "same_flags (fst st) (fst (iso_radial_bin tb add sp grp st))"
proof -
  obtain rid ms where grp: "grp = (rid, ms)" by (cases grp)
  show ?thesis
  proof (cases "ms = []")
    case True
    with grp show ?thesis by (simp add: iso_radial_bin_def)
  next
    case False
    obtain s1 a1 where acc: "accumulate_bin add sp (nat rid) (map (\<lambda>(s, r, th). (s, r)) ms) st = (s1, a1)"
      by fastforce
    from accumulate_bin_flags[of st add sp "nat rid" "map (\<lambda>(s, r, th). (s, r)) ms"] acc
    have 1: "same_flags (fst st) s1" by simp
    have 2: "same_flags s1 (fold (\<lambda>theta_bin_id.
                       update_sfr (nat theta_bin_id) (nat rid)
                         (map (\<lambda>(s, r, th). (s, r))
                            (filter (\<lambda>(s, r, th). bin_index tb th = theta_bin_id) ms)))
                 (unique (map (\<lambda>(s, r, th). bin_index tb th) ms)) s1)"
      by (rule fold_flags_state) (rule update_sfr_flags)
    from same_flags_trans[OF 1 2] grp False acc show ?thesis
      by (simp add: iso_radial_bin_def)
  qed
qed

lemma iso_process_batch_flags:
  "same_flags (fst st) (fst (iso_process_batch rb tb add sp b st))"
proof -
  have "same_flags (fst st) (fst (fold (iso_radial_bin tb add sp) gs st))" for gs
    by (rule fold_flags) (simp add: iso_radial_bin_flags)
  then show ?thesis
    by (simp add: iso_process_batch_def Let_def)
qed

lemma iso_batch_keeps_flags: "batch_keeps_flags (iso_process_batch rb tb)"
  unfolding batch_keeps_flags_def by (simp add: iso_process_batch_flags)

lemma process_spacing_data_flags:
  assumes pb: "batch_keeps_flags pb"
    and run: "process_spacing_data smp pb sp n add s = Inr s'"
  shows "same_flags s s'"
proof (cases "n \<le> 0")
  case True
  with run show ?thesis by (simp add: process_spacing_data_def)
next
  case False
  from run False obtain batches g' where smp: "smp sp (nat n) (rng s) = (Inr batches, g')"
    by (auto simp: process_spacing_data_def split: prod.splits sum.splits)
  define st1 where "st1 = fold (pb add sp) batches (s\<lparr>rng := g'\<rparr>, \<lambda>_. 0)"
  from pb have "\<forall>x st. same_flags (fst st) (fst (pb add sp x st))"
    unfolding batch_keeps_flags_def by blast
  from fold_flags[OF this, where st = "(s\<lparr>rng := g'\<rparr>, \<lambda>_. 0)" and xs = batches]
  have 1: "same_flags s (fst st1)" by (simp add: same_flags_def st1_def)
  from run False smp have "s' = fst st1 \<or> s' = update_effectiveness sp n (snd st1) (fst st1)"
    by (auto simp: process_spacing_data_def st1_def split: prod.splits if_splits)
  with 1 show ?thesis by (auto simp: same_flags_def update_effectiveness_def)
qed

lemma fold_err_flags:
  assumes "\<And>x s s'. f x s = Inr s' \<Longrightarrow> same_flags s s'"
  shows "fold_err f xs s = Inr s' \<Longrightarrow> same_flags s s'"
proof (induction xs arbitrary: s)
  case Nil
  then show ?case by simp
next
  case (Cons x xs)
  from Cons.prems obtain s1 where 1: "f x s = Inr s1" and 2: "fold_err f xs s1 = Inr s'"
    by (auto split: sum.splits)
  from same_flags_trans[OF assms[OF 1] Cons.IH[OF 2]] show ?case .
qed

lemma prepare_facts:
  assumes pb: "batch_keeps_flags pb"
    and p: "prepare (process_spacing_data smp pb) P areas s = Inr s0"
    and ns: "\<forall>b. \<not> bin_status s b"
  shows "bin_bootstraps s0 = bin_bootstraps s"
    and "\<forall>b. step_nbootstrap P \<le> bootstrap_steps s0 b"
    and "\<forall>b. point_counts s0 b \<le> 10 \<longrightarrow> bin_status s0 b"
proof -
  from p obtain s1 where ip: "initial_phase (process_spacing_data smp pb) P s = Inr s1"
    and s0: "s0 = mark_initial P (compute_steps P (compute_density (all_bins P) areas s1))"
    by (auto simp: prepare_def split: sum.splits)
  have "same_flags s s1"
  proof (cases "spacing_values P = []")
    case True
    with ip show ?thesis by (simp add: initial_phase_def)
  next
    case False
    with ip have "fold_err (\<lambda>sp_value. process_spacing_data smp pb sp_value
            (max 5 (initial_nbootstrap P div int (length (spacing_values P)))) True)
                (spacing_values P) s = Inr s1"
      by (simp add: initial_phase_def Let_def)
    then show ?thesis
      by (rule fold_err_flags[rotated]) (rule process_spacing_data_flags[OF pb])
  qed
  then show "bin_bootstraps s0 = bin_bootstraps s"
    by (simp add: s0 mark_initial_def compute_steps_def compute_density_def Let_def same_flags_def)
  show "\<forall>b. step_nbootstrap P \<le> bootstrap_steps s0 b"
    by (simp add: s0 mark_initial_def compute_steps_def Let_def)
  show "\<forall>b. point_counts s0 b \<le> 10 \<longrightarrow> bin_status s0 b"
    by (simp add: s0 mark_initial_def compute_steps_def compute_density_def Let_def)
qed

lemma grid_bins_product:
  "grid_bins bx by = List.product [0..<length by - 1] [0..<length bx - 1]"
  by (simp add: grid_bins_def product_concat_map)

lemma grid_bins_distinct: "distinct (grid_bins bx by)"
  by (simp add: grid_bins_product distinct_product)

section \<open>The sampler on the ramp example\<close>

lemma sequence_err_replicate:
  "\<forall>j < n. f j = Inr b \<Longrightarrow> sequence_err (map f [0..<n]) = Inr (replicate n b)"
proof (induction n)
  case 0
  then show ?case by simp
next
  case (Suc n)
  have "sequence_err (xs @ [Inr b]) = Inr (ys @ [b])" if "sequence_err xs = Inr ys" for xs ys
    using that by (induction xs arbitrary: ys) (auto simp: bind_err_def split: sum.splits)
  with Suc show ?case by (simp add: replicate_append_same)
qed

lemma example_ramp_subset:
  "sp = 1 \<or> sp = 2 \<Longrightarrow>
   select_subset example_ramp_dataset [''y'', ''x''] 0 0 (SpInt sp) 1 (Some [''x''])
     (Some [(1, [(''x'', [[0, 1, 2, 3]])]), (2, [(''x'', [[0, 1, 2, 3]])])])
   = Inr example_ramp_dataset"
  by (elim disjE)
     (simp_all add: select_subset_def subset_entry_def isel_def isel_array_def take_idx_def
      example_ramp_dataset_def bind_err_def item_def Let_def)

lemma example_ramp_offsets:
  "offset_body example_shift_utils [[Some 0, Some 1, Some 2, Some 3]]
     [[Some 0, Some 0, Some 0, Some 0]]
     (scalar_sf example_shift_utils [[Some 0, Some 2, Some 4, Some 8]] 2) 0 0 = (Some 0, Some 0, Some 0)"
  "offset_body example_shift_utils [[Some 0, Some 1, Some 2, Some 3]]
     [[Some 0, Some 0, Some 0, Some 0]]
     (scalar_sf example_shift_utils [[Some 0, Some 2, Some 4, Some 8]] 2) 0 (Suc 0)
     = (Some 8, Some 1, Some 0)"
  "offset_body example_shift_utils [[Some 0, Some 1, Some 2, Some 3]]
     [[Some 0, Some 0, Some 0, Some 0]]
     (scalar_sf example_shift_utils [[Some 0, Some 2, Some 4, Some 8]] 2) 0 2 = (Some 26, Some 2, Some 0)"
  "offset_body example_shift_utils [[Some 0, Some 1, Some 2, Some 3]]
     [[Some 0, Some 0, Some 0, Some 0]]
     (scalar_sf example_shift_utils [[Some 0, Some 2, Some 4, Some 8]] 2) 0 3 = (Some 64, Some 3, Some 0)"
  by (simp_all add: offset_body_def scalar_sf_def diff_shift_def example_shift_utils_def
      nan_shift_def ew2_def ew1_def nanmean2_def nanmean_def finite_vals_def fsub_def Let_def)

lemma example_ramp_kernel:
  "calc_scalar_2d example_shift_utils example_ramp_dataset [''T''] (Single 2) [''y'', ''x''] 1 4
   = Inr example_ramp_batch"
proof -
  have o: "offsets 1 4 = [(0, 0), (0, 1), (0, 2), (0, 3)]"
    by (simp add: offsets_def upt_rec numeral_nat)
  show ?thesis
    unfolding calc_scalar_2d_def kernel_loop_def o
    by (simp add: example_ramp_dataset_def example_ramp_batch_def bind_err_def item_def getvar_def
        plane_coords_def getcoord_def example_ramp_offsets)
qed

lemma example_ramp_draw:
  "sp = 1 \<or> sp = 2 \<Longrightarrow>
   calculate_structure_function_2d example_shift_utils example_ramp_dataset [''y'', ''x''] [''T'']
     (Single 2) ''scalar'' 0 0 (SpInt sp) 1 (Some [''x''])
     (Some [(1, [(''x'', [[0, 1, 2, 3]])]), (2, [(''x'', [[0, 1, 2, 3]])])])
   = Inr example_ramp_batch"
proof -
  assume sp: "sp = 1 \<or> sp = 2"
  have v: "getvar example_ramp_dataset ''T'' = Inr [[Some 0, Some 2, Some 4, Some 8]]"
    "map_of example_ramp_dataset ''T'' \<noteq> None"
    by (simp_all add: example_ramp_dataset_def getvar_def)
  have k: "kernel_dispatch example_shift_utils ''scalar'' example_ramp_dataset [''T''] (Single 2)
             [''y'', ''x''] 1 4 = Inr example_ramp_batch"
    using example_ramp_kernel by (simp add: kernel_dispatch_def)
  show ?thesis
    unfolding calculate_structure_function_2d_def example_ramp_subset[OF sp]
    using v k by (simp add: bind_err_def item_def shape_def eval_nat_numeral)
qed

lemma example_ramp_sampler_run:
  assumes "sp = 1 \<or> sp = 2"
  shows "example_ramp_sampler sp n g = (Inr (replicate n example_ramp_batch), 10000001)"
proof -
  have "simulate_bootstrap_1 example_shift_utils example_ramp_dataset [''y'', ''x''] [''T'']
          (Single 2) ''scalar'' sp 1 [''x'']
          [(1, [(''x'', [[0, 1, 2, 3]])]), (2, [(''x'', [[0, 1, 2, 3]])])] ''x'' (replicate n 0) j
        = Inr example_ramp_batch" if "j < n" for j
    using that example_ramp_draw[OF assms]
    by (simp add: simulate_bootstrap_1_def bind_err_def item_def)
  then have "sequence_err (map (simulate_bootstrap_1 example_shift_utils example_ramp_dataset
          [''y'', ''x''] [''T''] (Single 2) ''scalar'' sp 1 [''x'']
          [(1, [(''x'', [[0, 1, 2, 3]])]), (2, [(''x'', [[0, 1, 2, 3]])])] ''x'' (replicate n 0))
          [0..<n]) = Inr (replicate n example_ramp_batch)"
    by (intro sequence_err_replicate) blast
  then show ?thesis
    using assms
    by (auto simp: example_ramp_sampler_def engine_sampler_def monte_carlo_simulation_2d_def
        example_ramp_setup_def sampler_spacing_def sampler_indexes_def ncols_def
        example_random_def Let_def)
qed

section \<open>One batch of the ramp example in the two engines\<close>

lemma sqrt_nine: "sqrt (9::real) = 3"
  by (rule real_sqrt_unique) simp_all

lemma example_ramp_points:
  "valid_points example_ramp_batch = [(0, 0, 0), (8, 1, 0), (26, 2, 0), (64, 3, 0)]"
  by (simp add: valid_points_def example_ramp_batch_def)

lemma example_ramp_polar: "map polar (valid_points example_ramp_batch) = example_ramp_polar"
  by (simp add: example_ramp_points polar_def arctan2_def example_ramp_polar_def sqrt_nine)

lemma example_ramp_iso_groups:
  "iso_groups [0, 1, 2, 4] example_ramp_polar
   = [(0, [(0, 0, 0)]), (1, [(8, 1, 0)]), (2, [(26, 2, 0), (64, 3, 0)])]"
  by (simp add: iso_groups_def example_ramp_polar_def bin_index_def digitize_def clip_def unique_def)

lemma example_ramp_grid_groups:
  "grid_groups [0, 1, 2, 4] [0, 1] [(0, 0, 0), (8, 1, 0), (26, 2, 0), (64, 3, 0)]
   = [((0, 0), [(0, 0)]), ((0, 1), [(8, 0)]), ((0, 2), [(26, 0), (64, 0)])]"
  by (simp add: grid_groups_def grid_bin_id_def bin_index_def digitize_def clip_def unique_def
      grid_weight_def Let_def)

text \<open>The accumulators of the isotropic engine, without the angular-radial matrix, go
  through a batch as the loop body \<open>accumulate_bin\<close> alone takes them.\<close>

lemma update_sfr_truncate: "acc.truncate (update_sfr t r ms s) = acc.truncate s"
  by (simp add: update_sfr_def acc.truncate_def Let_def)

lemma fold_update_sfr_truncate:
  "acc.truncate (fold (\<lambda>t. update_sfr (f t) r (g t)) ts s) = acc.truncate s"
  by (induction ts arbitrary: s) (simp_all add: update_sfr_truncate)

lemma accumulate_bin_truncate:
  "(acc.truncate (fst (accumulate_bin add sp b ms st)), snd (accumulate_bin add sp b ms st))
   = accumulate_bin add sp b ms (acc.truncate (fst st), snd st)"
  by (cases st) (simp add: accumulate_bin_def acc.truncate_def Let_def)

lemma truncate_fields:
  "point_counts (acc.truncate s) = point_counts s"
  "weight_totals (acc.truncate s) = weight_totals s"
  "sf_totals (acc.truncate s) = sf_totals s"
  "sf_sq_totals (acc.truncate s) = sf_sq_totals s"
  "bin_spacing_effectiveness (acc.truncate s) = bin_spacing_effectiveness s"
  "bin_status (acc.truncate s) = bin_status s"
  "bin_bootstraps (acc.truncate s) = bin_bootstraps s"
  by (simp_all add: acc.truncate_def)

lemma iso_radial_bin_truncate:
  "(acc.truncate (fst (iso_radial_bin tb add sp grp st)), snd (iso_radial_bin tb add sp grp st))
   = (case grp of (rid, ms) \<Rightarrow>
        if ms = [] then (acc.truncate (fst st), snd st)
        else accumulate_bin add sp (nat rid) (map (\<lambda>(s, r, th). (s, r)) ms)
               (acc.truncate (fst st), snd st))"
proof -
  obtain rid ms where grp: "grp = (rid, ms)" by (cases grp)
  show ?thesis
  proof (cases "ms = []")
    case True
    with grp show ?thesis by (simp add: iso_radial_bin_def)
  next
    case False
    obtain s1 a1 where acc: "accumulate_bin add sp (nat rid) (map (\<lambda>(s, r, th). (s, r)) ms) st = (s1, a1)"
      by fastforce
    from accumulate_bin_truncate[of add sp "nat rid" "map (\<lambda>(s, r, th). (s, r)) ms" st] acc
    have "accumulate_bin add sp (nat rid) (map (\<lambda>(s, r, th). (s, r)) ms) (acc.truncate (fst st), snd st)
          = (acc.truncate s1, a1)" by simp
    with grp False acc show ?thesis
      by (simp add: iso_radial_bin_def fold_update_sfr_truncate)
  qed
qed

lemma fold_iso_radial_bin_truncate:
  "(acc.truncate (fst (fold (iso_radial_bin tb add sp) gs st)),
    snd (fold (iso_radial_bin tb add sp) gs st))
   = fold (\<lambda>grp st. case grp of (rid, ms) \<Rightarrow>
             if ms = [] then st
             else accumulate_bin add sp (nat rid) (map (\<lambda>(s, r, th). (s, r)) ms) st)
       gs (acc.truncate (fst st), snd st)"
proof (induction gs arbitrary: st)
  case Nil
  then show ?case by simp
next
  case (Cons g gs)
  have "(acc.truncate (fst (iso_radial_bin tb add sp g st)), snd (iso_radial_bin tb add sp g st))
        = (case g of (rid, ms) \<Rightarrow>
             if ms = [] then (acc.truncate (fst st), snd st)
             else accumulate_bin add sp (nat rid) (map (\<lambda>(s, r, th). (s, r)) ms)
                    (acc.truncate (fst st), snd st))"
    by (rule iso_radial_bin_truncate)
  then show ?case
    using Cons.IH[of "iso_radial_bin tb add sp g st"] by (simp add: split_def)
qed

lemma example_ramp_iso_batch:
  "(acc.truncate (fst (iso_process_batch [0, 1, 2, 4] tb add sp example_ramp_batch (s, a))),
    snd (iso_process_batch [0, 1, 2, 4] tb add sp example_ramp_batch (s, a)))
   = accumulate_bin add sp 2 [(26, 2), (64, 3)]
       (accumulate_bin add sp 1 [(8, 1)]
          (accumulate_bin add sp 0 [(0, 0)] (acc.truncate s, a)))"
proof -
  have ne: "valid_points example_ramp_batch \<noteq> []" by (simp add: example_ramp_points)
  show ?thesis
    unfolding iso_process_batch_def Let_def
    using ne fold_iso_radial_bin_truncate[of tb add sp
        "iso_groups [0, 1, 2, 4] (map polar (valid_points example_ramp_batch))" "(s, a)"]
    by (simp add: example_ramp_polar example_ramp_iso_groups)
qed

lemma example_ramp_iso_adds:
  "batch_adds (iso_process_batch [0, 1, 2, 4] tb) example_ramp_batch
     example_ramp_counts example_ramp_weights example_ramp_sums example_ramp_squares"
proof -
  have "point_counts (fst (iso_process_batch [0, 1, 2, 4] tb add sp example_ramp_batch st))
          = (\<lambda>j. point_counts (fst st) j + (if add then example_ramp_counts j else 0))
      \<and> snd (iso_process_batch [0, 1, 2, 4] tb add sp example_ramp_batch st)
          = (\<lambda>j. snd st j + (if add then example_ramp_counts j else 0))
      \<and> weight_totals (fst (iso_process_batch [0, 1, 2, 4] tb add sp example_ramp_batch st))
          = (\<lambda>j. weight_totals (fst st) j + example_ramp_weights j)
      \<and> sf_totals (fst (iso_process_batch [0, 1, 2, 4] tb add sp example_ramp_batch st))
          = (\<lambda>j. sf_totals (fst st) j + example_ramp_sums j)
      \<and> sf_sq_totals (fst (iso_process_batch [0, 1, 2, 4] tb add sp example_ramp_batch st))
          = (\<lambda>j. sf_sq_totals (fst st) j + example_ramp_squares j)
      \<and> bin_spacing_effectiveness (fst (iso_process_batch [0, 1, 2, 4] tb add sp example_ramp_batch st))
          = bin_spacing_effectiveness (fst st)
      \<and> bin_status (fst (iso_process_batch [0, 1, 2, 4] tb add sp example_ramp_batch st))
          = bin_status (fst st)
      \<and> bin_bootstraps (fst (iso_process_batch [0, 1, 2, 4] tb add sp example_ramp_batch st))
          = bin_bootstraps (fst st)" for add sp st
  proof -
    obtain s a where st: "st = (s, a)" by (cases st)
    define X where "X = iso_process_batch [0, 1, 2, 4] tb add sp example_ramp_batch (s, a)"
    define Y where "Y = accumulate_bin add sp 2 [(26, 2), (64, 3)]
       (accumulate_bin add sp 1 [(8, 1)]
          (accumulate_bin add sp 0 [(0, 0)] (acc.truncate s, a)))"
    have "(acc.truncate (fst X), snd X) = Y"
      unfolding X_def Y_def by (rule example_ramp_iso_batch)
    then have t: "acc.truncate (fst X) = fst Y" and sn: "snd X = snd Y" by (simp_all add: prod_eq_iff)
    have f: "point_counts (fst X) = point_counts (fst Y)" "weight_totals (fst X) = weight_totals (fst Y)"
      "sf_totals (fst X) = sf_totals (fst Y)" "sf_sq_totals (fst X) = sf_sq_totals (fst Y)"
      "bin_spacing_effectiveness (fst X) = bin_spacing_effectiveness (fst Y)"
      "bin_status (fst X) = bin_status (fst Y)" "bin_bootstraps (fst X) = bin_bootstraps (fst Y)"
      unfolding t[symmetric] by (simp_all add: truncate_fields)
    have y: "point_counts (fst Y) = (\<lambda>j. point_counts s j + (if add then example_ramp_counts j else 0))"
      "snd Y = (\<lambda>j. a j + (if add then example_ramp_counts j else 0))"
      "weight_totals (fst Y) = (\<lambda>j. weight_totals s j + example_ramp_weights j)"
      "sf_totals (fst Y) = (\<lambda>j. sf_totals s j + example_ramp_sums j)"
      "sf_sq_totals (fst Y) = (\<lambda>j. sf_sq_totals s j + example_ramp_squares j)"
      "bin_spacing_effectiveness (fst Y) = bin_spacing_effectiveness s"
      "bin_status (fst Y) = bin_status s" "bin_bootstraps (fst Y) = bin_bootstraps s"
      unfolding Y_def
      by (simp_all add: accumulate_bin_def Let_def truncate_fields fun_eq_iff
          example_ramp_counts_def example_ramp_weights_def example_ramp_sums_def
          example_ramp_squares_def)
    show ?thesis
      unfolding st X_def[symmetric] f sn y by simp
  qed
  then show ?thesis unfolding batch_adds_def by blast
qed

lemma example_ramp_grid_adds:
  "batch_adds (grid_process_batch [0, 1, 2, 4] [0, 1]) example_ramp_batch
     example_ramp_grid_counts (\<lambda>_. 0) (\<lambda>_. 0) (\<lambda>_. 0)"
proof -
  have "point_counts (fst (grid_process_batch [0, 1, 2, 4] [0, 1] add sp example_ramp_batch st))
          = (\<lambda>j. point_counts (fst st) j + (if add then example_ramp_grid_counts j else 0))
      \<and> snd (grid_process_batch [0, 1, 2, 4] [0, 1] add sp example_ramp_batch st)
          = (\<lambda>j. snd st j + (if add then example_ramp_grid_counts j else 0))
      \<and> weight_totals (fst (grid_process_batch [0, 1, 2, 4] [0, 1] add sp example_ramp_batch st))
          = (\<lambda>j. weight_totals (fst st) j + 0)
      \<and> sf_totals (fst (grid_process_batch [0, 1, 2, 4] [0, 1] add sp example_ramp_batch st))
          = (\<lambda>j. sf_totals (fst st) j + 0)
      \<and> sf_sq_totals (fst (grid_process_batch [0, 1, 2, 4] [0, 1] add sp example_ramp_batch st))
          = (\<lambda>j. sf_sq_totals (fst st) j + 0)
      \<and> bin_spacing_effectiveness (fst (grid_process_batch [0, 1, 2, 4] [0, 1] add sp example_ramp_batch st))
          = bin_spacing_effectiveness (fst st)
      \<and> bin_status (fst (grid_process_batch [0, 1, 2, 4] [0, 1] add sp example_ramp_batch st))
          = bin_status (fst st)
      \<and> bin_bootstraps (fst (grid_process_batch [0, 1, 2, 4] [0, 1] add sp example_ramp_batch st))
          = bin_bootstraps (fst st)" for add sp st
  proof -
    obtain s a where st: "st = (s, a)" by (cases st)
    have g: "grid_process_batch [0, 1, 2, 4] [0, 1] add sp example_ramp_batch (s, a)
          = accumulate_bin add sp (0, 2) [(26, 0), (64, 0)]
              (accumulate_bin add sp (0, 1) [(8, 0)]
                 (accumulate_bin add sp (0, 0) [(0, 0)] (s, a)))"
      by (simp add: grid_process_batch_def example_ramp_points example_ramp_grid_groups)
    show ?thesis
      unfolding st g
      by (simp add: accumulate_bin_def Let_def fun_eq_iff example_ramp_grid_counts_def
          example_ramp_counts_def)
  qed
  then show ?thesis unfolding batch_adds_def by blast
qed

section \<open>A call of the processing function on equal batches\<close>

lemma fold_batch_adds:
  assumes ba: "batch_adds pb b k w m q"
  shows "point_counts (fst (fold (pb add sp) (replicate n b) st))
            = (\<lambda>j. point_counts (fst st) j + (if add then int n * k j else 0))
       \<and> snd (fold (pb add sp) (replicate n b) st)
            = (\<lambda>j. snd st j + (if add then int n * k j else 0))
       \<and> weight_totals (fst (fold (pb add sp) (replicate n b) st))
            = (\<lambda>j. weight_totals (fst st) j + int n * w j)
       \<and> sf_totals (fst (fold (pb add sp) (replicate n b) st))
            = (\<lambda>j. sf_totals (fst st) j + real n * m j)
       \<and> sf_sq_totals (fst (fold (pb add sp) (replicate n b) st))
            = (\<lambda>j. sf_sq_totals (fst st) j + real n * q j)
       \<and> bin_spacing_effectiveness (fst (fold (pb add sp) (replicate n b) st))
            = bin_spacing_effectiveness (fst st)
       \<and> bin_status (fst (fold (pb add sp) (replicate n b) st)) = bin_status (fst st)
       \<and> bin_bootstraps (fst (fold (pb add sp) (replicate n b) st)) = bin_bootstraps (fst st)"
proof (induction n arbitrary: st)
  case 0
  then show ?case by (cases add) simp_all
next
  case (Suc n)
  from ba have 1:
    "point_counts (fst (pb add sp b st)) = (\<lambda>j. point_counts (fst st) j + (if add then k j else 0))"
    "snd (pb add sp b st) = (\<lambda>j. snd st j + (if add then k j else 0))"
    "weight_totals (fst (pb add sp b st)) = (\<lambda>j. weight_totals (fst st) j + w j)"
    "sf_totals (fst (pb add sp b st)) = (\<lambda>j. sf_totals (fst st) j + m j)"
    "sf_sq_totals (fst (pb add sp b st)) = (\<lambda>j. sf_sq_totals (fst st) j + q j)"
    "bin_spacing_effectiveness (fst (pb add sp b st)) = bin_spacing_effectiveness (fst st)"
    "bin_status (fst (pb add sp b st)) = bin_status (fst st)"
    "bin_bootstraps (fst (pb add sp b st)) = bin_bootstraps (fst st)"
    unfolding batch_adds_def by blast+
  show ?case
    using Suc.IH[of "pb add sp b st"] unfolding 1
    by (simp add: fun_eq_iff algebra_simps)
qed

lemma process_batch_adds:
  assumes ba: "batch_adds pb b k w m q"
    and smp: "fst (smp sp (nat n) (rng s)) = Inr (replicate (nat n) b)"
    and n: "0 < n"
  shows "\<exists>s'. process_spacing_data smp pb sp n add s = Inr s'
       \<and> point_counts s' = (\<lambda>j. point_counts s j + (if add then n * k j else 0))
       \<and> weight_totals s' = (\<lambda>j. weight_totals s j + n * w j)
       \<and> sf_totals s' = (\<lambda>j. sf_totals s j + real_of_int n * m j)
       \<and> sf_sq_totals s' = (\<lambda>j. sf_sq_totals s j + real_of_int n * q j)
       \<and> bin_status s' = bin_status s \<and> bin_bootstraps s' = bin_bootstraps s
       \<and> bin_spacing_effectiveness s'
           = (if add then (bin_spacing_effectiveness s)
                (sp := (\<lambda>j. if n * k j > 0 then real_of_int (n * k j) / real_of_int n
                             else bin_spacing_effectiveness s sp j))
              else bin_spacing_effectiveness s)"
proof -
  obtain g' where g: "smp sp (nat n) (rng s) = (Inr (replicate (nat n) b), g')"
    using smp by (cases "smp sp (nat n) (rng s)") simp
  define st where "st = fold (pb add sp) (replicate (nat n) b) (s\<lparr>rng := g'\<rparr>, \<lambda>_. 0)"
  from n have nn: "int (nat n) = n" "real (nat n) = real_of_int n" by simp_all
  note f = fold_batch_adds[OF ba, of add sp "nat n" "(s\<lparr>rng := g'\<rparr>, \<lambda>_. 0)",
      folded st_def, unfolded nn, simplified]
  have r: "process_spacing_data smp pb sp n add s
        = Inr (if add then update_effectiveness sp n (snd st) (fst st) else fst st)"
    using n g by (simp add: process_spacing_data_def st_def split: prod.splits)
  show ?thesis
    unfolding r using f
    by (cases add) (simp_all add: update_effectiveness_def fun_eq_iff)
qed

section \<open>Rounds that return\<close>





section \<open>The ramp example before the loop\<close>

lemma example_initial_call:
  assumes ba: "batch_adds pb b k w m q"
    and smp: "\<forall>sp n g. sp = 1 \<or> sp = 2 \<longrightarrow> fst (smp sp n g) = Inr (replicate n b)"
    and sp: "sp = 1 \<or> sp = 2"
  shows "\<exists>s'. process_spacing_data smp pb sp 5 True s = Inr s'
       \<and> point_counts s' = (\<lambda>j. point_counts s j + 5 * k j)
       \<and> weight_totals s' = (\<lambda>j. weight_totals s j + 5 * w j)
       \<and> sf_totals s' = (\<lambda>j. sf_totals s j + 5 * m j)
       \<and> sf_sq_totals s' = (\<lambda>j. sf_sq_totals s j + 5 * q j)
       \<and> bin_status s' = bin_status s \<and> bin_bootstraps s' = bin_bootstraps s
       \<and> bin_spacing_effectiveness s' sp
            = (\<lambda>j. if k j > 0 then real_of_int (k j) else bin_spacing_effectiveness s sp j)
       \<and> (\<forall>sp'. sp' \<noteq> sp \<longrightarrow> bin_spacing_effectiveness s' sp' = bin_spacing_effectiveness s sp')"
proof -
  from smp sp have s1: "fst (smp sp (nat 5) (rng s)) = Inr (replicate (nat 5) b)" by blast
  have five: "(0::int) < 5" by simp
  from process_batch_adds[where n = 5 and sp = sp and s = s and smp = smp and add = True,
      OF ba s1 five]
  obtain s' where a: "process_spacing_data smp pb sp 5 True s = Inr s'"
      "point_counts s' = (\<lambda>j. point_counts s j + (if True then 5 * k j else 0))"
      "weight_totals s' = (\<lambda>j. weight_totals s j + 5 * w j)"
      "sf_totals s' = (\<lambda>j. sf_totals s j + real_of_int 5 * m j)"
      "sf_sq_totals s' = (\<lambda>j. sf_sq_totals s j + real_of_int 5 * q j)"
      "bin_status s' = bin_status s" "bin_bootstraps s' = bin_bootstraps s"
      "bin_spacing_effectiveness s'
         = (if True then (bin_spacing_effectiveness s)
             (sp := (\<lambda>j. if 5 * k j > 0 then real_of_int (5 * k j) / real_of_int 5
                          else bin_spacing_effectiveness s sp j))
            else bin_spacing_effectiveness s)"
    by blast
  show ?thesis
    by (rule exI[of _ s']) (simp add: a fun_eq_iff)
qed

lemma example_initial_phase:
  assumes ba: "batch_adds pb b k w m q"
    and smp: "\<forall>sp n g. sp = 1 \<or> sp = 2 \<longrightarrow> fst (smp sp n g) = Inr (replicate n b)"
    and P: "spacing_values P = [1, 2]" "initial_nbootstrap P = 5"
  shows "\<exists>s1. initial_phase (process_spacing_data smp pb) P s = Inr s1
       \<and> point_counts s1 = (\<lambda>j. point_counts s j + 10 * k j)
       \<and> weight_totals s1 = (\<lambda>j. weight_totals s j + 10 * w j)
       \<and> sf_totals s1 = (\<lambda>j. sf_totals s j + 10 * m j)
       \<and> sf_sq_totals s1 = (\<lambda>j. sf_sq_totals s j + 10 * q j)
       \<and> bin_status s1 = bin_status s \<and> bin_bootstraps s1 = bin_bootstraps s
       \<and> bin_spacing_effectiveness s1 1
            = (\<lambda>j. if k j > 0 then real_of_int (k j) else bin_spacing_effectiveness s 1 j)
       \<and> bin_spacing_effectiveness s1 2
            = (\<lambda>j. if k j > 0 then real_of_int (k j) else bin_spacing_effectiveness s 2 j)"
proof -
  from example_initial_call[OF ba smp, of 1 s] obtain sa where
    a: "process_spacing_data smp pb 1 5 True s = Inr sa"
      "point_counts sa = (\<lambda>j. point_counts s j + 5 * k j)"
      "weight_totals sa = (\<lambda>j. weight_totals s j + 5 * w j)"
      "sf_totals sa = (\<lambda>j. sf_totals s j + 5 * m j)"
      "sf_sq_totals sa = (\<lambda>j. sf_sq_totals s j + 5 * q j)"
      "bin_status sa = bin_status s" "bin_bootstraps sa = bin_bootstraps s"
      "bin_spacing_effectiveness sa 1
         = (\<lambda>j. if k j > 0 then real_of_int (k j) else bin_spacing_effectiveness s 1 j)"
      "\<forall>sp'. sp' \<noteq> 1 \<longrightarrow> bin_spacing_effectiveness sa sp' = bin_spacing_effectiveness s sp'"
    by blast
  from example_initial_call[OF ba smp, of 2 sa] obtain sb where
    b: "process_spacing_data smp pb 2 5 True sa = Inr sb"
      "point_counts sb = (\<lambda>j. point_counts sa j + 5 * k j)"
      "weight_totals sb = (\<lambda>j. weight_totals sa j + 5 * w j)"
      "sf_totals sb = (\<lambda>j. sf_totals sa j + 5 * m j)"
      "sf_sq_totals sb = (\<lambda>j. sf_sq_totals sa j + 5 * q j)"
      "bin_status sb = bin_status sa" "bin_bootstraps sb = bin_bootstraps sa"
      "bin_spacing_effectiveness sb 2
         = (\<lambda>j. if k j > 0 then real_of_int (k j) else bin_spacing_effectiveness sa 2 j)"
      "\<forall>sp'. sp' \<noteq> 2 \<longrightarrow> bin_spacing_effectiveness sb sp' = bin_spacing_effectiveness sa sp'"
    by blast
  from a(9) have a2: "bin_spacing_effectiveness sa 2 = bin_spacing_effectiveness s 2" by simp
  from b(9) have b1: "bin_spacing_effectiveness sb 1 = bin_spacing_effectiveness sa 1" by simp
  have ip: "initial_phase (process_spacing_data smp pb) P s = Inr sb"
    using a(1) b(1) by (simp add: initial_phase_def P Let_def)
  show ?thesis
    by (rule exI[of _ sb]) (simp add: ip a(2-8) b(2-8) a2 b1 fun_eq_iff)
qed

lemma initial_iso_acc_fields:
  "point_counts (initial_iso_acc n g) = (\<lambda>_. 0)"
  "weight_totals (initial_iso_acc n g) = (\<lambda>_. 0)"
  "sf_totals (initial_iso_acc n g) = (\<lambda>_. 0)"
  "sf_sq_totals (initial_iso_acc n g) = (\<lambda>_. 0)"
  "bin_status (initial_iso_acc n g) = (\<lambda>_. False)"
  "bin_bootstraps (initial_iso_acc n g) = (\<lambda>_. n)"
  "bin_spacing_effectiveness (initial_iso_acc n g) = (\<lambda>_ _. 0)"
  by (simp_all add: initial_iso_acc_def initial_acc_def acc.extend_def iso_acc.fields_def)

lemma example_ramp_sampler_total:
  "\<forall>sp n g. sp = 1 \<or> sp = 2 \<longrightarrow> fst (example_ramp_sampler sp n g) = Inr (replicate n example_ramp_batch)"
  by (simp add: example_ramp_sampler_run)

lemma example_ramp_std: "\<not> sqrt (8664 / 25) \<le> (1 / 10 :: real)"
proof -
  have "1 \<le> sqrt (8664 / 25 :: real)" by (rule real_sqrt_ge_one) simp
  then show ?thesis by linarith
qed

lemma example_iso_density:
  assumes "point_counts s = (\<lambda>j. 10 * example_ramp_counts j)"
  shows "bin_density (compute_density [0, 1, 2] (iso_bin_areas [0, 1, 2, 4]) s) 2 = 1 / 6"
proof -
  have a: "iso_bin_areas [0, 1, 2, 4] 0 = pi" "iso_bin_areas [0, 1, 2, 4] (Suc 0) = 3 * pi"
    "iso_bin_areas [0, 1, 2, 4] 2 = 12 * pi"
    by (simp_all add: iso_bin_areas_def algebra_simps)
  have c: "point_counts s 0 = 10" "point_counts s (Suc 0) = 10" "point_counts s 2 = 20"
    by (simp_all add: assms example_ramp_counts_def)
  have m: "max (1 / (24 * pi)) (max (1 / (12 * pi)) (1 / (4 * pi))) = 1 / (4 * pi)"
    by (simp add: max_def field_simps)
  show ?thesis
    by (simp add: compute_density_def Let_def a c m)
qed

lemma compute_density_fields:
  "point_counts (compute_density bins areas s) = point_counts s"
  "weight_totals (compute_density bins areas s) = weight_totals s"
  "sf_totals (compute_density bins areas s) = sf_totals s"
  "sf_sq_totals (compute_density bins areas s) = sf_sq_totals s"
  "bin_status (compute_density bins areas s) = bin_status s"
  "bin_bootstraps (compute_density bins areas s) = bin_bootstraps s"
  "bin_spacing_effectiveness (compute_density bins areas s) = bin_spacing_effectiveness s"
  by (simp_all add: compute_density_def Let_def)

lemma compute_steps_fields:
  "point_counts (compute_steps P s) = point_counts s"
  "weight_totals (compute_steps P s) = weight_totals s"
  "sf_totals (compute_steps P s) = sf_totals s"
  "sf_sq_totals (compute_steps P s) = sf_sq_totals s"
  "bin_status (compute_steps P s) = bin_status s"
  "bin_bootstraps (compute_steps P s) = bin_bootstraps s"
  "bin_spacing_effectiveness (compute_steps P s) = bin_spacing_effectiveness s"
  "bin_density (compute_steps P s) = bin_density s"
  "bootstrap_steps (compute_steps P s)
     = (\<lambda>b. max (step_nbootstrap P)
                 (trunc (real_of_int (step_nbootstrap P) * (1 + 2 * bin_density s b))))"
  by (simp_all add: compute_steps_def)

lemma mark_initial_fields:
  "point_counts (mark_initial P s) = point_counts s"
  "weight_totals (mark_initial P s) = weight_totals s"
  "sf_totals (mark_initial P s) = sf_totals s"
  "sf_sq_totals (mark_initial P s) = sf_sq_totals s"
  "bin_bootstraps (mark_initial P s) = bin_bootstraps s"
  "bin_spacing_effectiveness (mark_initial P s) = bin_spacing_effectiveness s"
  "bin_density (mark_initial P s) = bin_density s"
  "bootstrap_steps (mark_initial P s) = bootstrap_steps s"
  by (simp_all add: mark_initial_def Let_def)

lemma mark_initial_status:
  "bin_status (mark_initial P s) b \<longleftrightarrow>
     bin_status s b \<or> point_counts s b \<le> 10 \<or> weight_totals s b \<le> 1
     \<or> sqrt (max 0 (sf_sq_totals s b / real_of_int (weight_totals s b)
                       - (sf_totals s b / real_of_int (weight_totals s b))\<^sup>2)) \<le> convergence_eps P"
  by (auto simp: mark_initial_def Let_def calculate_bin_statistics_def std_le_def)

lemma example_iso_prepare:
  fixes tb :: "real list" and step_nb max_nb :: int and g :: int
  defines "P \<equiv> iso_params [0, 1, 2, 4] [1, 2] 5 max_nb step_nb (1 / 10)"
  shows "\<exists>s0. prepare (iso_process example_ramp_sampler [0, 1, 2, 4] tb) P
                (iso_bin_areas [0, 1, 2, 4]) (initial_iso_acc 5 g) = Inr s0
       \<and> point_counts s0 = (\<lambda>j. 10 * example_ramp_counts j)
       \<and> weight_totals s0 = (\<lambda>j. 10 * example_ramp_weights j)
       \<and> sf_totals s0 = (\<lambda>j. 10 * example_ramp_sums j)
       \<and> sf_sq_totals s0 = (\<lambda>j. 10 * example_ramp_squares j)
       \<and> bin_bootstraps s0 = (\<lambda>_. 5)
       \<and> bin_status s0 = (\<lambda>j. j \<noteq> 2)
       \<and> bootstrap_steps s0 2 = max step_nb (trunc (real_of_int step_nb * (4 / 3)))
       \<and> bin_spacing_effectiveness s0 1 2 = 2 \<and> bin_spacing_effectiveness s0 2 2 = 2"
proof -
  have P: "spacing_values P = [1, 2]" "initial_nbootstrap P = 5" "all_bins P = [0, 1, 2]"
    "step_nbootstrap P = step_nb" "convergence_eps P = 1 / 10"
    by (simp_all add: P_def iso_params_def upt_rec numeral_nat)
  note ip0 = example_initial_phase[OF example_ramp_iso_adds example_ramp_sampler_total P(1,2),
      of tb "initial_iso_acc 5 g", unfolded initial_iso_acc_fields, simplified,
      folded iso_process_def]
  from ip0 obtain s1 where
    ip: "initial_phase (iso_process example_ramp_sampler [0, 1, 2, 4] tb) P (initial_iso_acc 5 g) = Inr s1"
    and pc: "point_counts s1 = (\<lambda>j. 10 * example_ramp_counts j)"
    and wt: "weight_totals s1 = (\<lambda>j. 10 * example_ramp_weights j)"
    and sf: "sf_totals s1 = (\<lambda>j. 10 * example_ramp_sums j)"
    and sq: "sf_sq_totals s1 = (\<lambda>j. 10 * example_ramp_squares j)"
    and st: "bin_status s1 = (\<lambda>_. False)" and bb: "bin_bootstraps s1 = (\<lambda>_. 5)"
    and e1: "bin_spacing_effectiveness s1 1
               = (\<lambda>j. if 0 < example_ramp_counts j then real_of_int (example_ramp_counts j) else 0)"
    and e2: "bin_spacing_effectiveness s1 2
               = (\<lambda>j. if 0 < example_ramp_counts j then real_of_int (example_ramp_counts j) else 0)"
    by blast
  define s0 where "s0 = mark_initial P (compute_steps P (compute_density [0, 1, 2] (iso_bin_areas [0, 1, 2, 4]) s1))"
  have pr: "prepare (iso_process example_ramp_sampler [0, 1, 2, 4] tb) P
              (iso_bin_areas [0, 1, 2, 4]) (initial_iso_acc 5 g) = Inr s0"
    by (simp add: prepare_def ip s0_def P)
  have keep: "point_counts s0 = point_counts s1" "weight_totals s0 = weight_totals s1"
    "sf_totals s0 = sf_totals s1" "sf_sq_totals s0 = sf_sq_totals s1"
    "bin_bootstraps s0 = bin_bootstraps s1"
    "bin_spacing_effectiveness s0 = bin_spacing_effectiveness s1"
    by (simp_all add: s0_def mark_initial_fields compute_steps_fields compute_density_fields)
  have steps: "bootstrap_steps s0 2 = max step_nb (trunc (real_of_int step_nb * (4 / 3)))"
    by (simp only: s0_def mark_initial_fields compute_steps_fields P example_iso_density[OF pc])
       simp
  have v: "max 0 (2728 - (244 / 5)\<^sup>2) = (8664 / 25 :: real)"
    by (simp add: power2_eq_square)
  have status: "bin_status s0 = (\<lambda>j. j \<noteq> 2)"
    using example_ramp_std[folded v]
    by (simp add: s0_def mark_initial_status compute_steps_fields compute_density_fields
        pc wt sf sq st P fun_eq_iff
        example_ramp_counts_def example_ramp_weights_def example_ramp_sums_def
        example_ramp_squares_def)
  show ?thesis
    by (rule exI[of _ s0])
       (simp add: pr keep pc wt sf sq bb steps status e1 e2 example_ramp_counts_def)
qed

section \<open>More on the states of the loop\<close>

lemma loop_states_plan:
  assumes ro: "refines_only process" and d: "distinct (all_bins P)"
  shows "\<forall>s \<in> set (loop_states process P fuel s0). same_plan s0 s"
proof (rule loop_states_invariant[where Q = "same_plan s0"])
  show "same_plan s0 s0" by simp
  show "\<forall>s s'. same_plan s0 s \<longrightarrow> refinement_round process P s = Inr s' \<longrightarrow> same_plan s0 s'"
    using round_plan[OF ro d] same_plan_trans by blast
qed

text \<open>A bin that is flagged when the loop starts is in no later list of bins to visit, and
  its flag and its counter stay as they are.\<close>

lemma flagged_bin_frozen:
  fixes s0 :: "('b, 'g, 'm) acc_scheme"
  assumes ro: "refines_only process" and d: "distinct (all_bins P)"
    and flagged: "bin_status s0 b"
  shows "\<forall>s \<in> set (loop_states process P fuel s0).
           bin_status s b \<and> b \<notin> set (bin_list P s) \<and> bin_bootstraps s b = bin_bootstraps s0 b"
proof -
  define Q where "Q = (\<lambda>s :: ('b, 'g, 'm) acc_scheme.
                         bin_status s b \<and> bin_bootstraps s b = bin_bootstraps s0 b)"
  have q0: "Q s0" using flagged by (simp add: Q_def)
  have step: "Q s'" if q: "Q s" and r: "refinement_round process P s = Inr s'" for s s'
  proof -
    from q have fl: "bin_status s b" and bb: "bin_bootstraps s b = bin_bootstraps s0 b"
      by (simp_all add: Q_def)
    from fl have "b \<notin> set (bin_list P s)" by (simp add: bin_list_set unconverged_def)
    with round_effect[OF ro d r]
    have "bin_status s' b = bin_status s b" "bin_bootstraps s' b = bin_bootstraps s b" by blast+
    with fl bb show ?thesis by (simp add: Q_def)
  qed
  have "\<forall>s \<in> set (loop_states process P fuel s0). Q s"
  proof (rule loop_states_invariant[where Q = Q])
    show "Q s0" by (rule q0)
    show "\<forall>s s'. Q s \<longrightarrow> refinement_round process P s = Inr s' \<longrightarrow> Q s'"
      using step by blast
  qed
  then show ?thesis
    by (simp add: Q_def bin_list_set unconverged_def)
qed





lemma initial_acc_fields:
  "point_counts (initial_acc n g) = (\<lambda>_. 0)"
  "weight_totals (initial_acc n g) = (\<lambda>_. 0)"
  "sf_totals (initial_acc n g) = (\<lambda>_. 0)"
  "sf_sq_totals (initial_acc n g) = (\<lambda>_. 0)"
  "bin_status (initial_acc n g) = (\<lambda>_. False)"
  "bin_bootstraps (initial_acc n g) = (\<lambda>_. n)"
  "bin_spacing_effectiveness (initial_acc n g) = (\<lambda>_ _. 0)"
  by (simp_all add: initial_acc_def)

lemma grid_params_fields:
  "all_bins (grid_params bx by sps i m st e) = grid_bins bx by"
  "spacing_values (grid_params bx by sps i m st e) = sps"
  "initial_nbootstrap (grid_params bx by sps i m st e) = i"
  "max_nbootstrap (grid_params bx by sps i m st e) = m"
  "step_nbootstrap (grid_params bx by sps i m st e) = st"
  "convergence_eps (grid_params bx by sps i m st e) = e"
  by (simp_all add: grid_params_def)

lemma iso_params_fields:
  "all_bins (iso_params rb sps i m st e) = [0..<length rb - 1]"
  "spacing_values (iso_params rb sps i m st e) = sps"
  "initial_nbootstrap (iso_params rb sps i m st e) = i"
  "max_nbootstrap (iso_params rb sps i m st e) = m"
  "step_nbootstrap (iso_params rb sps i m st e) = st"
  "convergence_eps (iso_params rb sps i m st e) = e"
  by (simp_all add: iso_params_def)

section \<open>Bins with few points\<close>

lemma means_value:
  "fst (calculate_bin_statistics s) b
   = (if weight_totals s b > 0 then Some (sf_totals s b / real_of_int (weight_totals s b)) else None)"
  by (simp add: calculate_bin_statistics_def Let_def)

lemma low_count_bins:
  fixes s0 :: "('b, 'g, 'm) acc_scheme"
  assumes ro: "refines_only (process_spacing_data smp pb)" and fl: "batch_keeps_flags pb"
    and d: "distinct (all_bins P)"
    and p: "prepare (process_spacing_data smp pb) P areas init = Inr s0"
    and ns: "\<forall>b. \<not> bin_status init b"
    and low: "point_counts s0 b \<le> 10"
  shows "bin_status s0 b"
    and "\<forall>s \<in> set (loop_states (process_spacing_data smp pb) P fuel s0).
           bin_status s b \<and> b \<notin> set (bin_list P s) \<and> point_counts s b = point_counts s0 b
           \<and> bin_bootstraps s b = bin_bootstraps init b"
proof -
  from prepare_facts[OF fl p ns] low
  have st: "bin_status s0 b" and bb: "bin_bootstraps s0 = bin_bootstraps init" by blast+
  show "bin_status s0 b" by (rule st)
  show "\<forall>s \<in> set (loop_states (process_spacing_data smp pb) P fuel s0).
           bin_status s b \<and> b \<notin> set (bin_list P s) \<and> point_counts s b = point_counts s0 b
           \<and> bin_bootstraps s b = bin_bootstraps init b"
    using flagged_bin_frozen[OF ro d st, of fuel] loop_states_plan[OF ro d, of fuel s0] bb
    by (auto simp: same_plan_def)
qed

text \<open>
  Claim C7, as the code has it.  After the initial phase of either engine, a bin with at
  most 10 points is flagged; in every round of the loop it keeps its flag, its point count
  and its consumed-bootstrap counter, and it is not in the list of bins to visit.  The final
  state of the engine is one of these states.  The mean that is reported for the bin is
  \<open>sf_totals / weight_totals\<close>, and NaN only when no batch has reached the bin with a
  positive sum of weights: the accumulators of the bin go on growing with the batches
  drawn for other bins.
\<close>

theorem low_count_bins_flagged_and_never_revisited:
  fixes smp :: "'g sampler" and bins_x bins_y r_bins theta_bins :: "real list"
    and spacings :: "int list" and initial_nb max_nb step_nb :: int and eps :: real
  defines "gP \<equiv> grid_params bins_x bins_y spacings initial_nb max_nb step_nb eps"
    and "iP \<equiv> iso_params r_bins spacings initial_nb max_nb step_nb eps"
  shows "(prepare (grid_process smp bins_x bins_y) gP (grid_bin_areas bins_x bins_y)
            (initial_acc initial_nb g) = Inr gs \<and> point_counts gs gb \<le> 10 \<longrightarrow>
            bin_status gs gb
          \<and> (\<forall>s \<in> set (loop_states (grid_process smp bins_x bins_y) gP fuel gs).
                bin_status s gb \<and> gb \<notin> set (bin_list gP s)
              \<and> point_counts s gb = point_counts gs gb \<and> bin_bootstraps s gb = initial_nb
              \<and> out_sf (adaptive_output_of s) gb
                  = (if weight_totals s gb > 0
                     then Some (sf_totals s gb / real_of_int (weight_totals s gb)) else None))
          \<and> (\<forall>s. grid_adaptive smp bins_x bins_y gP fuel g = Some (Inr s) \<longrightarrow>
                s \<in> set (loop_states (grid_process smp bins_x bins_y) gP fuel gs)))
       \<and> (prepare (iso_process smp r_bins theta_bins) iP (iso_bin_areas r_bins)
            (initial_iso_acc initial_nb g) = Inr rs \<and> point_counts rs rb \<le> 10 \<longrightarrow>
            bin_status rs rb
          \<and> (\<forall>s \<in> set (loop_states (iso_process smp r_bins theta_bins) iP fuel rs).
                bin_status s rb \<and> rb \<notin> set (bin_list iP s)
              \<and> point_counts s rb = point_counts rs rb \<and> bin_bootstraps s rb = initial_nb
              \<and> iso_sf (iso_output_of s) rb
                  = (if weight_totals s rb > 0
                     then Some (sf_totals s rb / real_of_int (weight_totals s rb)) else None))
          \<and> (\<forall>s. iso_adaptive smp r_bins theta_bins iP fuel g = Some (Inr s) \<longrightarrow>
                s \<in> set (loop_states (iso_process smp r_bins theta_bins) iP fuel rs)))"
proof (intro conjI impI; elim conjE)
  assume p: "prepare (grid_process smp bins_x bins_y) gP (grid_bin_areas bins_x bins_y)
               (initial_acc initial_nb g) = Inr gs"
    and low: "point_counts gs gb \<le> 10"
  have d: "distinct (all_bins gP)" by (simp add: gP_def grid_params_fields grid_bins_distinct)
  have ns: "\<forall>b. \<not> bin_status (initial_acc initial_nb g :: (nat \<times> nat, 'g) acc) b"
    by (simp add: initial_acc_fields)
  note l = low_count_bins[OF grid_refines_only[unfolded grid_process_def] grid_batch_keeps_flags d
      p[unfolded grid_process_def] ns low, folded grid_process_def]
  show "bin_status gs gb" by (rule l(1))
  show "\<forall>s \<in> set (loop_states (grid_process smp bins_x bins_y) gP fuel gs).
          bin_status s gb \<and> gb \<notin> set (bin_list gP s)
        \<and> point_counts s gb = point_counts gs gb \<and> bin_bootstraps s gb = initial_nb
        \<and> out_sf (adaptive_output_of s) gb
            = (if weight_totals s gb > 0
               then Some (sf_totals s gb / real_of_int (weight_totals s gb)) else None)"
    using l(2)[of fuel] by (simp add: initial_acc_fields adaptive_output_of_def means_value)
  show "\<forall>s. grid_adaptive smp bins_x bins_y gP fuel g = Some (Inr s) \<longrightarrow>
          s \<in> set (loop_states (grid_process smp bins_x bins_y) gP fuel gs)"
    using p refinement_loop_in_states[of "grid_process smp bins_x bins_y" gP fuel gs]
    by (simp add: grid_adaptive_def gP_def grid_params_fields)
next
  assume p: "prepare (iso_process smp r_bins theta_bins) iP (iso_bin_areas r_bins)
               (initial_iso_acc initial_nb g) = Inr rs"
    and low: "point_counts rs rb \<le> 10"
  have d: "distinct (all_bins iP)" by (simp add: iP_def iso_params_fields)
  have ns: "\<forall>b. \<not> bin_status (initial_iso_acc initial_nb g) b"
    by (simp add: initial_iso_acc_fields)
  note l = low_count_bins[OF iso_refines_only[unfolded iso_process_def] iso_batch_keeps_flags d
      p[unfolded iso_process_def] ns low, folded iso_process_def]
  show "bin_status rs rb" by (rule l(1))
  show "\<forall>s \<in> set (loop_states (iso_process smp r_bins theta_bins) iP fuel rs).
          bin_status s rb \<and> rb \<notin> set (bin_list iP s)
        \<and> point_counts s rb = point_counts rs rb \<and> bin_bootstraps s rb = initial_nb
        \<and> iso_sf (iso_output_of s) rb
            = (if weight_totals s rb > 0
               then Some (sf_totals s rb / real_of_int (weight_totals s rb)) else None)"
    using l(2)[of fuel] by (simp add: initial_iso_acc_fields iso_output_of_def means_value Let_def)
  show "\<forall>s. iso_adaptive smp r_bins theta_bins iP fuel g = Some (Inr s) \<longrightarrow>
          s \<in> set (loop_states (iso_process smp r_bins theta_bins) iP fuel rs)"
    using p refinement_loop_in_states[of "iso_process smp r_bins theta_bins" iP fuel rs]
    by (simp add: iso_adaptive_def iP_def iso_params_fields)
qed

lemma example_grid_density:
  assumes "point_counts s = (\<lambda>j. 10 * example_ramp_grid_counts j)"
  shows "bin_density (compute_density [(0, 0), (0, 1), (0, 2)] (grid_bin_areas [0, 1, 2, 4] [0, 1]) s)
           (0, 2) = 1"
proof -
  have a: "grid_bin_areas [0, 1, 2, 4] [0, 1] (0, 0) = 1"
    "grid_bin_areas [0, 1, 2, 4] [0, 1] (0, Suc 0) = 1"
    "grid_bin_areas [0, 1, 2, 4] [0, 1] (0, 2) = 2"
    by (simp_all add: grid_bin_areas_def)
  have c: "point_counts s (0, 0) = 10" "point_counts s (0, Suc 0) = 10" "point_counts s (0, 2) = 20"
    by (simp_all add: assms example_ramp_grid_counts_def example_ramp_counts_def)
  show ?thesis
    by (simp add: compute_density_def Let_def a c)
qed

lemma example_grid_prepare:
  fixes step_nb max_nb :: int and g :: int
  defines "P \<equiv> grid_params [0, 1, 2, 4] [0, 1] [1, 2] 5 max_nb step_nb (1 / 10)"
  shows "\<exists>s0. prepare (grid_process example_ramp_sampler [0, 1, 2, 4] [0, 1]) P
                (grid_bin_areas [0, 1, 2, 4] [0, 1]) (initial_acc 5 g) = Inr s0
       \<and> point_counts s0 = (\<lambda>j. 10 * example_ramp_grid_counts j)
       \<and> bootstrap_steps s0 (0, 2) = max step_nb (trunc (real_of_int step_nb * 3))
       \<and> bin_spacing_effectiveness s0 1 (0, 2) = 2 \<and> bin_spacing_effectiveness s0 2 (0, 2) = 2"
proof -
  have P: "spacing_values P = [1, 2]" "initial_nbootstrap P = 5"
    "all_bins P = [(0, 0), (0, 1), (0, 2)]" "step_nbootstrap P = step_nb"
    by (simp_all add: P_def grid_params_fields grid_bins_def upt_rec numeral_nat)
  note ip0 = example_initial_phase[OF example_ramp_grid_adds example_ramp_sampler_total P(1,2),
      of "initial_acc 5 g", unfolded initial_acc_fields, simplified, folded grid_process_def]
  from ip0 obtain s1 where
    ip: "initial_phase (grid_process example_ramp_sampler [0, 1, 2, 4] [0, 1]) P (initial_acc 5 g) = Inr s1"
    and pc: "point_counts s1 = (\<lambda>j. 10 * example_ramp_grid_counts j)"
    and e1: "bin_spacing_effectiveness s1 1
               = (\<lambda>j. if 0 < example_ramp_grid_counts j then real_of_int (example_ramp_grid_counts j) else 0)"
    and e2: "bin_spacing_effectiveness s1 2
               = (\<lambda>j. if 0 < example_ramp_grid_counts j then real_of_int (example_ramp_grid_counts j) else 0)"
    by blast
  define s0 where "s0 = mark_initial P (compute_steps P (compute_density [(0, 0), (0, 1), (0, 2)]
                          (grid_bin_areas [0, 1, 2, 4] [0, 1]) s1))"
  have pr: "prepare (grid_process example_ramp_sampler [0, 1, 2, 4] [0, 1]) P
              (grid_bin_areas [0, 1, 2, 4] [0, 1]) (initial_acc 5 g) = Inr s0"
    by (simp add: prepare_def ip s0_def P)
  have keep: "point_counts s0 = point_counts s1"
    "bin_spacing_effectiveness s0 = bin_spacing_effectiveness s1"
    by (simp_all add: s0_def mark_initial_fields compute_steps_fields compute_density_fields)
  have steps: "bootstrap_steps s0 (0, 2) = max step_nb (trunc (real_of_int step_nb * 3))"
    by (simp only: s0_def mark_initial_fields compute_steps_fields P example_grid_density[OF pc])
       simp
  show ?thesis
    by (rule exI[of _ s0])
       (simp add: pr keep pc steps e1 e2 example_ramp_grid_counts_def example_ramp_counts_def)
qed

theorem low_count_bins_flagged_and_never_revisited_witness:
  "\<exists>gs rs.
     prepare (grid_process example_ramp_sampler [0, 1, 2, 4] [0, 1])
       (grid_params [0, 1, 2, 4] [0, 1] [1, 2] 5 6 2 (1 / 10))
       (grid_bin_areas [0, 1, 2, 4] [0, 1]) (initial_acc 5 (7::int)) = Inr gs
   \<and> point_counts gs (0, 1) = 10 \<and> bin_status gs (0, 1)
   \<and> list_all (\<lambda>s. bin_status s (0, 1) \<and> bin_bootstraps s (0, 1) = 5)
        (loop_states (grid_process example_ramp_sampler [0, 1, 2, 4] [0, 1])
           (grid_params [0, 1, 2, 4] [0, 1] [1, 2] 5 6 2 (1 / 10)) 2 gs)
   \<and> prepare (iso_process example_ramp_sampler [0, 1, 2, 4] (theta_edges 2))
       (iso_params [0, 1, 2, 4] [1, 2] 5 6 2 (1 / 10))
       (iso_bin_areas [0, 1, 2, 4]) (initial_iso_acc 5 (7::int)) = Inr rs
   \<and> point_counts rs 1 = 10 \<and> bin_status rs 1
   \<and> list_all (\<lambda>s. bin_status s 1 \<and> bin_bootstraps s 1 = 5)
        (loop_states (iso_process example_ramp_sampler [0, 1, 2, 4] (theta_edges 2))
           (iso_params [0, 1, 2, 4] [1, 2] 5 6 2 (1 / 10)) 2 rs)"
proof -
  from example_grid_prepare[of 6 2 7] obtain gs where
    g: "prepare (grid_process example_ramp_sampler [0, 1, 2, 4] [0, 1])
         (grid_params [0, 1, 2, 4] [0, 1] [1, 2] 5 6 2 (1 / 10))
         (grid_bin_areas [0, 1, 2, 4] [0, 1]) (initial_acc 5 (7::int)) = Inr gs"
    and gc: "point_counts gs (0, 1) = 10"
    by (auto simp: example_ramp_grid_counts_def example_ramp_counts_def)
  from example_iso_prepare[of "theta_edges 2" 6 2 7] obtain rs where
    r: "prepare (iso_process example_ramp_sampler [0, 1, 2, 4] (theta_edges 2))
         (iso_params [0, 1, 2, 4] [1, 2] 5 6 2 (1 / 10))
         (iso_bin_areas [0, 1, 2, 4]) (initial_iso_acc 5 (7::int)) = Inr rs"
    and rc: "point_counts rs 1 = 10"
    by (auto simp: example_ramp_counts_def)
  from low_count_bins_flagged_and_never_revisited[of example_ramp_sampler "[0, 1, 2, 4]" "[0, 1]"
      "[1, 2]" 5 6 2 "1 / 10" 7 gs "(0, 1)" 2 "[0, 1, 2, 4]" "theta_edges 2" rs 1] g gc r rc
  show ?thesis
    by (intro exI[of _ gs] exI[of _ rs]) (simp add: list_all_iff)
qed

lemma example_ramp_setup_fields:
  "core_num_bootstrappable example_ramp_setup = 1"
  "core_all_spacings example_ramp_setup = [1, 2]"
  by (simp_all add: example_ramp_setup_def)

lemma example_ramp_isotropic:
  "get_isotropic_sf_2d example_shift_utils example_random example_ramp_setup [''T''] (Single 2)
     (Some [(''r'', [0, 1, 2, 4])]) initial_nb max_nb step_nb ''scalar'' 2 eps fuel g
   = map_option (map_sum id (\<lambda>s. IsoAdaptive (iso_output_of s)))
       (iso_adaptive example_ramp_sampler [0, 1, 2, 4] (theta_edges 2)
          (iso_params [0, 1, 2, 4] [1, 2] initial_nb max_nb step_nb eps) fuel g)"
  by (simp add: get_isotropic_sf_2d_def example_ramp_setup_fields example_ramp_sampler_def)

theorem low_count_bin_mean_counterexample:
  "\<exists>out. get_isotropic_sf_2d example_shift_utils example_random example_ramp_setup [''T'']
            (Single 2) (Some [(''r'', [0, 1, 2, 4])]) 5 5 2 ''scalar'' 2 (1 / 10) 0 7
          = Some (Inr (IsoAdaptive out))
        \<and> iso_point_counts out 1 = 10 \<and> iso_converged out 1 \<and> iso_sf out 1 = Some 8"
proof -
  from example_iso_prepare[of "theta_edges 2" 5 2 7] obtain s0 where
    p: "prepare (iso_process example_ramp_sampler [0, 1, 2, 4] (theta_edges 2))
         (iso_params [0, 1, 2, 4] [1, 2] 5 5 2 (1 / 10))
         (iso_bin_areas [0, 1, 2, 4]) (initial_iso_acc 5 (7::int)) = Inr s0"
    and pc: "point_counts s0 = (\<lambda>j. 10 * example_ramp_counts j)"
    and wt: "weight_totals s0 = (\<lambda>j. 10 * example_ramp_weights j)"
    and sf: "sf_totals s0 = (\<lambda>j. 10 * example_ramp_sums j)"
    and bb: "bin_bootstraps s0 = (\<lambda>_. 5)"
    and st: "bin_status s0 = (\<lambda>j. j \<noteq> 2)"
    by blast
  have c: "filter (unconverged (iso_params [0, 1, 2, 4] [1, 2] 5 5 2 (1 / 10)) s0)
          (all_bins (iso_params [0, 1, 2, 4] [1, 2] 5 5 2 (1 / 10))) = []"
    by (simp add: unconverged_def iso_params_fields bb)
  have loop: "refinement_loop (iso_process example_ramp_sampler [0, 1, 2, 4] (theta_edges 2))
                (iso_params [0, 1, 2, 4] [1, 2] 5 5 2 (1 / 10)) 0 s0 = Some (Inr s0)"
    unfolding refinement_loop.simps c by simp
  have run: "get_isotropic_sf_2d example_shift_utils example_random example_ramp_setup [''T'']
            (Single 2) (Some [(''r'', [0, 1, 2, 4])]) 5 5 2 ''scalar'' 2 (1 / 10) 0 7
          = Some (Inr (IsoAdaptive (iso_output_of s0)))"
    by (simp add: example_ramp_isotropic iso_adaptive_def p loop iso_params_fields
        del: refinement_loop.simps)
  show ?thesis
    by (rule exI[of _ "iso_output_of s0"])
       (simp add: run iso_output_of_def calculate_bin_statistics_def Let_def pc wt sf st
          example_ramp_counts_def example_ramp_weights_def example_ramp_sums_def)
qed

section \<open>The consumed-bootstrap counters of the two engines\<close>









section \<open>The end of the refinement loop\<close>







end
